theory Spec2Isabelle
  imports Complex_Main "HOL-Library.Sublist" "HOL-Library.List_Lexorder" "HOL-Library.Multiset"
begin

section \<open>Strings and the Python runtime\<close>

text \<open>
  A Python \<^verbatim>\<open>str\<close> is a sequence of Unicode code points, so it is modelled as a list of
  naturals. Warehouse and cluster names are Cyrillic; they are written as code-point
  lists (Cyrillic small a is 1072, capital A is 1040, small yo is 1105) with a
  transliteration beside them. ASCII literals are written \<open>u ''...''\<close>.
\<close>

type_synonym ustring = "nat list"

definition u :: "string \<Rightarrow> ustring" where
  "u s = map of_char s"

text \<open>
  Calendar dates are modelled by their proleptic Gregorian ordinal
  (\<^verbatim>\<open>date.toordinal()\<close>): comparison of dates is comparison of ordinals and
  \<^verbatim>\<open>today - timedelta(days=n)\<close> is subtraction. A \<^verbatim>\<open>datetime\<close> carries its date
  and the time of day, of which only the date is read.
\<close>

type_synonym date = int

record datetime =
  dt_date :: date
  dt_time :: nat

text \<open>
  The library functions the script calls are taken as parameters, collected in one
  record: \<^verbatim>\<open>str.lower\<close>, \<^verbatim>\<open>str.upper\<close>, the built-in \<^verbatim>\<open>hash\<close> on strings (salted
  per process by the interpreter), \<^verbatim>\<open>datetime.fromisoformat\<close> and
  \<^verbatim>\<open>datetime.strptime(_, '%Y-%m-%d')\<close> (\<open>None\<close> where they raise \<^verbatim>\<open>ValueError\<close>),
  and the rounding of an exact result to a double that every float operation ends with.
\<close>

record runtime =
  str_lower :: "ustring \<Rightarrow> ustring"
  str_upper :: "ustring \<Rightarrow> ustring"
  str_hash :: "ustring \<Rightarrow> int"
  fromisoformat :: "ustring \<Rightarrow> datetime option"
  strptime_ymd :: "ustring \<Rightarrow> datetime option"
  fround :: "rat \<Rightarrow> rat"

text \<open>
  A Python number is an \<^verbatim>\<open>int\<close> (unbounded, exact) or a \<^verbatim>\<open>float\<close> (a double,
  given by its rational value; infinities and NaN are left out). An operation on two
  ints is exact; when a float takes part, the operands are taken as floats and the
  exact result is rounded. Comparison and truth value go by the value.
\<close>

datatype pynum = PyInt int | PyFloat rat

fun num_val :: "pynum \<Rightarrow> rat" where
  "num_val (PyInt n) = of_int n"
| "num_val (PyFloat v) = v"

fun py_float :: "runtime \<Rightarrow> pynum \<Rightarrow> pynum" where
  "py_float L (PyInt n) = PyFloat (fround L (of_int n))"
| "py_float L (PyFloat v) = PyFloat v"

fun py_int :: "pynum \<Rightarrow> int" where
  "py_int (PyInt n) = n"
| "py_int (PyFloat v) = (if 0 \<le> v then \<lfloor>v\<rfloor> else \<lceil>v\<rceil>)"

fun py_add :: "runtime \<Rightarrow> pynum \<Rightarrow> pynum \<Rightarrow> pynum" where
  "py_add L (PyInt a) (PyInt b) = PyInt (a + b)"
| "py_add L x y = PyFloat (fround L (num_val (py_float L x) + num_val (py_float L y)))"

fun py_mul :: "runtime \<Rightarrow> pynum \<Rightarrow> pynum \<Rightarrow> pynum" where
  "py_mul L (PyInt a) (PyInt b) = PyInt (a * b)"
| "py_mul L x y = PyFloat (fround L (num_val (py_float L x) * num_val (py_float L y)))"

fun py_abs :: "pynum \<Rightarrow> pynum" where
  "py_abs (PyInt n) = PyInt \<bar>n\<bar>"
| "py_abs (PyFloat v) = PyFloat \<bar>v\<bar>"

text \<open>
  \<^verbatim>\<open>sum(xs)\<close>: the running sum from the int 0, left to right (as CPython up to 3.11
  adds floats), and \<^verbatim>\<open>x or 0\<close> on a number.
\<close>

definition py_sum :: "runtime \<Rightarrow> pynum list \<Rightarrow> pynum" where
  "py_sum L xs = foldl (py_add L) (PyInt 0) xs"

definition num_or_0 :: "pynum \<Rightarrow> pynum" where
  "num_or_0 x = (if num_val x = 0 then PyInt 0 else x)"

text \<open>\<^verbatim>\<open>s.startswith(p)\<close> and \<^verbatim>\<open>kw in s\<close> (substring test).\<close>

fun startswith :: "ustring \<Rightarrow> ustring \<Rightarrow> bool" where
  "startswith s [] = True"
| "startswith [] (p # ps) = False"
| "startswith (c # cs) (p # ps) = (c = p \<and> startswith cs ps)"

fun str_in :: "ustring \<Rightarrow> ustring \<Rightarrow> bool" where
  "str_in kw [] = (kw = [])"
| "str_in kw (c # cs) = (startswith (c # cs) kw \<or> str_in kw cs)"

section \<open>Classifier: \<^verbatim>\<open>get_warehouse_cluster\<close>\<close>

text \<open>
  The two cluster tables are Python dict literals; iteration follows insertion order,
  so each is an association list in the declared order.
\<close>

definition WB_CLUSTERS :: "(ustring \<times> ustring list) list" where
  "WB_CLUSTERS = [
    \<comment> \<open>Centralnyj\<close>
    ([1062, 1077, 1085, 1090, 1088, 1072, 1083, 1100, 1085, 1099, 1081],
     [[1087, 1091, 1096, 1082, 1080, 1085, 1086],
      [1074, 1105, 1096, 1082, 1080],
      [1074, 1077, 1096, 1082, 1080],
      [1080, 1074, 1072, 1085, 1086, 1074, 1086],
      [1087, 1086, 1076, 1086, 1083, 1100, 1089, 1082],
      [1088, 1072, 1076, 1091, 1084, 1083, 1103],
      [1086, 1073, 1091, 1093, 1086, 1074, 1086],
      [1095, 1072, 1096, 1085, 1080, 1082, 1086, 1074, 1086],
      [1074, 1086, 1088, 1086, 1085, 1077, 1078],
      [1080, 1089, 1090, 1088, 1072],
      [1082, 1086, 1083, 1077, 1076, 1080, 1085, 1086],
      [1076, 1086, 1084, 1086, 1076, 1077, 1076, 1086, 1074, 1086],
      [1085, 1080, 1082, 1086, 1083, 1100, 1089, 1082, 1086, 1077],
      [1090, 1074, 1077, 1088, 1100],
      [1075, 1086, 1083, 1080, 1094, 1099, 1085, 1086],
      [1089, 1086, 1092, 1100, 1080, 1085, 1086],
      [1103, 1088, 1086, 1089, 1083, 1072, 1074, 1083, 1100],
      [1094, 1080, 1092, 1088, 1086, 1074, 1086, 1081],
      [1088, 1103, 1079, 1072, 1085, 1100],
      [1090, 1102, 1096, 1077, 1074, 1089, 1082, 1086, 1077],
      [1089, 1072, 1073, 1091, 1088, 1086, 1074, 1086],
      [1074, 1083, 1072, 1076, 1080, 1084, 1080, 1088],
      [1090, 1091, 1083, 1072],
      [1082, 1086, 1090, 1086, 1074, 1089, 1082],
      [1101, 1083, 1077, 1082, 1090, 1088, 1086, 1089, 1090, 1072, 1083, 1100],
      [1073, 1077, 1083, 1072, 1103, 32, 1076, 1072, 1095, 1072],
      [1097, 1077, 1088, 1073, 1080, 1085, 1082, 1072],
      [1095, 1077, 1093, 1086, 1074]]),
    \<comment> \<open>Severo-Zapadnyj\<close>
    ([1057, 1077, 1074, 1077, 1088, 1086, 45, 1047, 1072, 1087, 1072, 1076, 1085, 1099, 1081],
     [[1074, 1086, 1083, 1086, 1075, 1076, 1072],
      [1096, 1091, 1096, 1072, 1088, 1099],
      [1082, 1088, 1072, 1089, 1085, 1099, 1081, 32, 1073, 1086, 1088],
      [1089, 1072, 1085, 1082, 1090, 45, 1087, 1077, 1090, 1077, 1088, 1073, 1091, 1088, 1075],
      [1089, 1087, 1073],
      [1091, 1090, 1082, 1080, 1085, 1072]]),
    \<comment> \<open>Privolzhskij\<close>
    ([1055, 1088, 1080, 1074, 1086, 1083, 1078, 1089, 1082, 1080, 1081],
     [[1080, 1078, 1077, 1074, 1089, 1082],
      [1082, 1091, 1079, 1085, 1077, 1094, 1082],
      [1087, 1077, 1085, 1079, 1072],
      [1089, 1072, 1084, 1072, 1088, 1072],
      [1085, 1086, 1074, 1086, 1089, 1077, 1084, 1077, 1081, 1082, 1080, 1085, 1086],
      [1089, 1072, 1088, 1072, 1087, 1091, 1083],
      [1082, 1072, 1079, 1072, 1085, 1100]]),
    \<comment> \<open>Uralskij\<close>
    ([1059, 1088, 1072, 1083, 1100, 1089, 1082, 1080, 1081],
     [[1085, 1080, 1078, 1085, 1080, 1081, 32, 1090, 1072, 1075, 1080, 1083],
      [1095, 1077, 1083, 1103, 1073, 1080, 1085, 1089, 1082],
      [1077, 1082, 1072, 1090, 1077, 1088, 1080, 1085, 1073, 1091, 1088, 1075]]),
    \<comment> \<open>Yuzhnyj + Severo-Kavkazskij\<close>
    ([1070, 1078, 1085, 1099, 1081, 32, 43, 32, 1057, 1077, 1074, 1077, 1088, 1086, 45, 1050, 1072, 1074, 1082, 1072, 1079, 1089, 1082, 1080, 1081],
     [[1082, 1088, 1099, 1083, 1086, 1074, 1089, 1082, 1072, 1103],
      [1082, 1088, 1072, 1089, 1085, 1086, 1076, 1072, 1088],
      [1074, 1086, 1083, 1075, 1086, 1075, 1088, 1072, 1076],
      [1085, 1077, 1074, 1080, 1085, 1085, 1086, 1084, 1099, 1089, 1089, 1082],
      [1090, 1080, 1093, 1086, 1088, 1077, 1094, 1082, 1072, 1103]]),
    \<comment> \<open>Dalnevostochnyj + Sibirskij\<close>
    ([1044, 1072, 1083, 1100, 1085, 1077, 1074, 1086, 1089, 1090, 1086, 1095, 1085, 1099, 1081, 32, 43, 32, 1057, 1080, 1073, 1080, 1088, 1089, 1082, 1080, 1081],
     [[1093, 1072, 1073, 1072, 1088, 1086, 1074, 1089, 1082],
      [1073, 1072, 1088, 1085, 1072, 1091, 1083],
      [1074, 1083, 1072, 1076, 1080, 1074, 1086, 1089, 1090, 1086, 1082],
      [1102, 1088, 1075, 1072],
      [1085, 1086, 1074, 1086, 1089, 1080, 1073, 1080, 1088, 1089, 1082]]),
    \<comment> \<open>Kazahstan\<close>
    ([1050, 1072, 1079, 1072, 1093, 1089, 1090, 1072, 1085],
     [[1073, 1072, 1081, 1089, 1077, 1088, 1082, 1077],
      [1072, 1090, 1072, 1082, 1077, 1085, 1090],
      [1072, 1082, 1090, 1086, 1073, 1077],
      [1072, 1089, 1090, 1072, 1085, 1072]]),
    \<comment> \<open>Belarus\<close>
    ([1041, 1077, 1083, 1072, 1088, 1091, 1089, 1100],
     [[1084, 1080, 1085, 1089, 1082],
      [1073, 1088, 1077, 1089, 1090],
      [1075, 1088, 1086, 1076, 1085, 1086]]),
    \<comment> \<open>Uzbekistan\<close>
    ([1059, 1079, 1073, 1077, 1082, 1080, 1089, 1090, 1072, 1085],
     [[1090, 1072, 1096, 1082, 1077, 1085, 1090]]),
    \<comment> \<open>Armeniya\<close>
    ([1040, 1088, 1084, 1077, 1085, 1080, 1103],
     [[1077, 1088, 1077, 1074, 1072, 1085]]),
    \<comment> \<open>Gruziya\<close>
    ([1043, 1088, 1091, 1079, 1080, 1103],
     [[1090, 1073, 1080, 1083, 1080, 1089, 1080]])
  ]"

definition OZON_CLUSTERS :: "(ustring \<times> ustring list) list" where
  "OZON_CLUSTERS = [
    \<comment> \<open>Moskva, MO i Dalnie regiony\<close>
    ([1052, 1086, 1089, 1082, 1074, 1072, 44, 32, 1052, 1054, 32, 1080, 32, 1044, 1072, 1083, 1100, 1085, 1080, 1077, 32, 1088, 1077, 1075, 1080, 1086, 1085, 1099],
     [[1093, 1086, 1088, 1091, 1075, 1074, 1080, 1085, 1086],
      [1085, 1086, 1075, 1080, 1085, 1089, 1082],
      [1087, 1091, 1096, 1082, 1080, 1085, 1086],
      [1089, 1086, 1092, 1100, 1080, 1085, 1086],
      [1088, 1072, 1076, 1091, 1084, 1083, 1103],
      [1087, 1072, 1074, 1083, 1086],
      [1089, 1083, 1086, 1073, 1086, 1076, 1089, 1082, 1086, 1077],
      [1087, 1077, 1090, 1088, 1086, 1074, 1089, 1082, 1086, 1077],
      [1078, 1091, 1082, 1086, 1074, 1089, 1082, 1080, 1081],
      [1076, 1086, 1084, 1086, 1076, 1077, 1076, 1086, 1074, 1086],
      [1075, 1088, 1080, 1074, 1085, 1086]]),
    \<comment> \<open>Sankt-Peterburg i SZO\<close>
    ([1057, 1072, 1085, 1082, 1090, 45, 1055, 1077, 1090, 1077, 1088, 1073, 1091, 1088, 1075, 32, 1080, 32, 1057, 1047, 1054],
     [[1082, 1086, 1083, 1087, 1080, 1085, 1086],
      [1096, 1091, 1096, 1072, 1088, 1099],
      [1074, 1086, 1083, 1093, 1086, 1085, 1082, 1072],
      [1089, 1072, 1085, 1082, 1090, 45, 1087, 1077, 1090, 1077, 1088, 1073, 1091, 1088, 1075],
      [1089, 1087, 1073],
      [1073, 1091, 1075, 1088, 1099]]),
    \<comment> \<open>Kazan\<close>
    ([1050, 1072, 1079, 1072, 1085, 1100],
     [[1082, 1072, 1079, 1072, 1085, 1100],
      [1082, 1079, 1085],
      [1089, 1090, 1086, 1083, 1073, 1080, 1097, 1077],
      [1085, 1080, 1078, 1085, 1080, 1081, 32, 1085, 1086, 1074, 1075, 1086, 1088, 1086, 1076]]),
    \<comment> \<open>Samara\<close>
    ([1057, 1072, 1084, 1072, 1088, 1072],
     [[1089, 1072, 1084, 1072, 1088, 1072]]),
    \<comment> \<open>Ufa\<close>
    ([1059, 1092, 1072],
     [[1091, 1092, 1072]]),
    \<comment> \<open>Orenburg\<close>
    ([1054, 1088, 1077, 1085, 1073, 1091, 1088, 1075],
     [[1086, 1088, 1077, 1085, 1073, 1091, 1088, 1075]]),
    \<comment> \<open>Krasnodar\<close>
    ([1050, 1088, 1072, 1089, 1085, 1086, 1076, 1072, 1088],
     [[1072, 1076, 1099, 1075, 1077, 1081, 1089, 1082],
      [1102, 1078, 1085, 1099, 1081, 32, 1086, 1073, 1093, 1086, 1076],
      [1085, 1086, 1074, 1086, 1088, 1086, 1089, 1089, 1080, 1081, 1089, 1082]]),
    \<comment> \<open>Rostov\<close>
    ([1056, 1086, 1089, 1090, 1086, 1074],
     [[1088, 1086, 1089, 1090, 1086, 1074]]),
    \<comment> \<open>Voronezh\<close>
    ([1042, 1086, 1088, 1086, 1085, 1077, 1078],
     [[1074, 1086, 1088, 1086, 1085, 1077, 1078]]),
    \<comment> \<open>Saratov\<close>
    ([1057, 1072, 1088, 1072, 1090, 1086, 1074],
     [[1074, 1086, 1083, 1075, 1086, 1075, 1088, 1072, 1076],
      [1089, 1072, 1088, 1072, 1090, 1086, 1074]]),
    \<comment> \<open>Nevinnomyssk\<close>
    ([1053, 1077, 1074, 1080, 1085, 1085, 1086, 1084, 1099, 1089, 1089, 1082],
     [[1085, 1077, 1074, 1080, 1085, 1085, 1086, 1084, 1099, 1089, 1089, 1082]]),
    \<comment> \<open>Mahachkala\<close>
    ([1052, 1072, 1093, 1072, 1095, 1082, 1072, 1083, 1072],
     [[1084, 1072, 1093, 1072, 1095, 1082, 1072, 1083, 1072]]),
    \<comment> \<open>Krasnoyarsk\<close>
    ([1050, 1088, 1072, 1089, 1085, 1086, 1103, 1088, 1089, 1082],
     [[1082, 1088, 1072, 1089, 1085, 1086, 1103, 1088, 1089, 1082]]),
    \<comment> \<open>Novosibirsk\<close>
    ([1053, 1086, 1074, 1086, 1089, 1080, 1073, 1080, 1088, 1089, 1082],
     [[1085, 1086, 1074, 1086, 1089, 1080, 1073, 1080, 1088, 1089, 1082]]),
    \<comment> \<open>Omsk\<close>
    ([1054, 1084, 1089, 1082],
     [[1086, 1084, 1089, 1082]]),
    \<comment> \<open>Ekaterinburg\<close>
    ([1045, 1082, 1072, 1090, 1077, 1088, 1080, 1085, 1073, 1091, 1088, 1075],
     [[1077, 1082, 1072, 1090, 1077, 1088, 1080, 1085, 1073, 1091, 1088, 1075]]),
    \<comment> \<open>Perm\<close>
    ([1055, 1077, 1088, 1084, 1100],
     [[1087, 1077, 1088, 1084, 1100]]),
    \<comment> \<open>Tyumen\<close>
    ([1058, 1102, 1084, 1077, 1085, 1100],
     [[1090, 1102, 1084, 1077, 1085, 1100]]),
    \<comment> \<open>Dalnij Vostok\<close>
    ([1044, 1072, 1083, 1100, 1085, 1080, 1081, 32, 1042, 1086, 1089, 1090, 1086, 1082],
     [[1093, 1072, 1073, 1072, 1088, 1086, 1074, 1089, 1082]]),
    \<comment> \<open>Tver\<close>
    ([1058, 1074, 1077, 1088, 1100],
     [[1090, 1074, 1077, 1088, 1100]]),
    \<comment> \<open>Yaroslavl\<close>
    ([1071, 1088, 1086, 1089, 1083, 1072, 1074, 1083, 1100],
     [[1103, 1088, 1086, 1089, 1083, 1072, 1074, 1083, 1100]]),
    \<comment> \<open>Kaliningrad\<close>
    ([1050, 1072, 1083, 1080, 1085, 1080, 1085, 1075, 1088, 1072, 1076],
     [[1082, 1072, 1083, 1080, 1085, 1080, 1085, 1075, 1088, 1072, 1076]]),
    \<comment> \<open>Belarus\<close>
    ([1041, 1077, 1083, 1072, 1088, 1091, 1089, 1100],
     [[1084, 1080, 1085, 1089, 1082]]),
    \<comment> \<open>Astana\<close>
    ([1040, 1089, 1090, 1072, 1085, 1072],
     [[1072, 1089, 1090, 1072, 1085, 1072]]),
    \<comment> \<open>Almaty\<close>
    ([1040, 1083, 1084, 1072, 1090, 1099],
     [[1072, 1083, 1084, 1072, 1090, 1099]]),
    \<comment> \<open>Armeniya\<close>
    ([1040, 1088, 1084, 1077, 1085, 1080, 1103],
     [[1077, 1088, 1077, 1074, 1072, 1085]])
  ]"

text \<open>The value returned when no keyword matches: the string Prochie.\<close>

definition fallback_cluster :: ustring where
  "fallback_cluster = [1055, 1088, 1086, 1095, 1080, 1077]"

text \<open>
  The inner loop \<^verbatim>\<open>for keyword in keywords: if keyword in name: return cluster_name\<close>
  (\<open>True\<close> when the \<^verbatim>\<open>return\<close> is reached) and the outer loop over
  \<^verbatim>\<open>clusters.items()\<close>.
\<close>

fun scan_keywords :: "ustring list \<Rightarrow> ustring \<Rightarrow> bool" where
  "scan_keywords [] name = False"
| "scan_keywords (keyword # keywords) name =
     (if str_in keyword name then True else scan_keywords keywords name)"

fun scan_clusters :: "(ustring \<times> ustring list) list \<Rightarrow> ustring \<Rightarrow> ustring option" where
  "scan_clusters [] name = None"
| "scan_clusters ((cluster_name, keywords) # clusters) name =
     (if scan_keywords keywords name then Some cluster_name
      else scan_clusters clusters name)"

definition clusters_of :: "ustring \<Rightarrow> (ustring \<times> ustring list) list" where
  "clusters_of mp_type = (if mp_type = u ''wb'' then WB_CLUSTERS else OZON_CLUSTERS)"

definition get_warehouse_cluster :: "runtime \<Rightarrow> ustring \<Rightarrow> ustring \<Rightarrow> ustring" where
  "get_warehouse_cluster L warehouse_name mp_type =
     (let name = str_lower L warehouse_name;
          clusters = clusters_of mp_type
      in case scan_clusters clusters name of
           Some cluster_name \<Rightarrow> cluster_name
         | None \<Rightarrow> fallback_cluster)"

section \<open>Colorizer: \<^verbatim>\<open>get_article_color\<close>\<close>

definition color_map :: "(ustring \<times> ustring) list" where
  "color_map =
    [(u ''SF0125'', u ''#614701''),
     (u ''SF0250'', u ''#80651b''),
     (u ''SF0500'', u ''#b38c24''),
     (u ''SF2500'', u ''#b38c24''),
     (u ''SM0250'', u ''#78011b''),
     (u ''SM0500'', u ''#78011b''),
     (u ''FSF300'', u ''#015054'')]"

definition fallback_colors :: "ustring list" where
  "fallback_colors = [u ''#6366f1'', u ''#14b8a6'', u ''#f97316'', u ''#ef4444'', u ''#22c55e'']"

text \<open>
  \<^verbatim>\<open>hash(article) % len(fallback_colors)\<close>: Python's \<^verbatim>\<open>%\<close> with a positive modulus
  is non-negative, as \<open>mod\<close> on \<open>int\<close> is, so the index is always in range.
\<close>

definition get_article_color :: "runtime \<Rightarrow> ustring \<Rightarrow> ustring" where
  "get_article_color L article =
     (let article_upper = str_upper L article in
      case map_of color_map article_upper of
        Some color \<Rightarrow> color
      | None \<Rightarrow>
          if startswith article_upper (u ''FSF'') then u ''#015054''
          else if startswith article_upper (u ''SF'') then u ''#80651b''
          else if startswith article_upper (u ''SM'') then u ''#78011b''
          else fallback_colors ! nat (str_hash L article mod int (length fallback_colors)))"

section \<open>PeriodFilter: \<^verbatim>\<open>parse_date\<close> and the period loops of \<^verbatim>\<open>prepare\<close>\<close>

text \<open>
  The ordinal of a calendar date, as \<^verbatim>\<open>date(y, m, d).toordinal()\<close> computes it
  (CPython's \<^verbatim>\<open>_ymd2ord\<close>, for a month from 1 to 12); used to write concrete dates.
\<close>

definition is_leap :: "int \<Rightarrow> bool" where
  "is_leap year = (year mod 4 = 0 \<and> (year mod 100 \<noteq> 0 \<or> year mod 400 = 0))"

definition days_before_year :: "int \<Rightarrow> int" where
  "days_before_year year =
     (let y = year - 1 in y * 365 + y div 4 - y div 100 + y div 400)"

definition days_before_month :: "int \<Rightarrow> nat \<Rightarrow> int" where
  "days_before_month year month =
     [- 1, 0, 31, 59, 90, 120, 151, 181, 212, 243, 273, 304, 334] ! month
     + (if month > 2 \<and> is_leap year then 1 else 0)"

definition ymd2ord :: "int \<Rightarrow> nat \<Rightarrow> int \<Rightarrow> date" where
  "ymd2ord year month day = days_before_year year + days_before_month year month + day"

text \<open>\<^verbatim>\<open>date_str.replace('Z', '+00:00')\<close>\<close>

definition replace_Z :: "ustring \<Rightarrow> ustring" where
  "replace_Z s = concat (map (\<lambda>c. if c = 90 then u ''+00:00'' else [c]) s)"

text \<open>
  \<^verbatim>\<open>parse_date\<close>: \<open>None\<close> for a missing or empty string; otherwise the ISO parser
  on the string with Z replaced, and on its \<^verbatim>\<open>ValueError\<close> the plain
  \<^verbatim>\<open>%Y-%m-%d\<close> parser on the original string, and \<open>None\<close> when that fails too.
\<close>

definition parse_date :: "runtime \<Rightarrow> ustring option \<Rightarrow> datetime option" where
  "parse_date L date_str =
     (case date_str of
        None \<Rightarrow> None
      | Some s \<Rightarrow>
          if s = [] then None
          else (case fromisoformat L (replace_Z s) of
                  Some dt \<Rightarrow> Some dt
                | None \<Rightarrow> strptime_ymd L s))"

text \<open>
  An entry of \<^verbatim>\<open>periods_config\<close>. The key \<^verbatim>\<open>exact_day\<close> is present in the
  yesterday entry only, so it is an option; \<^verbatim>\<open>p.get('exact_day')\<close> is truthy
  exactly for \<open>Some True\<close>.
\<close>

record period =
  p_key :: ustring
  p_days :: int
  p_exact_day :: "bool option"
  p_label :: ustring

definition periods_config :: "period list" where
  "periods_config =
    [\<lparr>p_key = u ''today'', p_days = 0, p_exact_day = None,
      p_label = [1057, 1077, 1075, 1086, 1076, 1085, 1103]\<rparr>,
     \<lparr>p_key = u ''yesterday'', p_days = 1, p_exact_day = Some True,
      p_label = [1042, 1095, 1077, 1088, 1072]\<rparr>,
     \<lparr>p_key = u ''days_3'', p_days = 2, p_exact_day = None,
      p_label = [51, 32, 1076, 1085, 1103]\<rparr>,
     \<lparr>p_key = u ''days_7'', p_days = 6, p_exact_day = None,
      p_label = [55, 32, 1076, 1085, 1077, 1081]\<rparr>,
     \<lparr>p_key = u ''days_30'', p_days = 29, p_exact_day = None,
      p_label = [51, 48, 32, 1076, 1085, 1077, 1081]\<rparr>]"

text \<open>
  The test applied to a parsed date \<open>d\<close>:
  \<^verbatim>\<open>if p.get('exact_day'): d == today - timedelta(days=p['days'])\<close>
  \<^verbatim>\<open>else: d >= today - timedelta(days=p['days'])\<close>.
\<close>

definition in_period :: "period \<Rightarrow> date \<Rightarrow> date \<Rightarrow> bool" where
  "in_period p today d =
     (if p_exact_day p = Some True then d = today - p_days p
      else d \<ge> today - p_days p)"

text \<open>
  The filtering loop, which \<^verbatim>\<open>prepare\<close> repeats for WB orders, WB sales, Ozon
  orders and Ozon finance transactions; they differ in the date field read, passed
  here as \<open>get_date\<close>. An item whose date does not parse is skipped
  (\<^verbatim>\<open>if not dt: continue\<close>); the others are appended in input order.
\<close>

fun filter_period :: "runtime \<Rightarrow> ('a \<Rightarrow> ustring option) \<Rightarrow> period \<Rightarrow> date \<Rightarrow> 'a list \<Rightarrow> 'a list" where
  "filter_period L get_date p today [] = []"
| "filter_period L get_date p today (item # items) =
     (case parse_date L (get_date item) of
        None \<Rightarrow> filter_period L get_date p today items
      | Some dt \<Rightarrow>
          if in_period p today (dt_date dt)
          then item # filter_period L get_date p today items
          else filter_period L get_date p today items)"

text \<open>\<^verbatim>\<open>a or b\<close> on optional strings: \<open>a\<close> when it is present and non-empty.\<close>

definition str_or :: "ustring option \<Rightarrow> ustring option \<Rightarrow> ustring option" where
  "str_or a b = (case a of Some s \<Rightarrow> if s \<noteq> [] then Some s else b | None \<Rightarrow> b)"

section \<open>Aggregator: \<^verbatim>\<open>aggregate_sales_data\<close>\<close>

text \<open>
  A Python dict keeps its keys in insertion order, so it is an association list; a key
  occurs once. \<open>dict_setdefault\<close> is \<^verbatim>\<open>if k not in d: d[k] = init\<close> (a new key goes
  to the end) and \<open>dict_modify\<close> is an in-place change of \<^verbatim>\<open>d[k]\<close>.
\<close>

type_synonym ('k, 'v) dict = "('k \<times> 'v) list"

fun dict_setdefault :: "'k \<Rightarrow> 'v \<Rightarrow> ('k, 'v) dict \<Rightarrow> ('k, 'v) dict" where
  "dict_setdefault k init [] = [(k, init)]"
| "dict_setdefault k init ((k', v) # d) =
     (if k' = k then (k', v) # d else (k', v) # dict_setdefault k init d)"

fun dict_modify :: "'k \<Rightarrow> ('v \<Rightarrow> 'v) \<Rightarrow> ('k, 'v) dict \<Rightarrow> ('k, 'v) dict" where
  "dict_modify k f [] = []"
| "dict_modify k f ((k', v) # d) =
     (if k' = k then (k', f v) # d else (k', v) # dict_modify k f d)"

text \<open>\<^verbatim>\<open>d[k] = v\<close>: the value of an existing key is replaced, a new key goes to the end.\<close>

definition dict_set :: "'k \<Rightarrow> 'v \<Rightarrow> ('k, 'v) dict \<Rightarrow> ('k, 'v) dict" where
  "dict_set k v d = dict_modify k (\<lambda>_. v) (dict_setdefault k v d)"

definition dict_values :: "('k, 'v) dict \<Rightarrow> 'v list" where
  "dict_values d = map snd d"

text \<open>\<^verbatim>\<open>d.get(key, default)\<close> on a field that may be absent.\<close>

definition get_or :: "'a option \<Rightarrow> 'a \<Rightarrow> 'a" where
  "get_or field dflt = (case field of None \<Rightarrow> dflt | Some v \<Rightarrow> v)"

text \<open>
  \<^verbatim>\<open>sorted(xs, key=key, reverse=True)\<close>. CPython sorts stably, and with
  \<^verbatim>\<open>reverse=True\<close> it reverses the list, sorts it stably in ascending order and
  reverses the result, so that equal keys keep their original order.
\<close>

definition sorted_reverse :: "('a \<Rightarrow> 'k::linorder) \<Rightarrow> 'a list \<Rightarrow> 'a list" where
  "sorted_reverse key xs = rev (sort_key key (rev xs))"

text \<open>
  The records of the raw documents. A record is a JSON object read with
  \<^verbatim>\<open>.get\<close>, so every field may be absent (\<open>None\<close>). An order carries the WB
  fields and the Ozon fields; which of them are read depends on \<^verbatim>\<open>mp_type\<close>.
  Prices and quantities are numbers; a price or quantity that the raw document gives
  as a numeric string stands here as the number that \<^verbatim>\<open>float\<close> or \<^verbatim>\<open>int\<close> reads
  from it.
\<close>

record fin_product =
  fp_price :: "pynum option"
  fp_quantity :: "pynum option"

record financial_data =
  fd_products :: "fin_product list option"
  fd_cluster_to :: "ustring option"

record analytics_data =
  ad_warehouse_name :: "ustring option"
  ad_city :: "ustring option"

record order_product =
  op_offer_id :: "ustring option"
  op_price :: "pynum option"
  op_quantity :: "pynum option"

record order =
  o_priceWithDisc :: "pynum option"
  o_warehouseName :: "ustring option"
  o_regionName :: "ustring option"
  o_supplierArticle :: "ustring option"
  o_date :: "ustring option"
  o_dateFull :: "ustring option"
  o_forPay :: "pynum option"
  o_financial_data :: "financial_data option"
  o_analytics_data :: "analytics_data option"
  o_products :: "order_product list option"
  o_created_at :: "ustring option"

text \<open>
  The accumulators. \<open>entry\<close> is \<^verbatim>\<open>{'name', 'count', 'revenue'}\<close> (the key is
  \<^verbatim>\<open>'article'\<close> instead of \<^verbatim>\<open>'name'\<close> in product entries); a \<open>bucket\<close> has in
  addition the nested dict \<^verbatim>\<open>'by_product'\<close> or \<^verbatim>\<open>'by_warehouse'\<close>. In the result
  the nested dict is replaced by the sorted list of its values (\<open>out_bucket\<close>).
\<close>

record entry =
  e_name :: ustring
  e_count :: int
  e_revenue :: pynum

record bucket = entry +
  b_breakdown :: "(ustring, entry) dict"

record out_bucket = entry +
  ob_breakdown :: "entry list"

record agg_state =
  total_revenue :: pynum
  orders_count :: int
  by_warehouse :: "(ustring, bucket) dict"
  by_region :: "(ustring, entry) dict"
  by_product :: "(ustring, bucket) dict"

record agg_result =
  r_revenue :: pynum
  r_orders_count :: int
  sales_by_warehouse :: "out_bucket list"
  sales_by_region :: "entry list"
  sales_by_product :: "out_bucket list"

definition Unknown :: ustring where
  "Unknown = u ''Unknown''"

definition new_entry :: "ustring \<Rightarrow> entry" where
  "new_entry n = \<lparr>e_name = n, e_count = 0, e_revenue = PyInt 0\<rparr>"

definition new_bucket :: "ustring \<Rightarrow> bucket" where
  "new_bucket n = \<lparr>e_name = n, e_count = 0, e_revenue = PyInt 0, b_breakdown = []\<rparr>"

text \<open>\<^verbatim>\<open>x['count'] += c; x['revenue'] += r\<close>\<close>

definition add_to :: "runtime \<Rightarrow> int \<Rightarrow> pynum \<Rightarrow> ('a entry_scheme) \<Rightarrow> ('a entry_scheme)" where
  "add_to L c r x = x\<lparr>e_count := e_count x + c, e_revenue := py_add L (e_revenue x) r\<rparr>"

text \<open>
  \<^verbatim>\<open>if sub not in b[...]: b[...][sub] = {..., 'count': 0, 'revenue': 0}\<close> followed by
  the two \<^verbatim>\<open>+=\<close> on that nested entry.
\<close>

definition add_breakdown :: "runtime \<Rightarrow> ustring \<Rightarrow> int \<Rightarrow> pynum \<Rightarrow> bucket \<Rightarrow> bucket" where
  "add_breakdown L sub c r b =
     b\<lparr>b_breakdown := dict_modify sub (add_to L c r)
                         (dict_setdefault sub (new_entry sub) (b_breakdown b))\<rparr>"

text \<open>
  The fields extracted from an item. WB: \<^verbatim>\<open>item.get('priceWithDisc', 0) or 0\<close> and
  the three names with default Unknown. Ozon: the price is summed over
  \<^verbatim>\<open>financial_data.products\<close> as \<^verbatim>\<open>price * quantity\<close> (defaults 0 and 1), the
  warehouse comes from \<^verbatim>\<open>analytics_data\<close>, the region is \<^verbatim>\<open>cluster_to\<close>, else
  \<^verbatim>\<open>city\<close>, else Unknown.
\<close>

definition wb_price :: "order \<Rightarrow> pynum" where
  "wb_price item = num_or_0 (get_or (o_priceWithDisc item) (PyInt 0))"

definition ozon_price :: "runtime \<Rightarrow> order \<Rightarrow> pynum" where
  "ozon_price L item =
     (let financial = o_financial_data item;
          prods = (case financial of None \<Rightarrow> [] | Some fd \<Rightarrow> get_or (fd_products fd) [])
      in foldl (\<lambda>price pr. py_add L price
                  (py_mul L (get_or (fp_price pr) (PyInt 0)) (get_or (fp_quantity pr) (PyInt 1))))
           (PyInt 0) prods)"

definition ozon_wh_name :: "order \<Rightarrow> ustring" where
  "ozon_wh_name item =
     (case o_analytics_data item of None \<Rightarrow> Unknown
      | Some ad \<Rightarrow> get_or (ad_warehouse_name ad) Unknown)"

definition ozon_region :: "order \<Rightarrow> ustring" where
  "ozon_region item =
     (let cluster_to = (case o_financial_data item of None \<Rightarrow> []
                        | Some fd \<Rightarrow> get_or (fd_cluster_to fd) []);
          city = (case o_analytics_data item of None \<Rightarrow> []
                  | Some ad \<Rightarrow> get_or (ad_city ad) []);
          region = (if cluster_to \<noteq> [] then cluster_to else city)
      in if region = [] then Unknown else region)"

definition item_price :: "runtime \<Rightarrow> ustring \<Rightarrow> order \<Rightarrow> pynum" where
  "item_price L mp_type item = (if mp_type = u ''wb'' then wb_price item else ozon_price L item)"

definition item_wh_name :: "ustring \<Rightarrow> order \<Rightarrow> ustring" where
  "item_wh_name mp_type item =
     (if mp_type = u ''wb'' then get_or (o_warehouseName item) Unknown else ozon_wh_name item)"

definition item_region :: "ustring \<Rightarrow> order \<Rightarrow> ustring" where
  "item_region mp_type item =
     (if mp_type = u ''wb'' then get_or (o_regionName item) Unknown else ozon_region item)"

definition item_article :: "order \<Rightarrow> ustring" where
  "item_article item = get_or (o_supplierArticle item) Unknown"

text \<open>
  The Ozon product loop of one order, \<^verbatim>\<open>for prod in item.get('products', [])\<close>:
  with \<^verbatim>\<open>p_price = float(prod.get('price', 0))\<close>, \<^verbatim>\<open>p_qty = int(prod.get('quantity', 1))\<close>
  and \<^verbatim>\<open>p_revenue = p_price * p_qty\<close>, count and revenue of the product's bucket and of
  its \<^verbatim>\<open>by_warehouse\<close> entry grow by \<^verbatim>\<open>p_qty\<close> and \<^verbatim>\<open>p_revenue\<close>.
\<close>

definition product_qty :: "order_product \<Rightarrow> int" where
  "product_qty pr = py_int (get_or (op_quantity pr) (PyInt 1))"

definition product_revenue :: "runtime \<Rightarrow> order_product \<Rightarrow> pynum" where
  "product_revenue L pr =
     py_mul L (py_float L (get_or (op_price pr) (PyInt 0))) (PyInt (product_qty pr))"

fun ozon_products_loop ::
  "runtime \<Rightarrow> ustring \<Rightarrow> order_product list \<Rightarrow> (ustring, bucket) dict \<Rightarrow> (ustring, bucket) dict" where
  "ozon_products_loop L wh_name [] bp = bp"
| "ozon_products_loop L wh_name (pr # prods) bp =
     (let p_article = get_or (op_offer_id pr) Unknown;
          p_qty = product_qty pr;
          p_revenue = product_revenue L pr;
          bp1 = dict_setdefault p_article (new_bucket p_article) bp;
          bp2 = dict_modify p_article (add_to L p_qty p_revenue) bp1;
          bp3 = dict_modify p_article (add_breakdown L wh_name p_qty p_revenue) bp2
      in ozon_products_loop L wh_name prods bp3)"

text \<open>The body of the main loop, for one item.\<close>

definition agg_step :: "runtime \<Rightarrow> ustring \<Rightarrow> agg_state \<Rightarrow> order \<Rightarrow> agg_state" where
  "agg_step L mp_type st item =
     (let price = item_price L mp_type item;
          wh_name = item_wh_name mp_type item;
          region = item_region mp_type item;
          article = item_article item;
          bw1 = dict_setdefault wh_name (new_bucket wh_name) (by_warehouse st);
          bw2 = dict_modify wh_name (add_to L 1 price) bw1;
          bw3 = (if mp_type = u ''wb''
                 then dict_modify wh_name (add_breakdown L article 1 price) bw2
                 else bw2);
          br1 = dict_setdefault region (new_entry region) (by_region st);
          br2 = dict_modify region (add_to L 1 price) br1;
          bp = (if mp_type = u ''wb''
                then dict_modify article (add_breakdown L wh_name 1 price)
                       (dict_modify article (add_to L 1 price)
                          (dict_setdefault article (new_bucket article) (by_product st)))
                else ozon_products_loop L wh_name (get_or (o_products item) []) (by_product st))
      in \<lparr>total_revenue = py_add L (total_revenue st) price,
          orders_count = orders_count st + 1,
          by_warehouse = bw3,
          by_region = br2,
          by_product = bp\<rparr>)"

definition agg_init :: agg_state where
  "agg_init = \<lparr>total_revenue = PyInt 0, orders_count = 0,
               by_warehouse = [], by_region = [], by_product = []\<rparr>"

fun agg_loop :: "runtime \<Rightarrow> ustring \<Rightarrow> agg_state \<Rightarrow> order list \<Rightarrow> agg_state" where
  "agg_loop L mp_type st [] = st"
| "agg_loop L mp_type st (item # sales_list) =
     agg_loop L mp_type (agg_step L mp_type st item) sales_list"

text \<open>
  The conversion of the dicts to sorted lists: warehouses and regions by revenue,
  first 15; products by revenue, all of them; the nested \<^verbatim>\<open>by_product\<close> by count and
  the nested \<^verbatim>\<open>by_warehouse\<close> by revenue. Numbers are compared by value.
\<close>

definition revenue_key :: "'a entry_scheme \<Rightarrow> rat" where
  "revenue_key x = num_val (e_revenue x)"

definition flatten_by :: "(entry \<Rightarrow> 'k::linorder) \<Rightarrow> bucket \<Rightarrow> out_bucket" where
  "flatten_by key b =
     \<lparr>e_name = e_name b, e_count = e_count b, e_revenue = e_revenue b,
      ob_breakdown = sorted_reverse key (dict_values (b_breakdown b))\<rparr>"

definition aggregate_sales_data :: "runtime \<Rightarrow> order list \<Rightarrow> ustring \<Rightarrow> agg_result" where
  "aggregate_sales_data L sales_list mp_type =
     (let st = agg_loop L mp_type agg_init sales_list;
          sorted_warehouses = take 15 (sorted_reverse revenue_key (dict_values (by_warehouse st)));
          sorted_regions = take 15 (sorted_reverse revenue_key (dict_values (by_region st)));
          sorted_products = sorted_reverse revenue_key (dict_values (by_product st))
      in \<lparr>r_revenue = total_revenue st,
          r_orders_count = orders_count st,
          sales_by_warehouse = map (flatten_by e_count) sorted_warehouses,
          sales_by_region = sorted_regions,
          sales_by_product = map (flatten_by revenue_key) sorted_products\<rparr>)"

section \<open>ChartDatasetBuilder: the chart construction of \<^verbatim>\<open>prepare\<close>\<close>

text \<open>
  An entry of \<^verbatim>\<open>stocks_warehouse_products\<close>: the warehouse name and its dict from
  article to quantity. Both are read by subscript, so they are always present.
\<close>

record wh_stock =
  ws_name :: ustring
  ws_products :: "(ustring, int) dict"

record cluster_info =
  ci_name :: ustring
  ci_start_index :: int
  ci_warehouse_count :: nat
  ci_total_stock :: int
  ci_end_index :: int

record dataset =
  ds_label :: ustring
  ds_data :: "int list"
  ds_backgroundColor :: ustring
  ds_borderColor :: ustring
  ds_borderWidth :: int

record chart_data =
  cd_labels :: "ustring list"
  cd_datasets :: "dataset list"
  cd_clusters :: "cluster_info list"

text \<open>The priority lists: Centralnyj, Severo-Zapadnyj, Privolzhskij, Uralskij for WB;
  Moskva MO i Dalnie regiony, Sankt-Peterburg i SZO, Kazan, Krasnodar for Ozon.\<close>

definition wb_priority_clusters :: "ustring list" where
  "wb_priority_clusters =
     [[1062, 1077, 1085, 1090, 1088, 1072, 1083, 1100, 1085, 1099, 1081],
      [1057, 1077, 1074, 1077, 1088, 1086, 45, 1047, 1072, 1087, 1072, 1076, 1085, 1099, 1081],
      [1055, 1088, 1080, 1074, 1086, 1083, 1078, 1089, 1082, 1080, 1081],
      [1059, 1088, 1072, 1083, 1100, 1089, 1082, 1080, 1081]]"

definition ozon_priority_clusters :: "ustring list" where
  "ozon_priority_clusters =
     [[1052, 1086, 1089, 1082, 1074, 1072, 44, 32, 1052, 1054, 32, 1080, 32, 1044, 1072, 1083, 1100, 1085, 1080, 1077, 32, 1088, 1077, 1075, 1080, 1086, 1085, 1099],
      [1057, 1072, 1085, 1082, 1090, 45, 1055, 1077, 1090, 1077, 1088, 1073, 1091, 1088, 1075, 32, 1080, 32, 1057, 1047, 1054],
      [1050, 1072, 1079, 1072, 1085, 1100],
      [1050, 1088, 1072, 1089, 1085, 1086, 1076, 1072, 1088]]"

text \<open>
  \<^verbatim>\<open>clustered_warehouses = defaultdict(list)\<close> filled by the loop over
  \<^verbatim>\<open>stocks_wp\<close>; reading a \<^verbatim>\<open>defaultdict(list)\<close> at a key gives \<open>[]\<close> when the key
  is new.
\<close>

fun group_by_cluster ::
  "runtime \<Rightarrow> ustring \<Rightarrow> wh_stock list \<Rightarrow> (ustring, wh_stock list) dict
     \<Rightarrow> (ustring, wh_stock list) dict" where
  "group_by_cluster L mp_type [] clustered = clustered"
| "group_by_cluster L mp_type (wh # stocks_wp) clustered =
     (let cluster = get_warehouse_cluster L (ws_name wh) mp_type
      in group_by_cluster L mp_type stocks_wp
           (dict_modify cluster (\<lambda>l. l @ [wh]) (dict_setdefault cluster [] clustered)))"

definition cluster_warehouses :: "(ustring, wh_stock list) dict \<Rightarrow> ustring \<Rightarrow> wh_stock list" where
  "cluster_warehouses clustered cluster_name = get_or (map_of clustered cluster_name) []"

text \<open>
  The order of the clusters: the priority clusters that occur, in the order of the
  priority list, then the other keys in ascending order (\<^verbatim>\<open>sorted\<close> on strings is
  the lexicographic order on code points).
\<close>

definition sort_clusters :: "ustring list \<Rightarrow> (ustring, wh_stock list) dict \<Rightarrow> ustring list" where
  "sort_clusters priority_clusters clustered =
     filter (\<lambda>pc. pc \<in> set (map fst clustered)) priority_clusters
     @ filter (\<lambda>cluster. cluster \<notin> set priority_clusters) (sort (map fst clustered))"

text \<open>The loop that appends the labels of each cluster and records its metadata.\<close>

fun clusters_loop ::
  "(ustring, wh_stock list) dict \<Rightarrow> ustring list \<Rightarrow> ustring list \<times> cluster_info list
     \<Rightarrow> ustring list \<times> cluster_info list" where
  "clusters_loop clustered [] (labels, clusters) = (labels, clusters)"
| "clusters_loop clustered (cluster_name # sorted_clusters) (labels, clusters) =
     (let warehouses = cluster_warehouses clustered cluster_name;
          total_stock = sum_list (map (\<lambda>wh. sum_list (dict_values (ws_products wh))) warehouses);
          labels' = labels @ map ws_name warehouses;
          cluster_info = \<lparr>ci_name = cluster_name,
                          ci_start_index = int (length labels),
                          ci_warehouse_count = length warehouses,
                          ci_total_stock = total_stock,
                          ci_end_index = int (length labels') - 1\<rparr>
      in clusters_loop clustered sorted_clusters (labels', clusters @ [cluster_info]))"

text \<open>
  The values of one series, in label order:
  \<^verbatim>\<open>wh['products'].get(article, 0)\<close> for every warehouse of every cluster.
\<close>

definition series_data ::
  "(ustring, wh_stock list) dict \<Rightarrow> ustring list \<Rightarrow> ustring \<Rightarrow> int list" where
  "series_data clustered sorted_clusters article =
     concat (map (\<lambda>cluster_name.
                    map (\<lambda>wh. get_or (map_of (ws_products wh) article) 0)
                      (cluster_warehouses clustered cluster_name))
                 sorted_clusters)"

text \<open>The loop over \<^verbatim>\<open>all_articles\<close>: a series is appended when
  \<^verbatim>\<open>any(d > 0 for d in dataset["data"])\<close>.\<close>

fun datasets_loop ::
  "runtime \<Rightarrow> (ustring, wh_stock list) dict \<Rightarrow> ustring list \<Rightarrow> ustring list \<Rightarrow> dataset list" where
  "datasets_loop L clustered sorted_clusters [] = []"
| "datasets_loop L clustered sorted_clusters (article # all_articles) =
     (let dataset = \<lparr>ds_label = article,
                     ds_data = series_data clustered sorted_clusters article,
                     ds_backgroundColor = get_article_color L article,
                     ds_borderColor = u ''#1a1a1a'',
                     ds_borderWidth = 1\<rparr>
      in if list_ex (\<lambda>d. d > 0) (ds_data dataset)
         then dataset # datasets_loop L clustered sorted_clusters all_articles
         else datasets_loop L clustered sorted_clusters all_articles)"

text \<open>
  The chart of one marketplace; \<open>None\<close> (\<^verbatim>\<open>wb_chart_data = None\<close>) when
  \<^verbatim>\<open>stocks_wp\<close> or \<^verbatim>\<open>all_articles\<close> is empty. The WB and the Ozon construction
  differ in the marketplace passed to the classifier and in the priority list.
\<close>

definition build_chart ::
  "runtime \<Rightarrow> ustring \<Rightarrow> ustring list \<Rightarrow> wh_stock list \<Rightarrow> ustring list \<Rightarrow> chart_data option" where
  "build_chart L mp_type priority_clusters stocks_wp all_articles =
     (if stocks_wp \<noteq> [] \<and> all_articles \<noteq> [] then
        (let clustered = group_by_cluster L mp_type stocks_wp [];
             sorted_clusters = sort_clusters priority_clusters clustered;
             (labels, clusters) = clusters_loop clustered sorted_clusters ([], [])
         in Some \<lparr>cd_labels = labels,
                  cd_datasets = datasets_loop L clustered sorted_clusters all_articles,
                  cd_clusters = clusters\<rparr>)
      else None)"

definition wb_chart :: "runtime \<Rightarrow> wh_stock list \<Rightarrow> ustring list \<Rightarrow> chart_data option" where
  "wb_chart L stocks_wp all_articles =
     build_chart L (u ''wb'') wb_priority_clusters stocks_wp all_articles"

definition ozon_chart :: "runtime \<Rightarrow> wh_stock list \<Rightarrow> ustring list \<Rightarrow> chart_data option" where
  "ozon_chart L stocks_wp all_articles =
     build_chart L (u ''ozon'') ozon_priority_clusters stocks_wp all_articles"

section \<open>Combiner: \<^verbatim>\<open>load_json\<close>, \<^verbatim>\<open>calculate_total_stocks_by_product\<close>, \<^verbatim>\<open>prepare\<close>\<close>

text \<open>
  The raw document of a marketplace, when it is a JSON object. Its fields have the
  expected types; every field may be absent, and \<open>rd_other_keys\<close> tells whether the
  object has keys besides those that \<^verbatim>\<open>prepare\<close> reads (it matters for the truth
  value of the object only).
\<close>

record stock_item =
  si_supplierArticle :: "ustring option"
  si_quantityFull :: "int option"
  si_warehouseName :: "ustring option"

record wh_quantity =
  wq_name :: ustring
  wq_quantity :: int

record ozon_stock_product =
  osp_article :: "ustring option"
  osp_quantity :: "int option"
  osp_color :: "ustring option"

record txn =
  tx_operation_date :: "ustring option"
  tx_amount :: "pynum option"

record raw_data =
  rd_total_stock_value :: "int option"
  rd_stocks_by_warehouse :: "wh_quantity list option"
  rd_raw_stocks :: "stock_item list option"
  rd_stocks_warehouse_products :: "wh_stock list option"
  rd_all_articles :: "ustring list option"
  rd_raw_orders :: "order list option"
  rd_raw_sales :: "order list option"
  rd_stocks_by_product :: "ozon_stock_product list option"
  rd_finance_redemptions :: "txn list option"
  rd_other_keys :: bool

text \<open>
  \<^verbatim>\<open>load_json\<close> and what it does with the file. The file is missing
  (\<^verbatim>\<open>os.path.exists\<close> is false): \<^verbatim>\<open>None\<close>. It exists and \<^verbatim>\<open>open\<close> raises
  \<^verbatim>\<open>OSError\<close>, or its bytes are not valid UTF-8 and reading raises
  \<^verbatim>\<open>UnicodeDecodeError\<close>: neither is caught, the exception leaves \<^verbatim>\<open>load_json\<close>.
  Its text is not JSON: \<^verbatim>\<open>json.JSONDecodeError\<close> is caught, \<^verbatim>\<open>None\<close>. It parses: the
  value, which is an object or another JSON value (of which only the truth value
  matters).
\<close>

datatype py_error = OSError | UnicodeDecodeError | AttributeError

datatype json_doc = JObject raw_data | JOther bool

datatype file_state = Missing | Unreadable | Undecodable | Malformed | Parsed json_doc

fun load_json :: "file_state \<Rightarrow> py_error + json_doc option" where
  "load_json Missing = Inr None"
| "load_json Unreadable = Inl OSError"
| "load_json Undecodable = Inl UnicodeDecodeError"
| "load_json Malformed = Inr None"
| "load_json (Parsed d) = Inr (Some d)"

text \<open>
  \<^verbatim>\<open>if wb_data:\<close> followed by \<^verbatim>\<open>wb_data.get(...)\<close>. The test fails for
  \<^verbatim>\<open>None\<close>, for an object without keys and for any other value that is false; it
  holds for an object with a key, which is then processed (\<open>Some\<close>), and for any other
  value that is true, on which \<^verbatim>\<open>.get\<close> raises \<^verbatim>\<open>AttributeError\<close>.
\<close>

definition has_keys :: "raw_data \<Rightarrow> bool" where
  "has_keys d \<longleftrightarrow>
     rd_total_stock_value d \<noteq> None \<or> rd_stocks_by_warehouse d \<noteq> None
     \<or> rd_raw_stocks d \<noteq> None \<or> rd_stocks_warehouse_products d \<noteq> None
     \<or> rd_all_articles d \<noteq> None \<or> rd_raw_orders d \<noteq> None \<or> rd_raw_sales d \<noteq> None
     \<or> rd_stocks_by_product d \<noteq> None \<or> rd_finance_redemptions d \<noteq> None
     \<or> rd_other_keys d"

fun usable :: "json_doc option \<Rightarrow> py_error + raw_data option" where
  "usable None = Inr None"
| "usable (Some (JObject d)) = Inr (if has_keys d then Some d else None)"
| "usable (Some (JOther t)) = (if t then Inl AttributeError else Inr None)"

text \<open>\<^verbatim>\<open>calculate_total_stocks_by_product\<close>\<close>

record product_stock =
  ps_article :: ustring
  ps_quantity :: int
  ps_warehouses_count :: nat
  ps_color :: ustring
  ps_by_warehouse :: "wh_quantity list"

fun stocks_loop ::
  "runtime \<Rightarrow> stock_item list
     \<Rightarrow> (ustring, product_stock) dict \<times> (ustring, (ustring, int) dict) dict
     \<Rightarrow> (ustring, product_stock) dict \<times> (ustring, (ustring, int) dict) dict" where
  "stocks_loop L [] (products, product_warehouses) = (products, product_warehouses)"
| "stocks_loop L (item # raw_stocks) (products, product_warehouses) =
     (let article = get_or (si_supplierArticle item) Unknown;
          qty = get_or (si_quantityFull item) 0;
          warehouse = get_or (si_warehouseName item) Unknown;
          is_new = (article \<notin> set (map fst products));
          products1 = (if is_new
                       then dict_set article
                              \<lparr>ps_article = article, ps_quantity = 0, ps_warehouses_count = 0,
                               ps_color = get_article_color L article, ps_by_warehouse = []\<rparr>
                              products
                       else products);
          pw1 = (if is_new then dict_set article [] product_warehouses else product_warehouses);
          products2 = dict_modify article (\<lambda>p. p\<lparr>ps_quantity := ps_quantity p + qty\<rparr>) products1;
          pw2 = (if qty > 0
                 then dict_modify article
                        (\<lambda>whs. dict_modify warehouse (\<lambda>q. q + qty) (dict_setdefault warehouse 0 whs))
                        pw1
                 else pw1)
      in stocks_loop L raw_stocks (products2, pw2))"

definition calculate_total_stocks_by_product :: "runtime \<Rightarrow> stock_item list \<Rightarrow> product_stock list" where
  "calculate_total_stocks_by_product L raw_stocks =
     (let (products, product_warehouses) = stocks_loop L raw_stocks ([], []);
          products' =
            map (\<lambda>(article, p).
                   let wh_data = get_or (map_of product_warehouses article) []
                   in p\<lparr>ps_warehouses_count := length wh_data,
                        ps_by_warehouse :=
                          sorted_reverse wq_quantity
                            (map (\<lambda>(name, qty). \<lparr>wq_name = name, wq_quantity = qty\<rparr>) wh_data)\<rparr>)
                products
      in sorted_reverse ps_quantity products')"

text \<open>The parts of the output document.\<close>

record summary =
  wb_stocks :: int
  ozon_stocks :: int
  total_stocks :: int
  total_sales_today :: pynum

record period_entry =
  pe_agg :: agg_result
  pe_redemptions_revenue :: pynum
  pe_redemptions_count :: nat

record wb_stocks_section =
  wss_by_warehouse :: "wh_quantity list"
  wss_by_product :: "product_stock list"
  wss_chart_data :: "chart_data option"
  wss_all_articles :: "ustring list"

record ozon_stocks_section =
  oss_by_warehouse :: "wh_quantity list"
  oss_by_product :: "ozon_stock_product list"
  oss_chart_data :: "chart_data option"
  oss_all_articles :: "ustring list"

text \<open>
  \<^verbatim>\<open>stocks.wb\<close> and \<^verbatim>\<open>stocks.ozon\<close> stay the empty object (\<open>None\<close>) for a
  marketplace without data, and \<^verbatim>\<open>period_data[key]\<close> then has no entry for it. The
  field \<^verbatim>\<open>last_update\<close> (the clock) is left out.
\<close>

record dashboard =
  d_summary :: summary
  d_marketplaces :: "(ustring \<times> ustring) list"
  d_stocks_wb :: "wb_stocks_section option"
  d_stocks_ozon :: "ozon_stocks_section option"
  d_period_data :: "(ustring \<times> period_entry option \<times> period_entry option) list"

text \<open>The per-period processing of the WB document: orders, then redemptions.\<close>

definition wb_item_date :: "order \<Rightarrow> ustring option" where
  "wb_item_date item = str_or (o_date item) (o_dateFull item)"

definition wb_period :: "runtime \<Rightarrow> date \<Rightarrow> raw_data \<Rightarrow> period \<Rightarrow> period_entry" where
  "wb_period L today wb_data p =
     (let raw_orders = get_or (rd_raw_orders wb_data) [];
          filtered_sales = filter_period L wb_item_date p today raw_orders;
          agg = aggregate_sales_data L filtered_sales (u ''wb'');
          raw_sales = get_or (rd_raw_sales wb_data) [];
          filtered_redemptions = filter_period L wb_item_date p today raw_sales;
          redemptions_revenue =
            py_sum L (map (\<lambda>item. num_or_0 (get_or (o_forPay item) (PyInt 0))) filtered_redemptions)
      in \<lparr>pe_agg = agg, pe_redemptions_revenue = redemptions_revenue,
          pe_redemptions_count = length filtered_redemptions\<rparr>)"

definition ozon_period :: "runtime \<Rightarrow> date \<Rightarrow> raw_data \<Rightarrow> period \<Rightarrow> period_entry" where
  "ozon_period L today ozon_data p =
     (let raw_orders = get_or (rd_raw_orders ozon_data) [];
          filtered_sales = filter_period L o_created_at p today raw_orders;
          agg = aggregate_sales_data L filtered_sales (u ''ozon'');
          finance_redemptions = get_or (rd_finance_redemptions ozon_data) [];
          redemptions_filtered = filter_period L tx_operation_date p today finance_redemptions;
          redemptions_revenue =
            py_sum L (map (\<lambda>txn. py_abs (get_or (tx_amount txn) (PyInt 0))) redemptions_filtered)
      in \<lparr>pe_agg = agg, pe_redemptions_revenue = redemptions_revenue,
          pe_redemptions_count = length redemptions_filtered\<rparr>)"

definition wb_stocks_of :: "runtime \<Rightarrow> raw_data \<Rightarrow> wb_stocks_section" where
  "wb_stocks_of L wb_data =
     \<lparr>wss_by_warehouse = take 15 (get_or (rd_stocks_by_warehouse wb_data) []),
      wss_by_product = calculate_total_stocks_by_product L (get_or (rd_raw_stocks wb_data) []),
      wss_chart_data = wb_chart L (get_or (rd_stocks_warehouse_products wb_data) [])
                         (get_or (rd_all_articles wb_data) []),
      wss_all_articles = get_or (rd_all_articles wb_data) []\<rparr>"

definition ozon_stocks_of :: "runtime \<Rightarrow> raw_data \<Rightarrow> ozon_stocks_section" where
  "ozon_stocks_of L ozon_data =
     \<lparr>oss_by_warehouse = take 15 (get_or (rd_stocks_by_warehouse ozon_data) []),
      oss_by_product =
        map (\<lambda>item. item\<lparr>osp_color := Some (get_article_color L (get_or (osp_article item) []))\<rparr>)
          (get_or (rd_stocks_by_product ozon_data) []),
      oss_chart_data = ozon_chart L (get_or (rd_stocks_warehouse_products ozon_data) [])
                         (get_or (rd_all_articles ozon_data) []),
      oss_all_articles = get_or (rd_all_articles ozon_data) []\<rparr>"

text \<open>
  \<^verbatim>\<open>period_data["today"].get(mp, {}).get("revenue", 0)\<close>: the revenue of the today
  entry of a marketplace, the int 0 when there is none.
\<close>

definition today_revenue :: "period_entry option \<Rightarrow> pynum" where
  "today_revenue e = (case e of None \<Rightarrow> PyInt 0 | Some pe \<Rightarrow> r_revenue (pe_agg pe))"

definition Wildberries :: ustring where "Wildberries = u ''Wildberries''"
definition Ozon :: ustring where "Ozon = u ''Ozon''"
definition Online :: ustring where "Online = u ''Online''"
definition No_Data :: ustring where "No_Data = u ''No Data''"

text \<open>
  The document built from the two usable raw documents (\<open>None\<close> for a marketplace
  whose \<^verbatim>\<open>if ..._data:\<close> test fails). The keys of the initial \<^verbatim>\<open>period_data\<close>
  literal are the keys of \<^verbatim>\<open>periods_config\<close> in the same order.
\<close>

definition build_dashboard ::
  "runtime \<Rightarrow> date \<Rightarrow> raw_data option \<Rightarrow> raw_data option \<Rightarrow> dashboard" where
  "build_dashboard L today wb_data ozon_data =
     (let wb_stocks_v = (case wb_data of None \<Rightarrow> 0
                         | Some d \<Rightarrow> get_or (rd_total_stock_value d) 0);
          ozon_stocks_v = (case ozon_data of None \<Rightarrow> 0
                           | Some d \<Rightarrow> get_or (rd_total_stock_value d) 0);
          period_data =
            map (\<lambda>p. (p_key p,
                       map_option (\<lambda>d. wb_period L today d p) wb_data,
                       map_option (\<lambda>d. ozon_period L today d p) ozon_data))
              periods_config;
          today_wb = (case map_of period_data (u ''today'') of None \<Rightarrow> None | Some e \<Rightarrow> fst e);
          today_ozon = (case map_of period_data (u ''today'') of None \<Rightarrow> None | Some e \<Rightarrow> snd e)
      in \<lparr>d_summary =
            \<lparr>wb_stocks = wb_stocks_v, ozon_stocks = ozon_stocks_v,
             total_stocks = wb_stocks_v + ozon_stocks_v,
             total_sales_today = py_add L (today_revenue today_wb) (today_revenue today_ozon)\<rparr>,
          d_marketplaces =
            [(Wildberries, if wb_data \<noteq> None then Online else No_Data),
             (Ozon, if ozon_data \<noteq> None then Online else No_Data)],
          d_stocks_wb = map_option (wb_stocks_of L) wb_data,
          d_stocks_ozon = map_option (ozon_stocks_of L) ozon_data,
          d_period_data = period_data\<rparr>)"

text \<open>
  \<^verbatim>\<open>prepare\<close>, as a function of the two files and of today's date, up to the
  writing of the document: the two files are loaded, WB first; then the WB document is
  processed, then the Ozon document. The first exception ends the run (\<open>Inl\<close>).
\<close>

definition prepare ::
  "runtime \<Rightarrow> date \<Rightarrow> file_state \<Rightarrow> file_state \<Rightarrow> py_error + dashboard" where
  "prepare L today wb_file ozon_file =
     (case load_json wb_file of
        Inl e \<Rightarrow> Inl e
      | Inr wb_loaded \<Rightarrow>
          (case load_json ozon_file of
             Inl e \<Rightarrow> Inl e
           | Inr ozon_loaded \<Rightarrow>
               (case usable wb_loaded of
                  Inl e \<Rightarrow> Inl e
                | Inr wb_data \<Rightarrow>
                    (case usable ozon_loaded of
                       Inl e \<Rightarrow> Inl e
                     | Inr ozon_data \<Rightarrow> Inr (build_dashboard L today wb_data ozon_data)))))"

section \<open>A concrete runtime for evaluation\<close>

text \<open>
  To evaluate the definitions on concrete inputs, the runtime is instantiated: the
  case mappings of \<^verbatim>\<open>str.lower\<close> and \<^verbatim>\<open>str.upper\<close> on Basic Latin, on the
  Cyrillic letters U+0400 to U+045F and on U+1C80 (a small letter whose capital is
  U+0412; other code points are left as they are), a parser for strings that begin
  with \<^verbatim>\<open>YYYY-MM-DD\<close>, the values of \<^verbatim>\<open>hash('BOX1')\<close> that CPython 3.11 computes
  under \<^verbatim>\<open>PYTHONHASHSEED=1\<close> and \<^verbatim>\<open>PYTHONHASHSEED=2\<close>, and the rounding of a
  rational to the nearest double, ties to even (for results in the range of the normal
  doubles). The general theorems do not depend on this instance.
\<close>

definition lower_cp :: "nat \<Rightarrow> nat" where
  "lower_cp c = (if 65 \<le> c \<and> c \<le> 90 then c + 32
                 else if 1040 \<le> c \<and> c \<le> 1071 then c + 32
                 else if 1024 \<le> c \<and> c \<le> 1039 then c + 80
                 else c)"

definition upper_cp :: "nat \<Rightarrow> nat" where
  "upper_cp c = (if 97 \<le> c \<and> c \<le> 122 then c - 32
                 else if 1072 \<le> c \<and> c \<le> 1103 then c - 32
                 else if 1104 \<le> c \<and> c \<le> 1119 then c - 80
                 else if c = 7296 then 1042
                 else c)"

definition digit_val :: "nat \<Rightarrow> nat option" where
  "digit_val c = (if 48 \<le> c \<and> c \<le> 57 then Some (c - 48) else None)"

fun parse_ymd_prefix :: "ustring \<Rightarrow> datetime option" where
  "parse_ymd_prefix (y1 # y2 # y3 # y4 # h1 # m1 # m2 # h2 # d1 # d2 # rest) =
     (case (digit_val y1, digit_val y2, digit_val y3, digit_val y4,
            digit_val m1, digit_val m2, digit_val d1, digit_val d2) of
        (Some a, Some b, Some c, Some d, Some e, Some f, Some g, Some h) \<Rightarrow>
          if h1 = 45 \<and> h2 = 45 \<and> 1 \<le> 10 * e + f \<and> 10 * e + f \<le> 12 \<and> 1 \<le> 10 * g + h
          then Some \<lparr>dt_date = ymd2ord (int (1000 * a + 100 * b + 10 * c + d))
                                 (10 * e + f) (int (10 * g + h)),
                      dt_time = 0\<rparr>
          else None
      | _ \<Rightarrow> None)"
| "parse_ymd_prefix _ = None"

definition hash_seed1 :: "ustring \<Rightarrow> int" where
  "hash_seed1 s = (if s = u ''BOX1'' then 4645335359680378563 else 0)"

definition hash_seed2 :: "ustring \<Rightarrow> int" where
  "hash_seed2 s = (if s = u ''BOX1'' then - 8449074543986308198 else 0)"

function bit_length :: "int \<Rightarrow> int" where
  "bit_length n = (if n \<le> 0 then 0 else 1 + bit_length (n div 2))"
  by pat_completeness auto
termination
  by (relation "measure nat") auto

definition pow2 :: "int \<Rightarrow> rat" where
  "pow2 e = (if 0 \<le> e then 2 ^ nat e else 1 / 2 ^ nat (- e))"

definition floor_log2 :: "rat \<Rightarrow> int" where
  "floor_log2 x = (if 1 \<le> x then bit_length \<lfloor>x\<rfloor> - 1 else - bit_length (\<lceil>1 / x\<rceil> - 1))"

definition round_half_even :: "rat \<Rightarrow> int" where
  "round_half_even x =
     (let f = \<lfloor>x\<rfloor>; d = x - of_int f
      in if d < 1 / 2 then f else if 1 / 2 < d then f + 1 else if even f then f else f + 1)"

definition round_double :: "rat \<Rightarrow> rat" where
  "round_double x =
     (if x = 0 then 0
      else let e = floor_log2 \<bar>x\<bar> - 52
           in of_int (round_half_even (x / pow2 e)) * pow2 e)"

definition run1 :: runtime where
  "run1 = \<lparr>str_lower = map lower_cp, str_upper = map upper_cp, str_hash = hash_seed1,
           fromisoformat = parse_ymd_prefix, strptime_ymd = parse_ymd_prefix,
           fround = round_double\<rparr>"

text \<open>The float that Python reads from a decimal literal.\<close>

definition flt :: "rat \<Rightarrow> pynum" where
  "flt x = PyFloat (round_double x)"

definition run2 :: runtime where
  "run2 = run1\<lparr>str_hash := hash_seed2\<rparr>"

text \<open>The first runtime with a rounding that changes nothing (exact arithmetic).\<close>

definition exact_runtime :: runtime where
  "exact_runtime = run1\<lparr>fround := (\<lambda>x. x)\<rparr>"

section \<open>Sample inputs\<close>

definition empty_order :: order where
  "empty_order =
     \<lparr>o_priceWithDisc = None, o_warehouseName = None, o_regionName = None,
      o_supplierArticle = None, o_date = None, o_dateFull = None, o_forPay = None,
      o_financial_data = None, o_analytics_data = None, o_products = None,
      o_created_at = None\<rparr>"

text \<open>Three WB order lines: two from the warehouse Tula, one of them without a price.\<close>

definition wb_sample :: "order list" where
  "wb_sample =
     [empty_order\<lparr>o_priceWithDisc := Some (PyInt 100), o_warehouseName := Some (u ''Tula''),
                  o_regionName := Some (u ''Center''), o_supplierArticle := Some (u ''SF0125''),
                  o_date := Some (u ''2024-06-10T09:00:00'')\<rparr>,
      empty_order\<lparr>o_warehouseName := Some (u ''Tula''),
                  o_regionName := Some (u ''Center''), o_supplierArticle := Some (u ''SM0250''),
                  o_date := Some (u ''2024-06-09T10:00:00'')\<rparr>,
      empty_order\<lparr>o_priceWithDisc := Some (PyInt 250), o_warehouseName := Some (u ''Kazan''),
                  o_supplierArticle := Some (u ''SF0125''),
                  o_date := Some (u ''2024-06-10T11:00:00'')\<rparr>]"

text \<open>
  An Ozon posting with one line of three units and no price, in
  \<^verbatim>\<open>financial_data.products\<close> and in \<^verbatim>\<open>products\<close>.
\<close>

definition ozon_order_qty3 :: order where
  "ozon_order_qty3 =
     empty_order
       \<lparr>o_financial_data :=
          Some \<lparr>fd_products = Some [\<lparr>fp_price = None, fp_quantity = Some (PyInt 3)\<rparr>],
                fd_cluster_to = None\<rparr>,
        o_analytics_data :=
          Some \<lparr>ad_warehouse_name = Some (u ''W1''), ad_city = Some (u ''Kazan'')\<rparr>,
        o_products :=
          Some [\<lparr>op_offer_id = Some (u ''SF0125''), op_price = None, op_quantity = Some (PyInt 3)\<rparr>],
        o_created_at := Some (u ''2024-06-10T08:00:00Z'')\<rparr>"

text \<open>Sixteen WB order lines from sixteen warehouses, with prices 1 to 16.\<close>

definition wb_sixteen :: "order list" where
  "wb_sixteen =
     [empty_order\<lparr>o_priceWithDisc := Some (PyInt 1), o_warehouseName := Some (u ''A'')\<rparr>,
      empty_order\<lparr>o_priceWithDisc := Some (PyInt 2), o_warehouseName := Some (u ''B'')\<rparr>,
      empty_order\<lparr>o_priceWithDisc := Some (PyInt 3), o_warehouseName := Some (u ''C'')\<rparr>,
      empty_order\<lparr>o_priceWithDisc := Some (PyInt 4), o_warehouseName := Some (u ''D'')\<rparr>,
      empty_order\<lparr>o_priceWithDisc := Some (PyInt 5), o_warehouseName := Some (u ''E'')\<rparr>,
      empty_order\<lparr>o_priceWithDisc := Some (PyInt 6), o_warehouseName := Some (u ''F'')\<rparr>,
      empty_order\<lparr>o_priceWithDisc := Some (PyInt 7), o_warehouseName := Some (u ''G'')\<rparr>,
      empty_order\<lparr>o_priceWithDisc := Some (PyInt 8), o_warehouseName := Some (u ''H'')\<rparr>,
      empty_order\<lparr>o_priceWithDisc := Some (PyInt 9), o_warehouseName := Some (u ''I'')\<rparr>,
      empty_order\<lparr>o_priceWithDisc := Some (PyInt 10), o_warehouseName := Some (u ''J'')\<rparr>,
      empty_order\<lparr>o_priceWithDisc := Some (PyInt 11), o_warehouseName := Some (u ''K'')\<rparr>,
      empty_order\<lparr>o_priceWithDisc := Some (PyInt 12), o_warehouseName := Some (u ''L'')\<rparr>,
      empty_order\<lparr>o_priceWithDisc := Some (PyInt 13), o_warehouseName := Some (u ''M'')\<rparr>,
      empty_order\<lparr>o_priceWithDisc := Some (PyInt 14), o_warehouseName := Some (u ''N'')\<rparr>,
      empty_order\<lparr>o_priceWithDisc := Some (PyInt 15), o_warehouseName := Some (u ''O'')\<rparr>,
      empty_order\<lparr>o_priceWithDisc := Some (PyInt 16), o_warehouseName := Some (u ''P'')\<rparr>]"

text \<open>The same sixteen order lines, each for the article named like its warehouse.\<close>

definition wb_sixteen_articles :: "order list" where
  "wb_sixteen_articles = map (\<lambda>item. item\<lparr>o_supplierArticle := o_warehouseName item\<rparr>) wb_sixteen"

text \<open>
  The warehouses Koledino and Nevinnomyssk stocking SF0125 with 10 and 5 units; and
  three inputs off the contract of the chart construction: a negative quantity, an
  article missing from the article list, and an article listed twice.
\<close>

definition chart_sample :: "wh_stock list" where
  "chart_sample =
     [\<lparr>ws_name = [1050, 1086, 1083, 1077, 1076, 1080, 1085, 1086],
       ws_products = [(u ''SF0125'', 10)]\<rparr>,
      \<lparr>ws_name = [1053, 1077, 1074, 1080, 1085, 1085, 1086, 1084, 1099, 1089, 1089, 1082],
       ws_products = [(u ''SF0125'', 5)]\<rparr>]"

definition chart_negative :: "wh_stock list" where
  "chart_negative = [\<lparr>ws_name = u ''Sklad'', ws_products = [(u ''BOX1'', - 2)]\<rparr>]"

definition chart_positive :: "wh_stock list" where
  "chart_positive = [\<lparr>ws_name = u ''Sklad'', ws_products = [(u ''BOX1'', 5)]\<rparr>]"

text \<open>The charts the WB construction gives for these inputs (see the evaluation lemmas).\<close>

definition chart_sample_out :: chart_data where
  "chart_sample_out =
     \<lparr>cd_labels = [[1050, 1086, 1083, 1077, 1076, 1080, 1085, 1086],
                   [1053, 1077, 1074, 1080, 1085, 1085, 1086, 1084, 1099, 1089, 1089, 1082]],
      cd_datasets = [\<lparr>ds_label = u ''SF0125'', ds_data = [10, 5],
                      ds_backgroundColor = u ''#614701'', ds_borderColor = u ''#1a1a1a'',
                      ds_borderWidth = 1\<rparr>],
      cd_clusters =
        [\<lparr>ci_name = [1062, 1077, 1085, 1090, 1088, 1072, 1083, 1100, 1085, 1099, 1081],
          ci_start_index = 0, ci_warehouse_count = 1, ci_total_stock = 10,
          ci_end_index = 0\<rparr>,
         \<lparr>ci_name = [1070, 1078, 1085, 1099, 1081, 32, 43, 32, 1057, 1077, 1074, 1077,
                     1088, 1086, 45, 1050, 1072, 1074, 1082, 1072, 1079, 1089, 1082, 1080, 1081],
          ci_start_index = 1, ci_warehouse_count = 1, ci_total_stock = 5,
          ci_end_index = 1\<rparr>]\<rparr>"

definition chart_negative_out :: chart_data where
  "chart_negative_out =
     \<lparr>cd_labels = [u ''Sklad''], cd_datasets = [],
      cd_clusters = [\<lparr>ci_name = fallback_cluster, ci_start_index = 0, ci_warehouse_count = 1,
                      ci_total_stock = - 2, ci_end_index = 0\<rparr>]\<rparr>"

definition chart_missing_out :: chart_data where
  "chart_missing_out =
     \<lparr>cd_labels = [u ''Sklad''], cd_datasets = [],
      cd_clusters = [\<lparr>ci_name = fallback_cluster, ci_start_index = 0, ci_warehouse_count = 1,
                      ci_total_stock = 5, ci_end_index = 0\<rparr>]\<rparr>"

definition chart_duplicate_out :: chart_data where
  "chart_duplicate_out =
     \<lparr>cd_labels = [u ''Sklad''],
      cd_datasets = [\<lparr>ds_label = u ''BOX1'', ds_data = [5],
                      ds_backgroundColor = u ''#ef4444'', ds_borderColor = u ''#1a1a1a'',
                      ds_borderWidth = 1\<rparr>,
                     \<lparr>ds_label = u ''BOX1'', ds_data = [5],
                      ds_backgroundColor = u ''#ef4444'', ds_borderColor = u ''#1a1a1a'',
                      ds_borderWidth = 1\<rparr>],
      cd_clusters = [\<lparr>ci_name = fallback_cluster, ci_start_index = 0, ci_warehouse_count = 1,
                      ci_total_stock = 5, ci_end_index = 0\<rparr>]\<rparr>"

text \<open>
  An Ozon document with a stock total of 7 and two postings of 2024-06-10 (one of
  them \<open>ozon_order_qty3\<close>, the other with two units at 100), and a WB document with
  a stock total of 4 and the three sample orders.
\<close>

definition empty_doc :: raw_data where
  "empty_doc =
     \<lparr>rd_total_stock_value = None, rd_stocks_by_warehouse = None, rd_raw_stocks = None,
      rd_stocks_warehouse_products = None, rd_all_articles = None, rd_raw_orders = None,
      rd_raw_sales = None, rd_stocks_by_product = None, rd_finance_redemptions = None,
      rd_other_keys = False\<rparr>"

definition ozon_order_paid :: order where
  "ozon_order_paid =
     empty_order
       \<lparr>o_financial_data :=
          Some \<lparr>fd_products = Some [\<lparr>fp_price = Some (PyInt 100), fp_quantity = Some (PyInt 2)\<rparr>],
                fd_cluster_to = Some (u ''Kazan'')\<rparr>,
        o_analytics_data :=
          Some \<lparr>ad_warehouse_name = Some (u ''W1''), ad_city = None\<rparr>,
        o_products :=
          Some [\<lparr>op_offer_id = Some (u ''SM0250''), op_price = Some (PyInt 100), op_quantity = Some (PyInt 2)\<rparr>],
        o_created_at := Some (u ''2024-06-10T09:30:00Z'')\<rparr>"

definition ozon_doc :: raw_data where
  "ozon_doc = empty_doc\<lparr>rd_total_stock_value := Some 7,
                         rd_raw_orders := Some [ozon_order_qty3, ozon_order_paid]\<rparr>"

definition wb_doc :: raw_data where
  "wb_doc = empty_doc\<lparr>rd_total_stock_value := Some 4, rd_raw_orders := Some wb_sample\<rparr>"

text \<open>Three WB order lines; the warehouses B and A, met in this order, have equal revenue.\<close>

definition wb_ties :: "order list" where
  "wb_ties =
     [empty_order\<lparr>o_priceWithDisc := Some (PyInt 5), o_warehouseName := Some (u ''B'')\<rparr>,
      empty_order\<lparr>o_priceWithDisc := Some (PyInt 5), o_warehouseName := Some (u ''A'')\<rparr>,
      empty_order\<lparr>o_priceWithDisc := Some (PyInt 9), o_warehouseName := Some (u ''C'')\<rparr>]"

text \<open>
  Three WB order lines of one warehouse with the float prices 2548.82, 2298.07 and
  1319.66, the first and the third for the same article; and three Ozon postings of one
  article with these prices, the first and the third from the same warehouse.
\<close>

definition wb_floats :: "order list" where
  "wb_floats =
     [empty_order\<lparr>o_priceWithDisc := Some (flt (254882 / 100)), o_warehouseName := Some (u ''W''),
                  o_supplierArticle := Some (u ''A'')\<rparr>,
      empty_order\<lparr>o_priceWithDisc := Some (flt (229807 / 100)), o_warehouseName := Some (u ''W''),
                  o_supplierArticle := Some (u ''B'')\<rparr>,
      empty_order\<lparr>o_priceWithDisc := Some (flt (131966 / 100)), o_warehouseName := Some (u ''W''),
                  o_supplierArticle := Some (u ''A'')\<rparr>]"

definition ozon_posting :: "ustring \<Rightarrow> ustring \<Rightarrow> pynum \<Rightarrow> order" where
  "ozon_posting wh article price =
     empty_order
       \<lparr>o_analytics_data := Some \<lparr>ad_warehouse_name = Some wh, ad_city = None\<rparr>,
        o_products := Some [\<lparr>op_offer_id = Some article, op_price = Some price,
                             op_quantity = Some (PyInt 1)\<rparr>]\<rparr>"

definition ozon_floats :: "order list" where
  "ozon_floats =
     [ozon_posting (u ''W1'') (u ''X'') (flt (254882 / 100)),
      ozon_posting (u ''W2'') (u ''X'') (flt (229807 / 100)),
      ozon_posting (u ''W1'') (u ''X'') (flt (131966 / 100))]"

text \<open>
  A WB document and an Ozon document with one order each, placed on 2024-06-09, and
  with one redemption each of that day.
\<close>

definition wb_order_0609 :: order where
  "wb_order_0609 = empty_order\<lparr>o_priceWithDisc := Some (PyInt 40),
                               o_date := Some (u ''2024-06-09T12:30:00Z'')\<rparr>"

definition wb_sale_0609 :: order where
  "wb_sale_0609 = empty_order\<lparr>o_forPay := Some (PyInt 30), o_dateFull := Some (u ''2024-06-09'')\<rparr>"

definition ozon_order_0609 :: order where
  "ozon_order_0609 = empty_order\<lparr>o_created_at := Some (u ''2024-06-09T12:30:00Z'')\<rparr>"

definition ozon_txn_0609 :: txn where
  "ozon_txn_0609 = \<lparr>tx_operation_date = Some (u ''2024-06-09''), tx_amount = Some (PyInt (- 25))\<rparr>"

definition wb_doc_0609 :: raw_data where
  "wb_doc_0609 = empty_doc\<lparr>rd_raw_orders := Some [wb_order_0609],
                            rd_raw_sales := Some [wb_sale_0609]\<rparr>"

definition ozon_doc_0609 :: raw_data where
  "ozon_doc_0609 = empty_doc\<lparr>rd_raw_orders := Some [ozon_order_0609],
                              rd_finance_redemptions := Some [ozon_txn_0609]\<rparr>"

text \<open>The document of 2024-06-10 from these two raw documents.\<close>

definition doc_0609 :: dashboard where
  "doc_0609 = build_dashboard run1 (ymd2ord 2024 6 10) (Some wb_doc_0609) (Some ozon_doc_0609)"

text \<open>
  The accumulators after the three WB sample orders, and after the two Ozon sample
  postings.
\<close>

definition wb_sample_state :: agg_state where
  "wb_sample_state = agg_loop run1 (u ''wb'') agg_init wb_sample"

definition ozon_sample_state :: agg_state where
  "ozon_sample_state = agg_loop run1 (u ''ozon'') agg_init [ozon_order_qty3, ozon_order_paid]"

section \<open>Notions used to state the properties\<close>

text \<open>The distinct elements of a list in the order of their first occurrence.\<close>

definition first_seen :: "'a list \<Rightarrow> 'a list" where
  "first_seen xs = rev (remdups (rev xs))"

text \<open>
  A letter-case variant of a string, under the case mappings of the first runtime:
  the same length, and each character kept, lower-cased or upper-cased.
\<close>

definition case_variant :: "ustring \<Rightarrow> ustring \<Rightarrow> bool" where
  "case_variant w' w \<longleftrightarrow>
     list_all2 (\<lambda>c' c. c' = c \<or> c' = lower_cp c \<or> c' = upper_cp c) w' w"

text \<open>
  Additivity of a bucket of the result: its count is the sum of the counts of its
  breakdown entries, and its revenue has the value of the sum of their revenues, taken
  as \<^verbatim>\<open>sum\<close> adds them.
\<close>

definition counts_additive :: "out_bucket \<Rightarrow> bool" where
  "counts_additive b \<longleftrightarrow> e_count b = sum_list (map e_count (ob_breakdown b))"

definition revenue_additive :: "runtime \<Rightarrow> out_bucket \<Rightarrow> bool" where
  "revenue_additive L b \<longleftrightarrow>
     num_val (e_revenue b) = num_val (py_sum L (map e_revenue (ob_breakdown b)))"

text \<open>
  The same for a bucket while it is accumulated. For the revenue the invariant is
  that the value of the bucket's revenue is the exact sum of the values of the
  revenues of its breakdown, together with the reason why no addition has rounded:
  the rounding of the runtime changes nothing, or all these revenues are ints.
\<close>

fun is_int :: "pynum \<Rightarrow> bool" where
  "is_int (PyInt n) = True"
| "is_int (PyFloat v) = False"

definition bucket_counts_additive :: "bucket \<Rightarrow> bool" where
  "bucket_counts_additive b \<longleftrightarrow>
     e_count b = sum_list (map e_count (dict_values (b_breakdown b)))"

definition unrounded :: "runtime \<Rightarrow> pynum \<Rightarrow> bool" where
  "unrounded L r \<longleftrightarrow> (\<forall>x. fround L x = x) \<or> is_int r"

definition bucket_revenue_exact :: "runtime \<Rightarrow> bucket \<Rightarrow> bool" where
  "bucket_revenue_exact L b \<longleftrightarrow>
     revenue_key b = sum_list (map revenue_key (dict_values (b_breakdown b)))
     \<and> unrounded L (e_revenue b)
     \<and> (\<forall>s\<in>set (dict_values (b_breakdown b)). unrounded L (e_revenue s))"

text \<open>Count and revenue recorded under a key of a dict of buckets (0 when absent).\<close>

definition count_of :: "(ustring, 'a entry_scheme) dict \<Rightarrow> ustring \<Rightarrow> int" where
  "count_of d k = (case map_of d k of None \<Rightarrow> 0 | Some b \<Rightarrow> e_count b)"

definition revenue_of :: "(ustring, 'a entry_scheme) dict \<Rightarrow> ustring \<Rightarrow> pynum" where
  "revenue_of d k = (case map_of d k of None \<Rightarrow> PyInt 0 | Some b \<Rightarrow> e_revenue b)"

text \<open>
  The product lines of an item, as (article, units, revenue): for WB the item itself
  with one unit and its price, for Ozon the entries of its \<^verbatim>\<open>products\<close> list.
\<close>

definition item_lines :: "runtime \<Rightarrow> ustring \<Rightarrow> order \<Rightarrow> (ustring \<times> int \<times> pynum) list" where
  "item_lines L mp_type item =
     (if mp_type = u ''wb'' then [(item_article item, 1, wb_price item)]
      else map (\<lambda>pr. (get_or (op_offer_id pr) Unknown, product_qty pr, product_revenue L pr))
             (get_or (o_products item) []))"

text \<open>
  The accumulation of an item's product lines into \<^verbatim>\<open>by_product\<close>: both forms of
  the product aggregation (the WB branch and the Ozon loop) are instances of it.
\<close>

fun lines_loop ::
  "runtime \<Rightarrow> ustring \<Rightarrow> (ustring \<times> int \<times> pynum) list \<Rightarrow> (ustring, bucket) dict
     \<Rightarrow> (ustring, bucket) dict" where
  "lines_loop L wh [] bp = bp"
| "lines_loop L wh ((a, c, r) # ls) bp =
     lines_loop L wh ls
       (dict_modify a (add_breakdown L wh c r \<circ> add_to L c r)
          (dict_setdefault a (new_bucket a) bp))"

text \<open>
  The contributions of a list of records along each dimension, as (key, units,
  amount) in input order: one per record for warehouses and regions, one per product
  line for products.
\<close>

definition warehouse_lines :: "runtime \<Rightarrow> ustring \<Rightarrow> order list \<Rightarrow> (ustring \<times> int \<times> pynum) list" where
  "warehouse_lines L mp_type sales_list =
     map (\<lambda>item. (item_wh_name mp_type item, 1, item_price L mp_type item)) sales_list"

definition region_lines :: "runtime \<Rightarrow> ustring \<Rightarrow> order list \<Rightarrow> (ustring \<times> int \<times> pynum) list" where
  "region_lines L mp_type sales_list =
     map (\<lambda>item. (item_region mp_type item, 1, item_price L mp_type item)) sales_list"

definition product_lines :: "runtime \<Rightarrow> ustring \<Rightarrow> order list \<Rightarrow> (ustring \<times> int \<times> pynum) list" where
  "product_lines L mp_type sales_list = concat (map (item_lines L mp_type) sales_list)"

text \<open>
  The buckets as the specification words the aggregation: one bucket for each
  distinct key, in the order in which the keys are first encountered, whose count is
  the sum of the units of the contributions with that key and whose revenue is the
  running sum, in input order, of their amounts. \<open>bucket_entry\<close> reads name, count
  and revenue of a bucket.
\<close>

definition units_of :: "ustring \<Rightarrow> (ustring \<times> int \<times> pynum) list \<Rightarrow> int" where
  "units_of k ls = sum_list (map (\<lambda>(a, c, r). c) (filter (\<lambda>(a, c, r). a = k) ls))"

definition amount_of :: "runtime \<Rightarrow> ustring \<Rightarrow> (ustring \<times> int \<times> pynum) list \<Rightarrow> pynum" where
  "amount_of L k ls = py_sum L (map (\<lambda>(a, c, r). r) (filter (\<lambda>(a, c, r). a = k) ls))"

definition spec_buckets :: "runtime \<Rightarrow> (ustring \<times> int \<times> pynum) list \<Rightarrow> entry list" where
  "spec_buckets L ls =
     map (\<lambda>k. \<lparr>e_name = k, e_count = units_of k ls, e_revenue = amount_of L k ls\<rparr>)
       (first_seen (map fst ls))"

definition bucket_entry :: "'a entry_scheme \<Rightarrow> entry" where
  "bucket_entry b = \<lparr>e_name = e_name b, e_count = e_count b, e_revenue = e_revenue b\<rparr>"

text \<open>
  The ordering of the output as the specification words it: \<open>ys\<close> is the list \<open>xs\<close>
  sorted descending by the key with ties in their order in \<open>xs\<close>, that is, \<open>ys\<close> is
  in descending order of the key and, for every value of the key, the elements of that
  key are the same in both lists and in the same order.
\<close>

definition stable_sorted_desc :: "('a \<Rightarrow> 'k::linorder) \<Rightarrow> 'a list \<Rightarrow> 'a list \<Rightarrow> bool" where
  "stable_sorted_desc key xs ys \<longleftrightarrow>
     sorted_wrt (\<lambda>a b. key a \<ge> key b) ys
     \<and> (\<forall>k. filter (\<lambda>x. key x = k) ys = filter (\<lambda>x. key x = k) xs)"

text \<open>
  The five reporting windows as the specification words them: whether a record of
  date \<open>d\<close> belongs to the window of the given key when today is \<open>today\<close>.
\<close>

definition spec_window :: "ustring \<Rightarrow> date \<Rightarrow> date \<Rightarrow> bool" where
  "spec_window key today d =
     (if key = u ''today'' then today \<le> d
      else if key = u ''yesterday'' then d = today - 1
      else if key = u ''days_3'' then today - 2 \<le> d
      else if key = u ''days_7'' then today - 6 \<le> d
      else if key = u ''days_30'' then today - 29 \<le> d
      else False)"

text \<open>A record belongs to a window when its date string parses to a date of the window.\<close>

definition in_window :: "runtime \<Rightarrow> ('a \<Rightarrow> ustring option) \<Rightarrow> ustring \<Rightarrow> date \<Rightarrow> 'a \<Rightarrow> bool" where
  "in_window L get_date key today item =
     (case parse_date L (get_date item) of
        None \<Rightarrow> False
      | Some dt \<Rightarrow> spec_window key today (dt_date dt))"

text \<open>
  \<^verbatim>\<open>period_data[key]["wb"]\<close> and \<^verbatim>\<open>period_data[key]["ozon"]\<close> of a document
  (\<open>None\<close> when there is no such entry).
\<close>

definition wb_entry :: "dashboard \<Rightarrow> ustring \<Rightarrow> period_entry option" where
  "wb_entry D key = (case map_of (d_period_data D) key of None \<Rightarrow> None | Some e \<Rightarrow> fst e)"

definition ozon_entry :: "dashboard \<Rightarrow> ustring \<Rightarrow> period_entry option" where
  "ozon_entry D key = (case map_of (d_period_data D) key of None \<Rightarrow> None | Some e \<Rightarrow> snd e)"

text \<open>
  The input contract of the chart construction: \<^verbatim>\<open>all_articles\<close> lists every article
  once, every article of every warehouse's \<^verbatim>\<open>products\<close> is in it (a dict has each
  key once), and no quantity is negative.
\<close>

definition chart_input_ok :: "wh_stock list \<Rightarrow> ustring list \<Rightarrow> bool" where
  "chart_input_ok stocks_wp all_articles \<longleftrightarrow>
     distinct all_articles
     \<and> (\<forall>wh\<in>set stocks_wp.
          distinct (map fst (ws_products wh))
          \<and> set (map fst (ws_products wh)) \<subseteq> set all_articles
          \<and> (\<forall>q\<in>set (dict_values (ws_products wh)). 0 \<le> q))"

text \<open>The number of labels a cluster spans according to its metadata.\<close>

definition ci_span :: "cluster_info \<Rightarrow> int" where
  "ci_span ci = ci_end_index ci - ci_start_index ci + 1"

text \<open>The cluster totals of a chart sum to the sum of all values of its series.\<close>

definition chart_sums_agree :: "chart_data \<Rightarrow> bool" where
  "chart_sums_agree c \<longleftrightarrow>
     sum_list (map ci_total_stock (cd_clusters c))
       = sum_list (map (\<lambda>ds. sum_list (ds_data ds)) (cd_datasets c))"

section \<open>Verified properties\<close>

subsection \<open>Classifier\<close>

lemma startswith_iff: "startswith s p \<longleftrightarrow> prefix p s"
  by (induction s p rule: startswith.induct) auto

lemma str_in_iff_sublist: "str_in kw s \<longleftrightarrow> sublist kw s"
proof (induction s)
  case Nil
  then show ?case by simp
next
  case (Cons c cs)
  then show ?case by (simp add: startswith_iff sublist_Cons_right)
qed

lemma scan_keywords_iff: "scan_keywords kws n \<longleftrightarrow> (\<exists>kw\<in>set kws. sublist kw n)"
  by (induction kws) (auto simp: str_in_iff_sublist)

lemma scan_clusters_find:
  "scan_clusters cl n =
     (case find (\<lambda>(c, kws). \<exists>kw\<in>set kws. sublist kw n) cl of
        Some (c, kws) \<Rightarrow> Some c | None \<Rightarrow> None)"
  by (induction cl) (auto simp: scan_keywords_iff)

lemma fallback_not_wb: "fallback_cluster \<notin> fst ` set WB_CLUSTERS"
  by (simp add: WB_CLUSTERS_def fallback_cluster_def)

lemma fallback_not_ozon: "fallback_cluster \<notin> fst ` set OZON_CLUSTERS"
  by (simp add: OZON_CLUSTERS_def fallback_cluster_def)

lemma fallback_not_name: "fallback_cluster \<notin> fst ` set (clusters_of mp)"
  by (simp add: clusters_of_def fallback_not_wb fallback_not_ozon)

lemma find_Some_mem: "find P xs = Some x \<Longrightarrow> x \<in> set xs \<and> P x"
  by (induction xs) (auto split: if_splits)

lemma sklad_wb: "scan_clusters (clusters_of (u ''wb'')) (str_lower run1 (u ''Sklad'')) = None"
  by (simp add: clusters_of_def WB_CLUSTERS_def run1_def u_def lower_cp_def)

text \<open>
  C3, as the code has it. \<^verbatim>\<open>get_warehouse_cluster\<close> is a total function of the name
  and the marketplace; its value is the name of the first cluster, in the declared order
  of the marketplace's table, that has a keyword occurring as a substring of the
  lower-cased warehouse name, and the fallback when there is none. The fallback is the
  string Prochie (not the string Other), and it is returned if and only if no keyword of
  any cluster of that table occurs in the lower-cased name.
\<close>

theorem classifier_first_match:
  "get_warehouse_cluster L w mp =
     (case find (\<lambda>(c, kws). \<exists>kw\<in>set kws. sublist kw (str_lower L w)) (clusters_of mp) of
        Some (c, kws) \<Rightarrow> c | None \<Rightarrow> fallback_cluster)
   \<and> (get_warehouse_cluster L w mp = fallback_cluster \<longleftrightarrow>
        (\<forall>(c, kws)\<in>set (clusters_of mp). \<forall>kw\<in>set kws. \<not> sublist kw (str_lower L w)))"
proof -
  let ?P = "\<lambda>(c, kws). \<exists>kw\<in>set kws. sublist kw (str_lower L w)"
  have eq: "get_warehouse_cluster L w mp =
     (case find ?P (clusters_of mp) of Some (c, kws) \<Rightarrow> c | None \<Rightarrow> fallback_cluster)"
    by (simp add: get_warehouse_cluster_def scan_clusters_find split: option.splits)
  have iff: "get_warehouse_cluster L w mp = fallback_cluster \<longleftrightarrow>
        (\<forall>(c, kws)\<in>set (clusters_of mp). \<forall>kw\<in>set kws. \<not> sublist kw (str_lower L w))"
  proof (cases "find ?P (clusters_of mp)")
    case None
    then have "get_warehouse_cluster L w mp = fallback_cluster"
      by (simp add: eq)
    moreover from None have "\<forall>x\<in>set (clusters_of mp). \<not> ?P x"
      unfolding find_None_iff by blast
    ultimately show ?thesis by auto
  next
    case (Some x)
    obtain c kws where x: "x = (c, kws)" by (cases x)
    from Some have mem: "x \<in> set (clusters_of mp)" and px: "?P x"
      using find_Some_mem by fastforce+
    from mem x have "c \<noteq> fallback_cluster"
      using fallback_not_name[of mp] by force
    moreover from Some x have "get_warehouse_cluster L w mp = c"
      by (simp add: eq)
    ultimately show ?thesis using mem px x by auto
  qed
  from eq iff show ?thesis by blast
qed

theorem classifier_first_match_witness:
  "get_warehouse_cluster run1 (u ''Sklad'') (u ''wb'') = fallback_cluster
   \<and> \<not> (\<exists>(c, kws)\<in>set (clusters_of (u ''wb'')).
         \<exists>kw\<in>set kws. sublist kw (str_lower run1 (u ''Sklad'')))"
proof -
  have "get_warehouse_cluster run1 (u ''Sklad'') (u ''wb'') = fallback_cluster"
    by (simp add: get_warehouse_cluster_def sklad_wb)
  with classifier_first_match [of run1 "u ''Sklad''" "u ''wb''"] show ?thesis
    by fast
qed

text \<open>
  C3 as stated fails on the name of the fallback: for the warehouse name Sklad no
  keyword of the WB table matches, and the value returned is not the string Other.
\<close>

theorem classifier_fallback_counterexample:
  "scan_clusters (clusters_of (u ''wb'')) (str_lower run1 (u ''Sklad'')) = None
   \<and> get_warehouse_cluster run1 (u ''Sklad'') (u ''wb'') \<noteq> u ''Other''"
  by (simp add: get_warehouse_cluster_def sklad_wb) (simp add: fallback_cluster_def u_def)

lemma koledino_wb:
  "get_warehouse_cluster run1 [1050, 1086, 1083, 1077, 1076, 1080, 1085, 1086] (u ''wb'')
     = [1062, 1077, 1085, 1090, 1088, 1072, 1083, 1100, 1085, 1099, 1081]"
  by (simp add: get_warehouse_cluster_def clusters_of_def WB_CLUSTERS_def run1_def lower_cp_def)

lemma nevinnomyssk_wb:
  "get_warehouse_cluster run1
     [1053, 1077, 1074, 1080, 1085, 1085, 1086, 1084, 1099, 1089, 1089, 1082] (u ''wb'')
     = [1070, 1078, 1085, 1099, 1081, 32, 43, 32, 1057, 1077, 1074, 1077, 1088, 1086, 45,
        1050, 1072, 1074, 1082, 1072, 1079, 1089, 1082, 1080, 1081]"
  by (simp add: get_warehouse_cluster_def clusters_of_def WB_CLUSTERS_def run1_def lower_cp_def)

lemma lower_cp_idem: "lower_cp (lower_cp c) = lower_cp c"
  by (simp add: lower_cp_def)

lemma keywords_lower_wb: "\<forall>(c, kws)\<in>set WB_CLUSTERS. \<forall>kw\<in>set kws. map lower_cp kw = kw"
  by (simp add: WB_CLUSTERS_def lower_cp_def)

lemma keywords_lower_ozon: "\<forall>(c, kws)\<in>set OZON_CLUSTERS. \<forall>kw\<in>set kws. map lower_cp kw = kw"
  by (simp add: OZON_CLUSTERS_def lower_cp_def)

lemma lower_upper_cp:
  assumes "c < 128 \<or> (1024 \<le> c \<and> c \<le> 1119)"
  shows "lower_cp (upper_cp c) = lower_cp c"
proof -
  consider "97 \<le> c \<and> c \<le> 122" | "1072 \<le> c \<and> c \<le> 1103" | "1104 \<le> c \<and> c \<le> 1119"
    | "\<not> (97 \<le> c \<and> c \<le> 122) \<and> \<not> (1072 \<le> c \<and> c \<le> 1103) \<and> \<not> (1104 \<le> c \<and> c \<le> 1119)"
    by blast
  then show ?thesis
  proof cases
    case 1
    then have "upper_cp c = c - 32" by (simp add: upper_cp_def)
    moreover from 1 have "65 \<le> c - 32 \<and> c - 32 \<le> 90" by arith
    ultimately show ?thesis using 1 by (simp add: lower_cp_def)
  next
    case 2
    then have "upper_cp c = c - 32" by (simp add: upper_cp_def)
    moreover from 2 have "1040 \<le> c - 32 \<and> c - 32 \<le> 1071" by arith
    ultimately show ?thesis using 2 by (simp add: lower_cp_def)
  next
    case 3
    then have "upper_cp c = c - 80" by (simp add: upper_cp_def)
    moreover from 3 have "1024 \<le> c - 80 \<and> c - 80 \<le> 1039" by arith
    ultimately show ?thesis using 3 by (simp add: lower_cp_def)
  next
    case 4
    moreover from assms have "c \<noteq> 7296" by arith
    ultimately have "upper_cp c = c" unfolding upper_cp_def by auto
    then show ?thesis by simp
  qed
qed

lemma rounded_ve_wb:
  "scan_clusters (clusters_of (u ''wb''))
     (str_lower run1 [7296, 1086, 1083, 1086, 1075, 1076, 1072]) = None"
  by (simp add: clusters_of_def WB_CLUSTERS_def run1_def lower_cp_def)

lemma rounded_ve_upper:
  "str_upper run1 [7296, 1086, 1083, 1086, 1075, 1076, 1072]
     = [1042, 1054, 1051, 1054, 1043, 1044, 1040]"
  by (simp add: run1_def upper_cp_def)

lemma vologda_upper_wb:
  "get_warehouse_cluster run1 [1042, 1054, 1051, 1054, 1043, 1044, 1040] (u ''wb'')
     = [1057, 1077, 1074, 1077, 1088, 1086, 45, 1047, 1072, 1087, 1072, 1076, 1085, 1099, 1081]"
  by (simp add: get_warehouse_cluster_def clusters_of_def WB_CLUSTERS_def run1_def lower_cp_def)

text \<open>
  C10, as the code has it. The cluster depends on the warehouse name only through
  its lower-cased form: two names with the same lower-cased form get the same cluster
  under either table, and so does the lower-cased name itself, since lower-casing a
  lower-cased string changes nothing. Every keyword of both tables is already in lower
  case. For a name written with Basic Latin and the Cyrillic letters U+0400 to U+045F
  (the alphabet of the tables), under the case mappings of the first runtime, every
  letter-case variant of the name gets the cluster of the name: each character may be
  kept, lower-cased or upper-cased; in particular the upper-cased name and the
  lower-cased name do.
\<close>

theorem classifier_case_insensitive:
  "(str_lower L w' = str_lower L w \<longrightarrow>
      get_warehouse_cluster L w' mp = get_warehouse_cluster L w mp)
   \<and> (str_lower L (str_lower L w) = str_lower L w \<longrightarrow>
      get_warehouse_cluster L (str_lower L w) mp = get_warehouse_cluster L w mp)
   \<and> (\<forall>(c, kws)\<in>set (WB_CLUSTERS @ OZON_CLUSTERS). \<forall>kw\<in>set kws. map lower_cp kw = kw)
   \<and> ((\<forall>c\<in>set w. c < 128 \<or> (1024 \<le> c \<and> c \<le> 1119)) \<longrightarrow>
        get_warehouse_cluster run1 (str_upper run1 w) mp = get_warehouse_cluster run1 w mp
      \<and> get_warehouse_cluster run1 (str_lower run1 w) mp = get_warehouse_cluster run1 w mp
      \<and> (case_variant w' w \<longrightarrow>
            get_warehouse_cluster run1 w' mp = get_warehouse_cluster run1 w mp))"
proof -
  have up: "get_warehouse_cluster run1 (str_upper run1 w) mp = get_warehouse_cluster run1 w mp"
    if "\<forall>c\<in>set w. c < 128 \<or> (1024 \<le> c \<and> c \<le> 1119)"
  proof -
    from that have "map lower_cp (map upper_cp w) = map lower_cp w"
      by (induction w) (simp_all add: lower_upper_cp)
    then show ?thesis
      unfolding get_warehouse_cluster_def run1_def by (simp del: map_map)
  qed
  have lo: "get_warehouse_cluster run1 (str_lower run1 w) mp = get_warehouse_cluster run1 w mp"
    by (simp add: get_warehouse_cluster_def run1_def comp_def lower_cp_idem)
  have cv: "get_warehouse_cluster run1 w' mp = get_warehouse_cluster run1 w mp"
    if al: "\<forall>c\<in>set w. c < 128 \<or> (1024 \<le> c \<and> c \<le> 1119)" and v: "case_variant w' w"
  proof -
    from v have "list_all2 (\<lambda>c' c. c' = c \<or> c' = lower_cp c \<or> c' = upper_cp c) w' w"
      by (simp add: case_variant_def)
    then have "map lower_cp w' = map lower_cp w"
      using al
    proof (induction rule: list_all2_induct)
      case Nil
      then show ?case by simp
    next
      case (Cons c' cs' c cs)
      from Cons.prems have "c < 128 \<or> (1024 \<le> c \<and> c \<le> 1119)"
        by simp
      with Cons.hyps(1) have "lower_cp c' = lower_cp c"
        by (auto simp: lower_cp_idem lower_upper_cp)
      with Cons show ?case by simp
    qed
    then show ?thesis
      by (simp add: get_warehouse_cluster_def run1_def)
  qed
  from up lo cv keywords_lower_wb keywords_lower_ozon show ?thesis
    by (auto simp: get_warehouse_cluster_def)
qed

theorem classifier_case_insensitive_witness:
  "get_warehouse_cluster run1 [1042, 1054, 1051, 1054, 1043, 1044, 1040] (u ''wb'')
     = get_warehouse_cluster run1 [1042, 1086, 1083, 1086, 1075, 1076, 1072] (u ''wb'')
   \<and> get_warehouse_cluster run1
       (str_lower run1 [1042, 1086, 1083, 1086, 1075, 1076, 1072]) (u ''ozon'')
     = get_warehouse_cluster run1 [1042, 1086, 1083, 1086, 1075, 1076, 1072] (u ''ozon'')
   \<and> map lower_cp [1074, 1086, 1083, 1086, 1075, 1076, 1072]
     = [1074, 1086, 1083, 1086, 1075, 1076, 1072]
   \<and> get_warehouse_cluster run1
       (str_upper run1 [1042, 1086, 1083, 1086, 1075, 1076, 1072]) (u ''wb'')
     = get_warehouse_cluster run1 [1042, 1086, 1083, 1086, 1075, 1076, 1072] (u ''wb'')
   \<and> get_warehouse_cluster run1 [1074, 1054, 1083, 1054, 1075, 1044, 1072] (u ''wb'')
     = get_warehouse_cluster run1 [1042, 1086, 1083, 1086, 1075, 1076, 1072] (u ''wb'')"
proof -
  let ?V = "[1042, 1054, 1051, 1054, 1043, 1044, 1040] :: ustring"
  let ?v = "[1042, 1086, 1083, 1086, 1075, 1076, 1072] :: ustring"
  have a: "str_lower run1 ?V = str_lower run1 ?v"
    by (simp add: run1_def lower_cp_def)
  have b: "str_lower run1 (str_lower run1 ?v) = str_lower run1 ?v"
    by (simp add: run1_def comp_def lower_cp_idem)
  have c: "([1057, 1077, 1074, 1077, 1088, 1086, 45, 1047, 1072, 1087, 1072, 1076, 1085, 1099, 1081],
            [[1074, 1086, 1083, 1086, 1075, 1076, 1072], [1096, 1091, 1096, 1072, 1088, 1099],
             [1082, 1088, 1072, 1089, 1085, 1099, 1081, 32, 1073, 1086, 1088],
             [1089, 1072, 1085, 1082, 1090, 45, 1087, 1077, 1090, 1077, 1088, 1073, 1091, 1088, 1075],
             [1089, 1087, 1073], [1091, 1090, 1082, 1080, 1085, 1072]])
           \<in> set (WB_CLUSTERS @ OZON_CLUSTERS)"
    by (simp add: WB_CLUSTERS_def)
  have d: "\<forall>c\<in>set ?v. c < 128 \<or> (1024 \<le> c \<and> c \<le> 1119)"
    by simp
  from classifier_case_insensitive [of run1 ?V ?v "u ''wb''"] a
  have 1: "get_warehouse_cluster run1 ?V (u ''wb'') = get_warehouse_cluster run1 ?v (u ''wb'')"
    by blast
  from classifier_case_insensitive [of run1 ?v ?v "u ''ozon''"] b
  have 2: "get_warehouse_cluster run1 (str_lower run1 ?v) (u ''ozon'')
            = get_warehouse_cluster run1 ?v (u ''ozon'')"
    by blast
  from classifier_case_insensitive [of run1 ?v ?v "u ''wb''"] c
  have 3: "map lower_cp [1074, 1086, 1083, 1086, 1075, 1076, 1072]
            = [1074, 1086, 1083, 1086, 1075, 1076, 1072]"
    by fastforce
  from classifier_case_insensitive [of run1 ?v ?v "u ''wb''"] d
  have 4: "get_warehouse_cluster run1 (str_upper run1 ?v) (u ''wb'')
            = get_warehouse_cluster run1 ?v (u ''wb'')"
    by blast
  have e: "case_variant [1074, 1054, 1083, 1054, 1075, 1044, 1072] ?v"
    by (simp add: case_variant_def lower_cp_def upper_cp_def)
  from classifier_case_insensitive [of run1 "[1074, 1054, 1083, 1054, 1075, 1044, 1072]" ?v "u ''wb''"] d e
  have 5: "get_warehouse_cluster run1 [1074, 1054, 1083, 1054, 1075, 1044, 1072] (u ''wb'')
            = get_warehouse_cluster run1 ?v (u ''wb'')"
    by blast
  from 1 2 3 4 5 show ?thesis by blast
qed

text \<open>
  C10 as stated fails for the letter-case variant that upper-casing gives when the
  name has the small letter U+1C80, whose capital is U+0412: no keyword matches the
  name, and its upper-cased form Vologda (in capitals) is in the cluster
  Severo-Zapadnyj.
\<close>

theorem classifier_case_counterexample:
  "get_warehouse_cluster run1 [7296, 1086, 1083, 1086, 1075, 1076, 1072] (u ''wb'')
     = fallback_cluster
   \<and> get_warehouse_cluster run1
       (str_upper run1 [7296, 1086, 1083, 1086, 1075, 1076, 1072]) (u ''wb'')
     = [1057, 1077, 1074, 1077, 1088, 1086, 45, 1047, 1072, 1087, 1072, 1076, 1085, 1099, 1081]
   \<and> get_warehouse_cluster run1 [7296, 1086, 1083, 1086, 1075, 1076, 1072] (u ''wb'')
     \<noteq> get_warehouse_cluster run1
         (str_upper run1 [7296, 1086, 1083, 1086, 1075, 1076, 1072]) (u ''wb'')"
proof -
  have 1: "get_warehouse_cluster run1 [7296, 1086, 1083, 1086, 1075, 1076, 1072] (u ''wb'')
      = fallback_cluster"
    by (simp add: get_warehouse_cluster_def rounded_ve_wb)
  have 2: "get_warehouse_cluster run1
       (str_upper run1 [7296, 1086, 1083, 1086, 1075, 1076, 1072]) (u ''wb'')
     = [1057, 1077, 1074, 1077, 1088, 1086, 45, 1047, 1072, 1087, 1072, 1076, 1085, 1099, 1081]"
    by (simp only: rounded_ve_upper vologda_upper_wb)
  have 3: "fallback_cluster
      \<noteq> [1057, 1077, 1074, 1077, 1088, 1086, 45, 1047, 1072, 1087, 1072, 1076, 1085, 1099, 1081]"
    by (simp add: fallback_cluster_def)
  from 1 2 3 show ?thesis by simp
qed

subsection \<open>Colorizer\<close>

lemma article_color_SF0125:
  "str_upper L a = u ''SF0125'' \<Longrightarrow> get_article_color L a = u ''#614701''"
  by (simp add: get_article_color_def color_map_def)

lemma article_color_sf0125_run1: "get_article_color run1 (u ''sf0125'') = u ''#614701''"
  by (rule article_color_SF0125) (simp add: run1_def u_def upper_cp_def)

lemma article_color_no_hash:
  assumes "str_upper L' = str_upper L"
    and "map_of color_map (str_upper L a) \<noteq> None
         \<or> startswith (str_upper L a) (u ''FSF'')
         \<or> startswith (str_upper L a) (u ''SF'')
         \<or> startswith (str_upper L a) (u ''SM'')"
  shows "get_article_color L' a = get_article_color L a"
  using assms by (auto simp: get_article_color_def Let_def split: option.splits)

lemma article_color_palette:
  assumes "map_of color_map (str_upper L a) = None"
    and "\<not> startswith (str_upper L a) (u ''FSF'')"
    and "\<not> startswith (str_upper L a) (u ''SF'')"
    and "\<not> startswith (str_upper L a) (u ''SM'')"
  shows "get_article_color L a = fallback_colors ! nat (str_hash L a mod 5)
         \<and> get_article_color L a \<in> set fallback_colors"
proof -
  have len: "length fallback_colors = 5"
    by (simp add: fallback_colors_def)
  have eq: "get_article_color L a = fallback_colors ! nat (str_hash L a mod 5)"
    using assms by (simp add: get_article_color_def len)
  have "nat (str_hash L a mod 5) < length fallback_colors"
    unfolding len by simp
  then show ?thesis unfolding eq by simp
qed

text \<open>
  C7 on the code. For an article that is in no override row and has none of the three
  prefixes, the colour is \<^verbatim>\<open>fallback_colors[hash(article) % 5]\<close>, and the built-in
  hash of a string is salted per process: with the hash values CPython computes for
  BOX1 under the seeds 1 and 2, the same article gets two different colours.
\<close>

theorem article_color_differs_between_runs:
  "get_article_color run1 (u ''BOX1'') = u ''#ef4444''
   \<and> get_article_color run2 (u ''BOX1'') = u ''#f97316''"
  by (simp add: get_article_color_def run1_def run2_def color_map_def fallback_colors_def
      hash_seed1_def hash_seed2_def u_def upper_cp_def)

subsection \<open>Period windows\<close>

lemma filter_period_eq:
  "filter_period L g p today items =
     filter (\<lambda>i. case parse_date L (g i) of None \<Rightarrow> False
                 | Some dt \<Rightarrow> in_period p today (dt_date dt)) items"
  by (induction items) (auto split: option.splits)

lemma periods_config_keys:
  "map p_key periods_config = [u ''today'', u ''yesterday'', u ''days_3'', u ''days_7'', u ''days_30'']"
  by (simp add: periods_config_def)

lemma period_exact_iff:
  "p \<in> set periods_config \<Longrightarrow> p_exact_day p = Some True \<longleftrightarrow> p_key p = u ''yesterday''"
  by (auto simp: periods_config_def u_def)

lemma period_days_nonneg: "p \<in> set periods_config \<Longrightarrow> 0 \<le> p_days p"
  by (auto simp: periods_config_def)

lemma period_yesterday_days:
  "p \<in> set periods_config \<Longrightarrow> p_key p = u ''yesterday'' \<Longrightarrow> p_days p = 1"
  by (auto simp: periods_config_def u_def)

lemma ord_2024_06_10: "ymd2ord 2024 6 10 = 739047"
  by (simp add: ymd2ord_def days_before_year_def days_before_month_def is_leap_def)

lemma ord_2024_06_09: "ymd2ord 2024 6 9 = 739046"
  by (simp add: ymd2ord_def days_before_year_def days_before_month_def is_leap_def)

lemma parse_run1_0609:
  "parse_date run1 (Some (u ''2024-06-09T12:30:00Z'')) = Some \<lparr>dt_date = 739046, dt_time = 0\<rparr>"
  by (simp add: parse_date_def run1_def u_def replace_Z_def digit_val_def ord_2024_06_09)

lemma parse_run1_0610:
  "parse_date run1 (Some (u ''2024-06-10'')) = Some \<lparr>dt_date = 739047, dt_time = 0\<rparr>"
  by (simp add: parse_date_def run1_def u_def replace_Z_def digit_val_def ord_2024_06_10)

lemma parse_run1_bad: "parse_date run1 (Some (u ''n/a'')) = None"
  by (simp add: parse_date_def run1_def u_def replace_Z_def)

lemma parse_run1_none: "parse_date run1 None = None"
  by (simp add: parse_date_def)

subsection \<open>Dicts and sorting\<close>

lemma map_of_dict_setdefault:
  "map_of (dict_setdefault k init d) k' =
     (if k' = k \<and> map_of d k = None then Some init else map_of d k')"
  by (induction d) auto

lemma map_of_dict_modify:
  "map_of (dict_modify k f d) k' = (if k' = k then map_option f (map_of d k) else map_of d k')"
  by (induction d) auto

lemma keys_dict_modify: "map fst (dict_modify k f d) = map fst d"
  by (induction d) auto

lemma keys_dict_setdefault:
  "map fst (dict_setdefault k init d) = (if k \<in> fst ` set d then map fst d else map fst d @ [k])"
proof (induction d)
  case Nil
  then show ?case by simp
next
  case (Cons kv d)
  obtain k' v where kv: "kv = (k', v)" by (cases kv)
  show ?case
  proof (cases "k' = k")
    case True
    then show ?thesis by (simp add: kv)
  next
    case False
    then have "k \<in> fst ` set (kv # d) \<longleftrightarrow> k \<in> fst ` set d"
      by (auto simp: kv)
    with False Cons show ?thesis by (simp add: kv)
  qed
qed

lemma dict_modify_twice: "dict_modify k g (dict_modify k f d) = dict_modify k (g \<circ> f) d"
  by (induction d) auto

lemma sum_dict_upd:
  fixes g :: "'v \<Rightarrow> 'a::comm_monoid_add"
  assumes "g init = 0" and "\<And>v. g (f v) = g v + c"
  shows "sum_list (map g (dict_values (dict_modify k f (dict_setdefault k init d))))
           = sum_list (map g (dict_values d)) + c"
  using assms by (induction d) (auto simp: dict_values_def ac_simps)

lemma all_dict_upd:
  assumes "\<forall>v\<in>set (dict_values d). P v" and "P init" and "\<And>v. P v \<Longrightarrow> P (f v)"
  shows "\<forall>v\<in>set (dict_values (dict_modify k f (dict_setdefault k init d))). P v"
  using assms by (induction d) (fastforce simp: dict_values_def split: if_splits)+

lemma named_dict_upd:
  assumes "\<forall>(k', v)\<in>set d. nm v = k'" and "nm init = k" and "\<And>v. nm (f v) = nm v"
  shows "\<forall>(k', v)\<in>set (dict_modify k f (dict_setdefault k init d)). nm v = k'"
  using assms by (induction d) (auto split: if_splits)

lemma sum_insort_key:
  fixes g :: "'v \<Rightarrow> 'a::comm_monoid_add"
  shows "sum_list (map g (insort_key key x xs)) = g x + sum_list (map g xs)"
  by (induction xs) (auto simp: ac_simps)

lemma sum_sort_key:
  fixes g :: "'v \<Rightarrow> 'a::comm_monoid_add"
  shows "sum_list (map g (sort_key key xs)) = sum_list (map g xs)"
  by (induction xs) (auto simp: sum_insort_key)

lemma sum_list_rev_map:
  fixes g :: "'v \<Rightarrow> 'a::comm_monoid_add"
  shows "sum_list (map g (rev xs)) = sum_list (map g xs)"
  by (simp add: rev_map[symmetric] sum_list_rev)

lemma sum_sorted_reverse:
  fixes g :: "'v \<Rightarrow> 'a::comm_monoid_add"
  shows "sum_list (map g (sorted_reverse key xs)) = sum_list (map g xs)"
  by (simp add: sorted_reverse_def sum_list_rev_map sum_sort_key)

lemma set_sorted_reverse: "set (sorted_reverse key xs) = set xs"
  by (simp add: sorted_reverse_def)

lemma length_sorted_reverse: "length (sorted_reverse key xs) = length xs"
  by (simp add: sorted_reverse_def)

lemma sorted_reverse_desc:
  "sorted_wrt (\<lambda>a b. key a \<ge> key b) (sorted_reverse key xs)"
proof -
  have "sorted (map key (sort_key key (rev xs)))" by simp
  then have "sorted_wrt (\<lambda>a b. key a \<le> key b) (sort_key key (rev xs))"
    by (simp add: sorted_map)
  then show ?thesis
    by (simp add: sorted_reverse_def sorted_wrt_rev)
qed

lemma sorted_reverse_stable:
  "filter (\<lambda>y. key y = k) (sorted_reverse key xs) = filter (\<lambda>y. key y = k) xs"
  by (simp add: sorted_reverse_def rev_filter[symmetric] sort_key_stable)

lemma sorted_reverse_map:
  assumes "\<And>x. key' (f x) = key x"
  shows "map f (sorted_reverse key xs) = sorted_reverse key' (map f xs)"
proof -
  have ins: "\<And>x ys. map f (insort_key key x ys) = insort_key key' (f x) (map f ys)"
    subgoal for x ys by (induction ys) (auto simp: assms)
    done
  have "\<And>ys. map f (sort_key key ys) = sort_key key' (map f ys)"
    subgoal for ys by (induction ys) (auto simp: ins)
    done
  then show ?thesis by (simp add: sorted_reverse_def rev_map[symmetric])
qed

subsection \<open>Aggregator\<close>

lemma agg_loop_snoc: "agg_loop L mp st (xs @ [x]) = agg_step L mp (agg_loop L mp st xs) x"
  by (induction xs arbitrary: st) auto

lemma step_by_warehouse:
  "by_warehouse (agg_step L mp st item) =
     dict_modify (item_wh_name mp item)
       (if mp = u ''wb''
        then add_breakdown L (item_article item) 1 (item_price L mp item)
               \<circ> add_to L 1 (item_price L mp item)
        else add_to L 1 (item_price L mp item))
       (dict_setdefault (item_wh_name mp item) (new_bucket (item_wh_name mp item)) (by_warehouse st))"
  by (simp add: agg_step_def Let_def dict_modify_twice)

lemma step_by_region:
  "by_region (agg_step L mp st item) =
     dict_modify (item_region mp item) (add_to L 1 (item_price L mp item))
       (dict_setdefault (item_region mp item) (new_entry (item_region mp item)) (by_region st))"
  by (simp add: agg_step_def Let_def)

lemma ozon_products_loop_lines:
  "ozon_products_loop L wh prods bp =
     lines_loop L wh
       (map (\<lambda>pr. (get_or (op_offer_id pr) Unknown, product_qty pr, product_revenue L pr)) prods) bp"
  by (induction prods arbitrary: bp) (simp_all add: Let_def dict_modify_twice)

lemma step_by_product:
  "by_product (agg_step L mp st item)
     = lines_loop L (item_wh_name mp item) (item_lines L mp item) (by_product st)"
  by (simp add: agg_step_def Let_def item_lines_def ozon_products_loop_lines dict_modify_twice
      item_price_def)

lemma step_totals:
  "orders_count (agg_step L mp st item) = orders_count st + 1"
  "total_revenue (agg_step L mp st item) = py_add L (total_revenue st) (item_price L mp item)"
  by (simp_all add: agg_step_def Let_def)

lemma add_to_simps [simp]:
  "e_count (add_to L c r x) = e_count x + c"
  "e_revenue (add_to L c r x) = py_add L (e_revenue x) r"
  "e_name (add_to L c r x) = e_name x"
  by (simp_all add: add_to_def)

lemma add_to_breakdown [simp]: "b_breakdown (add_to L c r b) = b_breakdown b"
  by (simp add: add_to_def)

lemma add_breakdown_simps [simp]:
  "e_count (add_breakdown L s c r b) = e_count b"
  "e_revenue (add_breakdown L s c r b) = e_revenue b"
  "e_name (add_breakdown L s c r b) = e_name b"
  by (simp_all add: add_breakdown_def)

lemma new_bucket_simps [simp]:
  "e_count (new_bucket n) = 0" "e_revenue (new_bucket n) = PyInt 0" "e_name (new_bucket n) = n"
  "b_breakdown (new_bucket n) = []"
  by (simp_all add: new_bucket_def)

lemma new_entry_simps [simp]:
  "e_count (new_entry n) = 0" "e_revenue (new_entry n) = PyInt 0" "e_name (new_entry n) = n"
  by (simp_all add: new_entry_def)

lemma flatten_by_simps [simp]:
  "e_name (flatten_by key b) = e_name b"
  "e_count (flatten_by key b) = e_count b"
  "e_revenue (flatten_by key b) = e_revenue b"
  "ob_breakdown (flatten_by key b) = sorted_reverse key (dict_values (b_breakdown b))"
  by (simp_all add: flatten_by_def)

lemma result_products:
  "sales_by_product (aggregate_sales_data L xs mp) =
     map (flatten_by revenue_key)
       (sorted_reverse revenue_key (dict_values (by_product (agg_loop L mp agg_init xs))))"
  by (simp add: aggregate_sales_data_def Let_def)

lemma result_warehouses:
  "sales_by_warehouse (aggregate_sales_data L xs mp) =
     map (flatten_by e_count)
       (take 15 (sorted_reverse revenue_key (dict_values (by_warehouse (agg_loop L mp agg_init xs)))))"
  by (simp add: aggregate_sales_data_def Let_def)

lemma result_regions:
  "sales_by_region (aggregate_sales_data L xs mp) =
     take 15 (sorted_reverse revenue_key (dict_values (by_region (agg_loop L mp agg_init xs))))"
  by (simp add: aggregate_sales_data_def Let_def)

lemma result_totals:
  "r_orders_count (aggregate_sales_data L xs mp) = orders_count (agg_loop L mp agg_init xs)"
  "r_revenue (aggregate_sales_data L xs mp) = total_revenue (agg_loop L mp agg_init xs)"
  by (simp_all add: aggregate_sales_data_def Let_def)

lemma orders_count_loop: "orders_count (agg_loop L mp agg_init xs) = int (length xs)"
  by (induction xs rule: rev_induct) (simp_all add: agg_init_def agg_loop_snoc step_totals)

text \<open>The keys of the three dicts are the keys met, in first-encounter order.\<close>

lemma first_seen_snoc:
  "first_seen (xs @ [x]) = (if x \<in> set xs then first_seen xs else first_seen xs @ [x])"
  by (simp add: first_seen_def)

lemma set_first_seen [simp]: "set (first_seen xs) = set xs"
  by (simp add: first_seen_def)

lemma distinct_first_seen [simp]: "distinct (first_seen xs)"
  by (simp add: first_seen_def)

lemma length_first_seen: "length (first_seen xs) = card (set xs)"
  using distinct_card [of "first_seen xs"] by simp

lemma first_seen_Nil [simp]: "first_seen [] = []"
  by (simp add: first_seen_def)

lemma keys_upd_first_seen:
  assumes "map fst d = first_seen A"
  shows "map fst (dict_modify k f (dict_setdefault k init d)) = first_seen (A @ [k])"
proof -
  have "fst ` set d = set A"
    using assms by (metis set_first_seen set_map)
  then show ?thesis
    by (simp add: keys_dict_modify keys_dict_setdefault first_seen_snoc assms)
qed

lemma keys_lines_loop:
  "map fst bp = first_seen A \<Longrightarrow> map fst (lines_loop L wh ls bp) = first_seen (A @ map fst ls)"
proof (induction ls arbitrary: bp A)
  case Nil
  then show ?case by simp
next
  case (Cons l ls)
  obtain a c r where l: "l = (a, c, r)" by (cases l)
  have "map fst (dict_modify a (add_breakdown L wh c r \<circ> add_to L c r)
          (dict_setdefault a (new_bucket a) bp)) = first_seen (A @ [a])"
    by (rule keys_upd_first_seen [OF Cons.prems])
  from Cons.IH [OF this] show ?case by (simp add: l)
qed

lemma keys_warehouse:
  "map fst (by_warehouse (agg_loop L mp agg_init xs)) = first_seen (map (item_wh_name mp) xs)"
proof (induction xs rule: rev_induct)
  case Nil
  then show ?case by (simp add: agg_init_def)
next
  case (snoc x xs)
  show ?case
    unfolding agg_loop_snoc step_by_warehouse
    using keys_upd_first_seen [OF snoc] by simp
qed

lemma keys_region:
  "map fst (by_region (agg_loop L mp agg_init xs)) = first_seen (map (item_region mp) xs)"
proof (induction xs rule: rev_induct)
  case Nil
  then show ?case by (simp add: agg_init_def)
next
  case (snoc x xs)
  show ?case
    unfolding agg_loop_snoc step_by_region
    using keys_upd_first_seen [OF snoc] by simp
qed

lemma keys_product:
  "map fst (by_product (agg_loop L mp agg_init xs))
     = first_seen (concat (map (\<lambda>x. map fst (item_lines L mp x)) xs))"
proof (induction xs rule: rev_induct)
  case Nil
  then show ?case by (simp add: agg_init_def)
next
  case (snoc x xs)
  show ?case
    unfolding agg_loop_snoc step_by_product
    using keys_lines_loop [OF snoc] by simp
qed

text \<open>Every bucket carries the name of its key.\<close>

lemma names_lines_loop:
  "\<forall>(k, b)\<in>set bp. e_name b = k \<Longrightarrow> \<forall>(k, b)\<in>set (lines_loop L wh ls bp). e_name b = k"
proof (induction ls arbitrary: bp)
  case Nil
  then show ?case by simp
next
  case (Cons l ls)
  obtain a c r where l: "l = (a, c, r)" by (cases l)
  have "\<forall>(k, b)\<in>set (dict_modify a (add_breakdown L wh c r \<circ> add_to L c r)
          (dict_setdefault a (new_bucket a) bp)). e_name b = k"
    by (rule named_dict_upd) (use Cons.prems in simp_all)
  from Cons.IH [OF this] show ?case by (simp add: l)
qed

lemma names_product: "\<forall>(k, b)\<in>set (by_product (agg_loop L mp agg_init xs)). e_name b = k"
proof (induction xs rule: rev_induct)
  case Nil
  then show ?case by (simp add: agg_init_def)
next
  case (snoc x xs)
  then show ?case
    by (simp add: agg_loop_snoc step_by_product names_lines_loop)
qed

lemma names_warehouse: "\<forall>(k, b)\<in>set (by_warehouse (agg_loop L mp agg_init xs)). e_name b = k"
proof (induction xs rule: rev_induct)
  case Nil
  then show ?case by (simp add: agg_init_def)
next
  case (snoc x xs)
  show ?case
    unfolding agg_loop_snoc step_by_warehouse
    by (rule named_dict_upd) (use snoc in simp_all)
qed

lemma names_region: "\<forall>(k, b)\<in>set (by_region (agg_loop L mp agg_init xs)). e_name b = k"
proof (induction xs rule: rev_induct)
  case Nil
  then show ?case by (simp add: agg_init_def)
next
  case (snoc x xs)
  show ?case
    unfolding agg_loop_snoc step_by_region
    by (rule named_dict_upd) (use snoc in simp_all)
qed

lemma names_eq_keys: "\<forall>(k, b)\<in>set d. e_name b = k \<Longrightarrow> map e_name (dict_values d) = map fst d"
  by (induction d) (auto simp: dict_values_def)

text \<open>Count and revenue under a key after one update and after a loop of updates.\<close>

lemma count_of_upd:
  assumes "e_count init = 0" and "\<And>v. e_count (f v) = e_count v + c"
  shows "count_of (dict_modify k f (dict_setdefault k init d)) k'
           = count_of d k' + (if k' = k then c else 0)"
  using assms
  by (simp add: count_of_def map_of_dict_modify map_of_dict_setdefault split: option.splits)

lemma revenue_of_upd:
  assumes "e_revenue init = PyInt 0" and "\<And>v. e_revenue (f v) = py_add L (e_revenue v) r"
  shows "revenue_of (dict_modify k f (dict_setdefault k init d)) k'
           = (if k' = k then py_add L (revenue_of d k') r else revenue_of d k')"
  using assms
  by (simp add: revenue_of_def map_of_dict_modify map_of_dict_setdefault split: option.splits)

lemma units_of_Nil [simp]: "units_of k [] = 0"
  by (simp add: units_of_def)

lemma units_of_Cons [simp]:
  "units_of k ((a, c, r) # ls) = (if a = k then c else 0) + units_of k ls"
  by (simp add: units_of_def)

lemma units_of_append [simp]: "units_of k (ls @ ls') = units_of k ls + units_of k ls'"
  by (simp add: units_of_def)

lemma amount_of_Nil [simp]: "amount_of L k [] = PyInt 0"
  by (simp add: amount_of_def py_sum_def)

lemma amount_of_snoc [simp]:
  "amount_of L k (ls @ [(a, c, r)])
     = (if a = k then py_add L (amount_of L k ls) r else amount_of L k ls)"
  by (simp add: amount_of_def py_sum_def)

text \<open>The revenue under a key after the lines \<open>ls\<close>, from the revenue \<open>v\<close> before them.\<close>

lemma count_of_lines_loop:
  "count_of (lines_loop L wh ls bp) k = count_of bp k + units_of k ls"
proof (induction ls arbitrary: bp)
  case Nil
  then show ?case by simp
next
  case (Cons l ls)
  obtain a c r where l: "l = (a, c, r)" by (cases l)
  have "count_of (dict_modify a (add_breakdown L wh c r \<circ> add_to L c r)
          (dict_setdefault a (new_bucket a) bp)) k = count_of bp k + (if k = a then c else 0)"
    by (rule count_of_upd) simp_all
  then show ?case by (auto simp: l Cons.IH)
qed

lemma revenue_of_lines_loop:
  "revenue_of (lines_loop L wh ls bp) k
     = foldl (py_add L) (revenue_of bp k) (map (\<lambda>(a, c, r). r) (filter (\<lambda>(a, c, r). a = k) ls))"
proof (induction ls arbitrary: bp)
  case Nil
  then show ?case by simp
next
  case (Cons l ls)
  obtain a c r where l: "l = (a, c, r)" by (cases l)
  have "revenue_of (dict_modify a (add_breakdown L wh c r \<circ> add_to L c r)
          (dict_setdefault a (new_bucket a) bp)) k
        = (if k = a then py_add L (revenue_of bp k) r else revenue_of bp k)"
    by (rule revenue_of_upd) simp_all
  then show ?case by (auto simp: l Cons.IH)
qed

lemma sum_counts_upd:
  assumes "e_count init = 0" and "\<And>v. e_count (f v) = e_count v + c"
  shows "sum_list (map e_count (dict_values (dict_modify k f (dict_setdefault k init d))))
           = sum_list (map e_count (dict_values d)) + c"
  by (rule sum_dict_upd) (use assms in simp_all)

lemma sum_counts_warehouse:
  "sum_list (map e_count (dict_values (by_warehouse (agg_loop L mp agg_init xs)))) = int (length xs)"
proof (induction xs rule: rev_induct)
  case Nil
  then show ?case by (simp add: agg_init_def dict_values_def)
next
  case (snoc x xs)
  have "sum_list (map e_count (dict_values (by_warehouse (agg_loop L mp agg_init (xs @ [x])))))
      = sum_list (map e_count (dict_values (by_warehouse (agg_loop L mp agg_init xs)))) + 1"
    unfolding agg_loop_snoc step_by_warehouse by (rule sum_counts_upd) simp_all
  with snoc show ?case by simp
qed

lemma sum_counts_region:
  "sum_list (map e_count (dict_values (by_region (agg_loop L mp agg_init xs)))) = int (length xs)"
proof (induction xs rule: rev_induct)
  case Nil
  then show ?case by (simp add: agg_init_def dict_values_def)
next
  case (snoc x xs)
  have "sum_list (map e_count (dict_values (by_region (agg_loop L mp agg_init (xs @ [x])))))
      = sum_list (map e_count (dict_values (by_region (agg_loop L mp agg_init xs)))) + 1"
    unfolding agg_loop_snoc step_by_region by (rule sum_counts_upd) simp_all
  with snoc show ?case by simp
qed

lemma sum_counts_lines_loop:
  "sum_list (map e_count (dict_values (lines_loop L wh ls bp)))
     = sum_list (map e_count (dict_values bp)) + sum_list (map (\<lambda>(a, c, r). c) ls)"
proof (induction ls arbitrary: bp)
  case Nil
  then show ?case by simp
next
  case (Cons l ls)
  obtain a c r where l: "l = (a, c, r)" by (cases l)
  have "sum_list (map e_count (dict_values (dict_modify a (add_breakdown L wh c r \<circ> add_to L c r)
          (dict_setdefault a (new_bucket a) bp)))) = sum_list (map e_count (dict_values bp)) + c"
    by (rule sum_counts_upd) simp_all
  then show ?case by (simp add: l Cons.IH)
qed

lemma sum_counts_product:
  "sum_list (map e_count (dict_values (by_product (agg_loop L mp agg_init xs))))
     = sum_list (map (\<lambda>x. sum_list (map (\<lambda>(a, c, r). c) (item_lines L mp x))) xs)"
proof (induction xs rule: rev_induct)
  case Nil
  then show ?case by (simp add: agg_init_def dict_values_def)
next
  case (snoc x xs)
  then show ?case
    by (simp add: agg_loop_snoc step_by_product sum_counts_lines_loop)
qed

lemma counts_nonneg_warehouse:
  "\<forall>b\<in>set (dict_values (by_warehouse (agg_loop L mp agg_init xs))). 0 \<le> e_count b"
proof (induction xs rule: rev_induct)
  case Nil
  then show ?case by (simp add: agg_init_def dict_values_def)
next
  case (snoc x xs)
  show ?case
    unfolding agg_loop_snoc step_by_warehouse
    by (rule all_dict_upd) (use snoc in simp_all)
qed

lemma counts_nonneg_region:
  "\<forall>b\<in>set (dict_values (by_region (agg_loop L mp agg_init xs))). 0 \<le> e_count b"
proof (induction xs rule: rev_induct)
  case Nil
  then show ?case by (simp add: agg_init_def dict_values_def)
next
  case (snoc x xs)
  show ?case
    unfolding agg_loop_snoc step_by_region
    by (rule all_dict_upd) (use snoc in simp_all)
qed

lemma sum_take_le:
  fixes g :: "'a \<Rightarrow> int"
  assumes "\<forall>x\<in>set xs. 0 \<le> g x"
  shows "sum_list (map g (take n xs)) \<le> sum_list (map g xs)"
proof -
  have "sum_list (map g xs) = sum_list (map g (take n xs)) + sum_list (map g (drop n xs))"
    by (metis append_take_drop_id map_append sum_list_append)
  moreover have "0 \<le> sum_list (map g (drop n xs))"
  proof (rule sum_list_nonneg)
    fix y assume "y \<in> set (map g (drop n xs))"
    then obtain x where "x \<in> set (drop n xs)" and "y = g x" by auto
    with assms in_set_dropD [of x n xs] show "0 \<le> y" by blast
  qed
  ultimately show ?thesis by simp
qed

lemma length_values_warehouse:
  "length (dict_values (by_warehouse (agg_loop L mp agg_init xs)))
     = card (set (map (item_wh_name mp) xs))"
  using arg_cong [OF keys_warehouse [of L mp xs], of length]
  by (simp add: dict_values_def length_first_seen)

lemma length_values_region:
  "length (dict_values (by_region (agg_loop L mp agg_init xs)))
     = card (set (map (item_region mp) xs))"
  using arg_cong [OF keys_region [of L mp xs], of length]
  by (simp add: dict_values_def length_first_seen)

lemma length_values_product:
  "length (dict_values (by_product (agg_loop L mp agg_init xs)))
     = card (set (concat (map (\<lambda>x. map fst (item_lines L mp x)) xs)))"
  using arg_cong [OF keys_product [of L mp xs], of length]
  by (simp only: dict_values_def length_first_seen length_map)

lemma sum_counts_flatten:
  "sum_list (map e_count (map (flatten_by key) bs)) = sum_list (map e_count bs)"
  by (simp add: comp_def)

lemma sorted_reverse_flatten:
  "map (flatten_by key) (sorted_reverse revenue_key bs)
     = sorted_reverse revenue_key (map (flatten_by key) bs)"
  by (rule sorted_reverse_map) (simp add: revenue_key_def)

lemma sorted_desc_take:
  "sorted_wrt (\<lambda>a b. key a \<ge> key b) (take n (sorted_reverse key xs))"
  by (rule sorted_wrt_take) (rule sorted_reverse_desc)

subsection \<open>The aggregations of the sample inputs\<close>

lemma ozon_eval:
  "aggregate_sales_data run1 [ozon_order_qty3] (u ''ozon'') =
     \<lparr>r_revenue = PyInt 0, r_orders_count = 1,
      sales_by_warehouse = [\<lparr>e_name = u ''W1'', e_count = 1, e_revenue = PyInt 0, ob_breakdown = []\<rparr>],
      sales_by_region = [\<lparr>e_name = u ''Kazan'', e_count = 1, e_revenue = PyInt 0\<rparr>],
      sales_by_product = [\<lparr>e_name = u ''SF0125'', e_count = 3, e_revenue = PyFloat 0,
         ob_breakdown = [\<lparr>e_name = u ''W1'', e_count = 3, e_revenue = PyFloat 0\<rparr>]\<rparr>]\<rparr>"
  by code_simp

lemma wb_eval:
  "aggregate_sales_data run1 wb_sample (u ''wb'') =
     \<lparr>r_revenue = PyInt 350, r_orders_count = 3,
      sales_by_warehouse =
        [\<lparr>e_name = u ''Kazan'', e_count = 1, e_revenue = PyInt 250,
          ob_breakdown = [\<lparr>e_name = u ''SF0125'', e_count = 1, e_revenue = PyInt 250\<rparr>]\<rparr>,
         \<lparr>e_name = u ''Tula'', e_count = 2, e_revenue = PyInt 100,
          ob_breakdown = [\<lparr>e_name = u ''SF0125'', e_count = 1, e_revenue = PyInt 100\<rparr>,
                          \<lparr>e_name = u ''SM0250'', e_count = 1, e_revenue = PyInt 0\<rparr>]\<rparr>],
      sales_by_region =
        [\<lparr>e_name = u ''Unknown'', e_count = 1, e_revenue = PyInt 250\<rparr>,
         \<lparr>e_name = u ''Center'', e_count = 2, e_revenue = PyInt 100\<rparr>],
      sales_by_product =
        [\<lparr>e_name = u ''SF0125'', e_count = 2, e_revenue = PyInt 350,
          ob_breakdown = [\<lparr>e_name = u ''Kazan'', e_count = 1, e_revenue = PyInt 250\<rparr>,
                          \<lparr>e_name = u ''Tula'', e_count = 1, e_revenue = PyInt 100\<rparr>]\<rparr>,
         \<lparr>e_name = u ''SM0250'', e_count = 1, e_revenue = PyInt 0,
          ob_breakdown = [\<lparr>e_name = u ''Tula'', e_count = 1, e_revenue = PyInt 0\<rparr>]\<rparr>]\<rparr>"
  by code_simp

lemma sixteen_eval:
  "map (\<lambda>b. (e_name b, e_count b, e_revenue b))
     (sales_by_warehouse (aggregate_sales_data run1 wb_sixteen (u ''wb'')))
     = [(u ''P'', 1, PyInt 16), (u ''O'', 1, PyInt 15), (u ''N'', 1, PyInt 14),
        (u ''M'', 1, PyInt 13), (u ''L'', 1, PyInt 12), (u ''K'', 1, PyInt 11),
        (u ''J'', 1, PyInt 10), (u ''I'', 1, PyInt 9), (u ''H'', 1, PyInt 8),
        (u ''G'', 1, PyInt 7), (u ''F'', 1, PyInt 6), (u ''E'', 1, PyInt 5),
        (u ''D'', 1, PyInt 4), (u ''C'', 1, PyInt 3), (u ''B'', 1, PyInt 2)]"
  by code_simp

lemma floats_wb_eval:
  "aggregate_sales_data run1 wb_floats (u ''wb'') =
     \<lparr>r_revenue = PyFloat (6780193428262093 / 1099511627776), r_orders_count = 3,
      sales_by_warehouse =
        [\<lparr>e_name = u ''W'', e_count = 3,
          e_revenue = PyFloat (6780193428262093 / 1099511627776),
          ob_breakdown =
            [\<lparr>e_name = u ''A'', e_count = 2,
              e_revenue = PyFloat (4253438741818901 / 1099511627776)\<rparr>,
             \<lparr>e_name = u ''B'', e_count = 1,
              e_revenue = PyFloat (5053509372886385 / 2199023255552)\<rparr>]\<rparr>],
      sales_by_region =
        [\<lparr>e_name = u ''Unknown'', e_count = 3,
          e_revenue = PyFloat (6780193428262093 / 1099511627776)\<rparr>],
      sales_by_product =
        [\<lparr>e_name = u ''A'', e_count = 2,
          e_revenue = PyFloat (4253438741818901 / 1099511627776),
          ob_breakdown =
            [\<lparr>e_name = u ''W'', e_count = 2,
              e_revenue = PyFloat (4253438741818901 / 1099511627776)\<rparr>]\<rparr>,
         \<lparr>e_name = u ''B'', e_count = 1,
          e_revenue = PyFloat (5053509372886385 / 2199023255552),
          ob_breakdown =
            [\<lparr>e_name = u ''W'', e_count = 1,
              e_revenue = PyFloat (5053509372886385 / 2199023255552)\<rparr>]\<rparr>]\<rparr>"
  by code_simp

lemma floats_ozon_eval:
  "sales_by_product (aggregate_sales_data run1 ozon_floats (u ''ozon'')) =
     [\<lparr>e_name = u ''X'', e_count = 3,
       e_revenue = PyFloat (6780193428262093 / 1099511627776),
       ob_breakdown =
         [\<lparr>e_name = u ''W1'', e_count = 2,
           e_revenue = PyFloat (4253438741818901 / 1099511627776)\<rparr>,
          \<lparr>e_name = u ''W2'', e_count = 1,
           e_revenue = PyFloat (5053509372886385 / 2199023255552)\<rparr>]\<rparr>]"
  by code_simp

lemma floats_sum_eval:
  "py_sum run1 [PyFloat (4253438741818901 / 1099511627776),
                PyFloat (5053509372886385 / 2199023255552)]
     = PyFloat (3390096714131047 / 549755813888)"
  by code_simp

subsection \<open>Additivity of the breakdowns\<close>

lemma add_breakdown_count:
  "sum_list (map e_count (dict_values (b_breakdown (add_breakdown L s c r b))))
     = sum_list (map e_count (dict_values (b_breakdown b))) + c"
  unfolding add_breakdown_def
  by (simp add: sum_dict_upd [where g = e_count and c = c])

lemma counts_additive_new_bucket: "bucket_counts_additive (new_bucket n)"
  by (simp add: bucket_counts_additive_def dict_values_def)

lemma counts_additive_line:
  "bucket_counts_additive b \<Longrightarrow> bucket_counts_additive ((add_breakdown L s c r \<circ> add_to L c r) b)"
  by (simp add: bucket_counts_additive_def add_breakdown_count)

lemma lines_loop_counts_additive:
  "\<forall>b\<in>set (dict_values bp). bucket_counts_additive b \<Longrightarrow>
   \<forall>b\<in>set (dict_values (lines_loop L wh ls bp)). bucket_counts_additive b"
proof (induction ls arbitrary: bp)
  case Nil
  then show ?case by simp
next
  case (Cons l ls)
  obtain a c r where l: "l = (a, c, r)" by (cases l)
  have "\<forall>b\<in>set (dict_values (dict_modify a (add_breakdown L wh c r \<circ> add_to L c r)
                (dict_setdefault a (new_bucket a) bp))). bucket_counts_additive b"
    by (rule all_dict_upd [OF Cons.prems counts_additive_new_bucket counts_additive_line])
  from Cons.IH [OF this] show ?case by (simp add: l)
qed

lemma products_counts_additive:
  "\<forall>b\<in>set (dict_values (by_product (agg_loop L mp agg_init xs))). bucket_counts_additive b"
proof (induction xs rule: rev_induct)
  case Nil
  then show ?case by (simp add: agg_init_def dict_values_def)
next
  case (snoc x xs)
  then show ?case
    by (simp add: agg_loop_snoc step_by_product lines_loop_counts_additive)
qed

lemma warehouses_counts_additive_wb:
  "\<forall>b\<in>set (dict_values (by_warehouse (agg_loop L (u ''wb'') agg_init xs))). bucket_counts_additive b"
proof (induction xs rule: rev_induct)
  case Nil
  then show ?case by (simp add: agg_init_def dict_values_def)
next
  case (snoc x xs)
  let ?w = "item_wh_name (u ''wb'') x"
  let ?p = "item_price L (u ''wb'') x"
  have "\<forall>b\<in>set (dict_values (dict_modify ?w (add_breakdown L (item_article x) 1 ?p \<circ> add_to L 1 ?p)
           (dict_setdefault ?w (new_bucket ?w)
              (by_warehouse (agg_loop L (u ''wb'') agg_init xs))))). bucket_counts_additive b"
  proof (rule all_dict_upd)
    show "\<forall>b\<in>set (dict_values (by_warehouse (agg_loop L (u ''wb'') agg_init xs))).
            bucket_counts_additive b"
      by (rule snoc.IH)
    show "bucket_counts_additive (new_bucket ?w)"
      by (rule counts_additive_new_bucket)
    show "\<And>v. bucket_counts_additive v \<Longrightarrow>
            bucket_counts_additive ((add_breakdown L (item_article x) 1 ?p \<circ> add_to L 1 ?p) v)"
      by (rule counts_additive_line)
  qed
  then show ?case
    by (simp add: agg_loop_snoc step_by_warehouse)
qed

lemma warehouses_no_breakdown_ozon:
  "mp \<noteq> u ''wb'' \<Longrightarrow>
   \<forall>b\<in>set (dict_values (by_warehouse (agg_loop L mp agg_init xs))). b_breakdown b = []"
proof (induction xs rule: rev_induct)
  case Nil
  then show ?case by (simp add: agg_init_def dict_values_def)
next
  case (snoc x xs)
  have "\<forall>b\<in>set (dict_values (dict_modify (item_wh_name mp x) (add_to L 1 (item_price L mp x))
           (dict_setdefault (item_wh_name mp x) (new_bucket (item_wh_name mp x))
              (by_warehouse (agg_loop L mp agg_init xs))))). b_breakdown b = []"
    by (rule all_dict_upd) (use snoc in \<open>simp_all add: new_bucket_def\<close>)
  with snoc.prems show ?case
    by (simp add: agg_loop_snoc step_by_warehouse)
qed

lemma counts_additive_flatten: "counts_additive (flatten_by key b) \<longleftrightarrow> bucket_counts_additive b"
  by (simp add: counts_additive_def bucket_counts_additive_def sum_sorted_reverse)

text \<open>Additions that do not round.\<close>

lemma num_val_py_float: "\<forall>x. fround L x = x \<Longrightarrow> num_val (py_float L a) = num_val a"
  by (cases a) simp_all

lemma num_val_py_add:
  assumes "unrounded L a" and "unrounded L r"
  shows "num_val (py_add L a r) = num_val a + num_val r"
proof (cases "\<forall>x. fround L x = x")
  case True
  then show ?thesis
    by (cases a; cases r) simp_all
next
  case False
  with assms have "is_int a" and "is_int r"
    by (simp_all add: unrounded_def)
  then show ?thesis
    by (cases a; cases r) simp_all
qed

lemma unrounded_py_add:
  assumes "unrounded L a" and "unrounded L r"
  shows "unrounded L (py_add L a r)"
proof (cases "\<forall>x. fround L x = x")
  case True
  then show ?thesis by (simp add: unrounded_def)
next
  case False
  with assms have "is_int a" and "is_int r"
    by (simp_all add: unrounded_def)
  then show ?thesis
    by (cases a; cases r) (simp_all add: unrounded_def)
qed

lemma unrounded_zero [simp]: "unrounded L (PyInt 0)"
  by (simp add: unrounded_def)

lemma num_val_foldl:
  assumes "unrounded L a" and "\<forall>x\<in>set xs. unrounded L x"
  shows "num_val (foldl (py_add L) a xs) = num_val a + sum_list (map num_val xs)"
  using assms
proof (induction xs arbitrary: a)
  case Nil
  then show ?case by simp
next
  case (Cons x xs)
  from Cons.prems have "unrounded L (py_add L a x)"
    by (simp add: unrounded_py_add)
  with Cons.prems Cons.IH [of "py_add L a x"] show ?case
    by (simp add: num_val_py_add)
qed

lemma num_val_py_sum:
  "\<forall>x\<in>set xs. unrounded L x \<Longrightarrow> num_val (py_sum L xs) = sum_list (map num_val xs)"
  unfolding py_sum_def by (simp add: num_val_foldl)

lemma sum_dict_upd_on:
  fixes g :: "'v \<Rightarrow> 'a::comm_monoid_add"
  assumes "g init = 0" and "\<And>v. P v \<Longrightarrow> g (f v) = g v + c"
    and "P init" and "\<forall>v\<in>set (dict_values d). P v"
  shows "sum_list (map g (dict_values (dict_modify k f (dict_setdefault k init d))))
           = sum_list (map g (dict_values d)) + c"
  using assms by (induction d) (auto simp: dict_values_def ac_simps)

lemma revenue_exact_new_bucket: "bucket_revenue_exact L (new_bucket n)"
  by (simp add: bucket_revenue_exact_def dict_values_def revenue_key_def)

lemma revenue_exact_line:
  assumes r: "unrounded L r" and b: "bucket_revenue_exact L b"
  shows "bucket_revenue_exact L ((add_breakdown L s c r \<circ> add_to L c r) b)"
proof -
  let ?bd = "dict_modify s (add_to L c r) (dict_setdefault s (new_entry s) (b_breakdown b))"
  from b have ub: "unrounded L (e_revenue b)"
    and us: "\<forall>v\<in>set (dict_values (b_breakdown b)). unrounded L (e_revenue v)"
    and eq: "revenue_key b = sum_list (map revenue_key (dict_values (b_breakdown b)))"
    by (simp_all add: bucket_revenue_exact_def)
  have sum: "sum_list (map revenue_key (dict_values ?bd))
      = sum_list (map revenue_key (dict_values (b_breakdown b))) + num_val r"
  proof (rule sum_dict_upd_on [where P = "\<lambda>v. unrounded L (e_revenue v)"])
    show "revenue_key (new_entry s) = 0"
      by (simp add: revenue_key_def)
    show "revenue_key (add_to L c r v) = revenue_key v + num_val r"
      if "unrounded L (e_revenue v)" for v :: entry
      using that r by (simp add: revenue_key_def num_val_py_add)
    show "unrounded L (e_revenue (new_entry s))"
      by simp
    show "\<forall>v\<in>set (dict_values (b_breakdown b)). unrounded L (e_revenue v)"
      by (rule us)
  qed
  have all: "\<forall>v\<in>set (dict_values ?bd). unrounded L (e_revenue v)"
  proof (rule all_dict_upd)
    show "\<forall>v\<in>set (dict_values (b_breakdown b)). unrounded L (e_revenue v)"
      by (rule us)
    show "unrounded L (e_revenue (new_entry s))"
      by simp
    show "unrounded L (e_revenue (add_to L c r v))" if "unrounded L (e_revenue v)" for v :: entry
      using that r by (simp add: unrounded_py_add)
  qed
  have bd: "b_breakdown ((add_breakdown L s c r \<circ> add_to L c r) b) = ?bd"
    by (simp add: add_breakdown_def)
  have rev: "revenue_key ((add_breakdown L s c r \<circ> add_to L c r) b) = revenue_key b + num_val r"
    using ub r by (simp add: revenue_key_def num_val_py_add)
  show ?thesis
    unfolding bucket_revenue_exact_def bd rev sum
    using all ub r eq by (simp add: unrounded_py_add)
qed

lemma lines_loop_revenue_exact:
  assumes "\<forall>(a, c, r)\<in>set ls. unrounded L r"
    and "\<forall>b\<in>set (dict_values bp). bucket_revenue_exact L b"
  shows "\<forall>b\<in>set (dict_values (lines_loop L wh ls bp)). bucket_revenue_exact L b"
  using assms
proof (induction ls arbitrary: bp)
  case Nil
  then show ?case by simp
next
  case (Cons l ls)
  obtain a c r where l: "l = (a, c, r)" by (cases l)
  from Cons.prems(1) l have r: "unrounded L r" and rest: "\<forall>(a, c, r)\<in>set ls. unrounded L r"
    by simp_all
  have "\<forall>b\<in>set (dict_values (dict_modify a (add_breakdown L wh c r \<circ> add_to L c r)
                (dict_setdefault a (new_bucket a) bp))). bucket_revenue_exact L b"
  proof (rule all_dict_upd)
    show "\<forall>b\<in>set (dict_values bp). bucket_revenue_exact L b"
      by (rule Cons.prems(2))
    show "bucket_revenue_exact L (new_bucket a)"
      by (rule revenue_exact_new_bucket)
    show "\<And>v. bucket_revenue_exact L v \<Longrightarrow>
            bucket_revenue_exact L ((add_breakdown L wh c r \<circ> add_to L c r) v)"
      by (rule revenue_exact_line [OF r])
  qed
  from Cons.IH [OF rest this] show ?case by (simp add: l)
qed

lemma products_revenue_exact:
  assumes "\<forall>item\<in>set xs. \<forall>(a, c, r)\<in>set (item_lines L mp item). unrounded L r"
  shows "\<forall>b\<in>set (dict_values (by_product (agg_loop L mp agg_init xs))). bucket_revenue_exact L b"
  using assms
proof (induction xs rule: rev_induct)
  case Nil
  then show ?case by (simp add: agg_init_def dict_values_def)
next
  case (snoc x xs)
  from snoc.prems have x: "\<forall>(a, c, r)\<in>set (item_lines L mp x). unrounded L r"
    and xs: "\<forall>item\<in>set xs. \<forall>(a, c, r)\<in>set (item_lines L mp item). unrounded L r"
    by simp_all
  show ?case
    unfolding agg_loop_snoc step_by_product
    by (rule lines_loop_revenue_exact [OF x snoc.IH [OF xs]])
qed

lemma warehouses_revenue_exact_wb:
  assumes "\<forall>item\<in>set xs. unrounded L (item_price L (u ''wb'') item)"
  shows "\<forall>b\<in>set (dict_values (by_warehouse (agg_loop L (u ''wb'') agg_init xs))).
           bucket_revenue_exact L b"
  using assms
proof (induction xs rule: rev_induct)
  case Nil
  then show ?case by (simp add: agg_init_def dict_values_def)
next
  case (snoc x xs)
  let ?w = "item_wh_name (u ''wb'') x"
  let ?p = "item_price L (u ''wb'') x"
  from snoc.prems have p: "unrounded L ?p"
    and xs: "\<forall>item\<in>set xs. unrounded L (item_price L (u ''wb'') item)"
    by simp_all
  have "\<forall>b\<in>set (dict_values (dict_modify ?w (add_breakdown L (item_article x) 1 ?p \<circ> add_to L 1 ?p)
           (dict_setdefault ?w (new_bucket ?w)
              (by_warehouse (agg_loop L (u ''wb'') agg_init xs))))). bucket_revenue_exact L b"
  proof (rule all_dict_upd)
    show "\<forall>b\<in>set (dict_values (by_warehouse (agg_loop L (u ''wb'') agg_init xs))).
            bucket_revenue_exact L b"
      by (rule snoc.IH [OF xs])
    show "bucket_revenue_exact L (new_bucket ?w)"
      by (rule revenue_exact_new_bucket)
    show "\<And>v. bucket_revenue_exact L v \<Longrightarrow>
            bucket_revenue_exact L ((add_breakdown L (item_article x) 1 ?p \<circ> add_to L 1 ?p) v)"
      by (rule revenue_exact_line [OF p])
  qed
  then show ?case
    by (simp add: agg_loop_snoc step_by_warehouse)
qed

lemma revenue_additive_flatten:
  assumes "bucket_revenue_exact L b"
  shows "revenue_additive L (flatten_by key b)"
proof -
  from assms have "\<forall>x\<in>set (map e_revenue (sorted_reverse key (dict_values (b_breakdown b)))).
      unrounded L x"
    by (auto simp: bucket_revenue_exact_def set_sorted_reverse)
  then have "num_val (py_sum L (map e_revenue (sorted_reverse key (dict_values (b_breakdown b)))))
      = sum_list (map num_val (map e_revenue (sorted_reverse key (dict_values (b_breakdown b)))))"
    by (rule num_val_py_sum)
  also have "\<dots> = sum_list (map revenue_key (sorted_reverse key (dict_values (b_breakdown b))))"
    by (simp add: comp_def revenue_key_def [abs_def])
  also have "\<dots> = sum_list (map revenue_key (dict_values (b_breakdown b)))"
    by (rule sum_sorted_reverse)
  finally show ?thesis
    using assms by (simp add: revenue_additive_def bucket_revenue_exact_def revenue_key_def)
qed

lemma exact_wb_eval:
  "sales_by_warehouse (aggregate_sales_data exact_runtime wb_floats (u ''wb'')) =
     [\<lparr>e_name = u ''W'', e_count = 3,
       e_revenue = PyFloat (27120773713048373 / 4398046511104),
       ob_breakdown =
         [\<lparr>e_name = u ''A'', e_count = 2,
           e_revenue = PyFloat (17013754967275603 / 4398046511104)\<rparr>,
          \<lparr>e_name = u ''B'', e_count = 1,
           e_revenue = PyFloat (5053509372886385 / 2199023255552)\<rparr>]\<rparr>]"
  by code_simp

text \<open>
  C1, as the code has it. Counts are additive for the buckets that get a breakdown:
  in an aggregation for either marketplace every product bucket's count is the sum of
  the counts of its \<^verbatim>\<open>by_warehouse\<close> entries, and in a WB aggregation every
  warehouse bucket's count is the sum of the counts of its \<^verbatim>\<open>by_product\<close> entries.
  In an Ozon aggregation the warehouse buckets have an empty \<^verbatim>\<open>by_product\<close> (the code
  fills it for WB only); region buckets have no breakdown at all. A bucket's revenue
  and the revenues of its breakdown are running sums of the same amounts, added in
  different orders: the revenue equals the sum of the breakdown's revenues in a WB
  aggregation whose prices (\<^verbatim>\<open>priceWithDisc\<close>) are all ints, whatever the rounding of
  floats, and in any aggregation when no float operation rounds.
\<close>

theorem breakdown_additivity:
  "(\<forall>b\<in>set (sales_by_product (aggregate_sales_data L sales_list mp)). counts_additive b)
   \<and> (mp = u ''wb'' \<longrightarrow>
        (\<forall>b\<in>set (sales_by_warehouse (aggregate_sales_data L sales_list mp)). counts_additive b))
   \<and> (mp \<noteq> u ''wb'' \<longrightarrow>
        (\<forall>b\<in>set (sales_by_warehouse (aggregate_sales_data L sales_list mp)). ob_breakdown b = []))
   \<and> (mp = u ''wb'' \<and> (\<forall>item\<in>set sales_list. \<forall>v. o_priceWithDisc item = Some v \<longrightarrow> is_int v) \<longrightarrow>
        (\<forall>b\<in>set (sales_by_warehouse (aggregate_sales_data L sales_list mp)). revenue_additive L b)
      \<and> (\<forall>b\<in>set (sales_by_product (aggregate_sales_data L sales_list mp)). revenue_additive L b))
   \<and> ((\<forall>x. fround L x = x) \<longrightarrow>
        (\<forall>b\<in>set (sales_by_product (aggregate_sales_data L sales_list mp)). revenue_additive L b)
      \<and> (mp = u ''wb'' \<longrightarrow>
           (\<forall>b\<in>set (sales_by_warehouse (aggregate_sales_data L sales_list mp)).
              revenue_additive L b)))"
proof -
  let ?R = "aggregate_sales_data L sales_list mp"
  let ?st = "agg_loop L mp agg_init sales_list"
  have wh: "\<exists>b0\<in>set (dict_values (by_warehouse ?st)). b = flatten_by e_count b0"
    if "b \<in> set (sales_by_warehouse ?R)" for b
  proof -
    from that obtain x where x: "x \<in> set (take 15 (sorted_reverse revenue_key
        (dict_values (by_warehouse ?st))))" and b: "b = flatten_by e_count x"
      unfolding result_warehouses by auto
    from in_set_takeD [OF x] have "x \<in> set (dict_values (by_warehouse ?st))"
      by (simp add: set_sorted_reverse)
    with b show ?thesis by blast
  qed
  have pr: "\<exists>b0\<in>set (dict_values (by_product ?st)). b = flatten_by revenue_key b0"
    if "b \<in> set (sales_by_product ?R)" for b
    using that unfolding result_products by (auto simp: set_sorted_reverse)
  have 1: "\<forall>b\<in>set (sales_by_product ?R). counts_additive b"
  proof
    fix b assume "b \<in> set (sales_by_product ?R)"
    from pr [OF this] products_counts_additive [of L mp sales_list]
    show "counts_additive b"
      by (auto simp: counts_additive_flatten)
  qed
  have 2: "\<forall>b\<in>set (sales_by_warehouse ?R). counts_additive b" if mp: "mp = u ''wb''"
  proof
    fix b assume "b \<in> set (sales_by_warehouse ?R)"
    from wh [OF this] warehouses_counts_additive_wb [of L sales_list] mp
    show "counts_additive b"
      by (auto simp: counts_additive_flatten)
  qed
  have 3: "\<forall>b\<in>set (sales_by_warehouse ?R). ob_breakdown b = []" if mp: "mp \<noteq> u ''wb''"
  proof
    fix b assume "b \<in> set (sales_by_warehouse ?R)"
    from wh [OF this] warehouses_no_breakdown_ozon [OF mp, of L sales_list]
    show "ob_breakdown b = []"
      by (auto simp: sorted_reverse_def dict_values_def)
  qed
  have W: "\<forall>b\<in>set (sales_by_warehouse ?R). revenue_additive L b"
    if mp: "mp = u ''wb''" and ok: "\<forall>item\<in>set sales_list. unrounded L (wb_price item)"
  proof
    fix b assume "b \<in> set (sales_by_warehouse ?R)"
    moreover from ok have "\<forall>b\<in>set (dict_values (by_warehouse (agg_loop L (u ''wb'') agg_init sales_list))).
        bucket_revenue_exact L b"
      by (intro warehouses_revenue_exact_wb) (simp add: item_price_def)
    ultimately show "revenue_additive L b"
      using wh [of b] mp by (auto simp: revenue_additive_flatten)
  qed
  have P: "\<forall>b\<in>set (sales_by_product ?R). revenue_additive L b"
    if ok: "\<forall>item\<in>set sales_list. \<forall>(a, c, r)\<in>set (item_lines L mp item). unrounded L r"
  proof
    fix b assume "b \<in> set (sales_by_product ?R)"
    with pr [of b] products_revenue_exact [OF ok] show "revenue_additive L b"
      by (auto simp: revenue_additive_flatten)
  qed
  have ints: "unrounded L (wb_price item)"
    if "\<forall>v. o_priceWithDisc item = Some v \<longrightarrow> is_int v" for item
    using that
    by (cases "o_priceWithDisc item") (simp_all add: wb_price_def get_or_def num_or_0_def unrounded_def)
  have 4: "(\<forall>b\<in>set (sales_by_warehouse ?R). revenue_additive L b)
      \<and> (\<forall>b\<in>set (sales_by_product ?R). revenue_additive L b)"
    if mp: "mp = u ''wb''"
      and ok: "\<forall>item\<in>set sales_list. \<forall>v. o_priceWithDisc item = Some v \<longrightarrow> is_int v"
  proof -
    from ok ints have u: "\<forall>item\<in>set sales_list. unrounded L (wb_price item)"
      by blast
    then have "\<forall>item\<in>set sales_list. \<forall>(a, c, r)\<in>set (item_lines L mp item). unrounded L r"
      by (simp add: item_lines_def mp)
    with W [OF mp u] P show ?thesis by blast
  qed
  have 5: "(\<forall>b\<in>set (sales_by_product ?R). revenue_additive L b)
      \<and> (mp = u ''wb'' \<longrightarrow> (\<forall>b\<in>set (sales_by_warehouse ?R). revenue_additive L b))"
    if ex: "\<forall>x. fround L x = x"
  proof -
    from ex have "unrounded L r" for r
      by (simp add: unrounded_def)
    with W P show ?thesis by blast
  qed
  from 1 2 3 4 5 show ?thesis by blast
qed

theorem breakdown_additivity_witness:
  "counts_additive \<lparr>e_name = u ''Tula'', e_count = 2, e_revenue = PyInt 100,
          ob_breakdown = [\<lparr>e_name = u ''SF0125'', e_count = 1, e_revenue = PyInt 100\<rparr>,
                          \<lparr>e_name = u ''SM0250'', e_count = 1, e_revenue = PyInt 0\<rparr>]\<rparr>
   \<and> revenue_additive run1 \<lparr>e_name = u ''Tula'', e_count = 2, e_revenue = PyInt 100,
          ob_breakdown = [\<lparr>e_name = u ''SF0125'', e_count = 1, e_revenue = PyInt 100\<rparr>,
                          \<lparr>e_name = u ''SM0250'', e_count = 1, e_revenue = PyInt 0\<rparr>]\<rparr>
   \<and> counts_additive \<lparr>e_name = u ''SF0125'', e_count = 2, e_revenue = PyInt 350,
          ob_breakdown = [\<lparr>e_name = u ''Kazan'', e_count = 1, e_revenue = PyInt 250\<rparr>,
                          \<lparr>e_name = u ''Tula'', e_count = 1, e_revenue = PyInt 100\<rparr>]\<rparr>
   \<and> revenue_additive run1 \<lparr>e_name = u ''SF0125'', e_count = 2, e_revenue = PyInt 350,
          ob_breakdown = [\<lparr>e_name = u ''Kazan'', e_count = 1, e_revenue = PyInt 250\<rparr>,
                          \<lparr>e_name = u ''Tula'', e_count = 1, e_revenue = PyInt 100\<rparr>]\<rparr>
   \<and> ob_breakdown (hd (sales_by_warehouse (aggregate_sales_data run1 [ozon_order_qty3] (u ''ozon'')))) = []
   \<and> revenue_additive exact_runtime
        \<lparr>e_name = u ''W'', e_count = 3,
         e_revenue = PyFloat (27120773713048373 / 4398046511104),
         ob_breakdown =
           [\<lparr>e_name = u ''A'', e_count = 2,
             e_revenue = PyFloat (17013754967275603 / 4398046511104)\<rparr>,
            \<lparr>e_name = u ''B'', e_count = 1,
             e_revenue = PyFloat (5053509372886385 / 2199023255552)\<rparr>]\<rparr>"
proof -
  note A = breakdown_additivity [of run1 wb_sample "u ''wb''"]
  note B = breakdown_additivity [of run1 "[ozon_order_qty3]" "u ''ozon''"]
  note C = breakdown_additivity [of exact_runtime wb_floats "u ''wb''"]
  have ne: "u ''ozon'' \<noteq> u ''wb''"
    by (simp add: u_def)
  have ints: "\<forall>item\<in>set wb_sample. \<forall>v. o_priceWithDisc item = Some v \<longrightarrow> is_int v"
    by (simp add: wb_sample_def empty_order_def)
  have ex: "\<forall>x. fround exact_runtime x = x"
    by (simp add: exact_runtime_def)
  have 1: "\<lparr>e_name = u ''Tula'', e_count = 2, e_revenue = PyInt 100,
          ob_breakdown = [\<lparr>e_name = u ''SF0125'', e_count = 1, e_revenue = PyInt 100\<rparr>,
                          \<lparr>e_name = u ''SM0250'', e_count = 1, e_revenue = PyInt 0\<rparr>]\<rparr>
        \<in> set (sales_by_warehouse (aggregate_sales_data run1 wb_sample (u ''wb'')))"
    by (simp add: wb_eval)
  have 2: "\<lparr>e_name = u ''SF0125'', e_count = 2, e_revenue = PyInt 350,
          ob_breakdown = [\<lparr>e_name = u ''Kazan'', e_count = 1, e_revenue = PyInt 250\<rparr>,
                          \<lparr>e_name = u ''Tula'', e_count = 1, e_revenue = PyInt 100\<rparr>]\<rparr>
        \<in> set (sales_by_product (aggregate_sales_data run1 wb_sample (u ''wb'')))"
    by (simp add: wb_eval)
  have 3: "hd (sales_by_warehouse (aggregate_sales_data run1 [ozon_order_qty3] (u ''ozon'')))
        \<in> set (sales_by_warehouse (aggregate_sales_data run1 [ozon_order_qty3] (u ''ozon'')))"
    by (simp add: ozon_eval)
  have 4: "\<lparr>e_name = u ''W'', e_count = 3,
         e_revenue = PyFloat (27120773713048373 / 4398046511104),
         ob_breakdown =
           [\<lparr>e_name = u ''A'', e_count = 2,
             e_revenue = PyFloat (17013754967275603 / 4398046511104)\<rparr>,
            \<lparr>e_name = u ''B'', e_count = 1,
             e_revenue = PyFloat (5053509372886385 / 2199023255552)\<rparr>]\<rparr>
        \<in> set (sales_by_warehouse (aggregate_sales_data exact_runtime wb_floats (u ''wb'')))"
    by (simp add: exact_wb_eval)
  from A ints 1 2 have a: "counts_additive \<lparr>e_name = u ''Tula'', e_count = 2, e_revenue = PyInt 100,
          ob_breakdown = [\<lparr>e_name = u ''SF0125'', e_count = 1, e_revenue = PyInt 100\<rparr>,
                          \<lparr>e_name = u ''SM0250'', e_count = 1, e_revenue = PyInt 0\<rparr>]\<rparr>
   \<and> revenue_additive run1 \<lparr>e_name = u ''Tula'', e_count = 2, e_revenue = PyInt 100,
          ob_breakdown = [\<lparr>e_name = u ''SF0125'', e_count = 1, e_revenue = PyInt 100\<rparr>,
                          \<lparr>e_name = u ''SM0250'', e_count = 1, e_revenue = PyInt 0\<rparr>]\<rparr>
   \<and> counts_additive \<lparr>e_name = u ''SF0125'', e_count = 2, e_revenue = PyInt 350,
          ob_breakdown = [\<lparr>e_name = u ''Kazan'', e_count = 1, e_revenue = PyInt 250\<rparr>,
                          \<lparr>e_name = u ''Tula'', e_count = 1, e_revenue = PyInt 100\<rparr>]\<rparr>
   \<and> revenue_additive run1 \<lparr>e_name = u ''SF0125'', e_count = 2, e_revenue = PyInt 350,
          ob_breakdown = [\<lparr>e_name = u ''Kazan'', e_count = 1, e_revenue = PyInt 250\<rparr>,
                          \<lparr>e_name = u ''Tula'', e_count = 1, e_revenue = PyInt 100\<rparr>]\<rparr>"
    by blast
  from B ne 3 have b: "ob_breakdown (hd (sales_by_warehouse
      (aggregate_sales_data run1 [ozon_order_qty3] (u ''ozon'')))) = []"
    by blast
  from C ex 4 have c: "revenue_additive exact_runtime
        \<lparr>e_name = u ''W'', e_count = 3,
         e_revenue = PyFloat (27120773713048373 / 4398046511104),
         ob_breakdown =
           [\<lparr>e_name = u ''A'', e_count = 2,
             e_revenue = PyFloat (17013754967275603 / 4398046511104)\<rparr>,
            \<lparr>e_name = u ''B'', e_count = 1,
             e_revenue = PyFloat (5053509372886385 / 2199023255552)\<rparr>]\<rparr>"
    by blast
  from a b c show ?thesis by blast
qed

text \<open>
  C1 as stated fails in two ways. For the warehouse buckets of an Ozon aggregation:
  one posting gives a warehouse bucket of count 1 whose breakdown is empty. And for
  the revenue, under the rounding of doubles: three WB order lines of one warehouse
  with the prices 2548.82, 2298.07 and 1319.66 give a warehouse bucket of revenue
  6166.55, while the revenues 3868.48 and 2298.07 of its breakdown sum to
  6166.550000000001; three Ozon postings with the same prices do the same to a product
  bucket.
\<close>

theorem breakdown_additivity_counterexample:
  "sales_by_warehouse (aggregate_sales_data run1 [ozon_order_qty3] (u ''ozon''))
     = [\<lparr>e_name = u ''W1'', e_count = 1, e_revenue = PyInt 0, ob_breakdown = []\<rparr>]
   \<and> \<not> counts_additive \<lparr>e_name = u ''W1'', e_count = 1, e_revenue = PyInt 0, ob_breakdown = []\<rparr>
   \<and> sales_by_warehouse (aggregate_sales_data run1 wb_floats (u ''wb''))
     = [\<lparr>e_name = u ''W'', e_count = 3,
         e_revenue = PyFloat (6780193428262093 / 1099511627776),
         ob_breakdown =
           [\<lparr>e_name = u ''A'', e_count = 2,
             e_revenue = PyFloat (4253438741818901 / 1099511627776)\<rparr>,
            \<lparr>e_name = u ''B'', e_count = 1,
             e_revenue = PyFloat (5053509372886385 / 2199023255552)\<rparr>]\<rparr>]
   \<and> py_sum run1 [PyFloat (4253438741818901 / 1099511627776),
                   PyFloat (5053509372886385 / 2199023255552)]
     = PyFloat (6780193428262094 / 1099511627776)
   \<and> \<not> revenue_additive run1
         \<lparr>e_name = u ''W'', e_count = 3,
          e_revenue = PyFloat (6780193428262093 / 1099511627776),
          ob_breakdown =
            [\<lparr>e_name = u ''A'', e_count = 2,
              e_revenue = PyFloat (4253438741818901 / 1099511627776)\<rparr>,
             \<lparr>e_name = u ''B'', e_count = 1,
              e_revenue = PyFloat (5053509372886385 / 2199023255552)\<rparr>]\<rparr>
   \<and> sales_by_product (aggregate_sales_data run1 ozon_floats (u ''ozon''))
     = [\<lparr>e_name = u ''X'', e_count = 3,
         e_revenue = PyFloat (6780193428262093 / 1099511627776),
         ob_breakdown =
           [\<lparr>e_name = u ''W1'', e_count = 2,
             e_revenue = PyFloat (4253438741818901 / 1099511627776)\<rparr>,
            \<lparr>e_name = u ''W2'', e_count = 1,
             e_revenue = PyFloat (5053509372886385 / 2199023255552)\<rparr>]\<rparr>]
   \<and> \<not> revenue_additive run1
         \<lparr>e_name = u ''X'', e_count = 3,
          e_revenue = PyFloat (6780193428262093 / 1099511627776),
          ob_breakdown =
            [\<lparr>e_name = u ''W1'', e_count = 2,
              e_revenue = PyFloat (4253438741818901 / 1099511627776)\<rparr>,
             \<lparr>e_name = u ''W2'', e_count = 1,
              e_revenue = PyFloat (5053509372886385 / 2199023255552)\<rparr>]\<rparr>"
proof -
  have s: "py_sum run1 [PyFloat (4253438741818901 / 1099511627776),
                        PyFloat (5053509372886385 / 2199023255552)]
      = PyFloat (6780193428262094 / 1099511627776)"
    unfolding floats_sum_eval by simp
  show ?thesis
    unfolding ozon_eval floats_wb_eval floats_ozon_eval
    by (simp add: counts_additive_def revenue_additive_def s)
qed

text \<open>
  C4, as the code has it. The order count of an aggregation is the number of input
  records. The counts of the product buckets (a list that is never truncated) sum to
  the number of units over all product lines of the records, which for WB is the
  number of records. The counts of the returned warehouse buckets, and of the returned
  region buckets, sum to at most the number of records, and to exactly that number
  when the records have at most 15 distinct warehouses (regions): only the 15 buckets
  of highest revenue are returned.
\<close>

theorem partition_completeness:
  "r_orders_count (aggregate_sales_data L sales_list mp) = int (length sales_list)
   \<and> sum_list (map e_count (sales_by_product (aggregate_sales_data L sales_list mp)))
       = sum_list (map (\<lambda>x. sum_list (map (\<lambda>(a, c, r). c) (item_lines L mp x))) sales_list)
   \<and> (mp = u ''wb'' \<longrightarrow>
        sum_list (map e_count (sales_by_product (aggregate_sales_data L sales_list mp)))
          = int (length sales_list))
   \<and> sum_list (map e_count (sales_by_warehouse (aggregate_sales_data L sales_list mp)))
       \<le> int (length sales_list)
   \<and> (card (set (map (item_wh_name mp) sales_list)) \<le> 15 \<longrightarrow>
        sum_list (map e_count (sales_by_warehouse (aggregate_sales_data L sales_list mp)))
          = int (length sales_list))
   \<and> sum_list (map e_count (sales_by_region (aggregate_sales_data L sales_list mp)))
       \<le> int (length sales_list)
   \<and> (card (set (map (item_region mp) sales_list)) \<le> 15 \<longrightarrow>
        sum_list (map e_count (sales_by_region (aggregate_sales_data L sales_list mp)))
          = int (length sales_list))"
proof -
  let ?st = "agg_loop L mp agg_init sales_list"
  let ?W = "sorted_reverse revenue_key (dict_values (by_warehouse ?st))"
  let ?G = "sorted_reverse revenue_key (dict_values (by_region ?st))"
  have oc: "orders_count (agg_loop L mp agg_init xs) = int (length xs)" for xs
    by (induction xs rule: rev_induct) (simp_all add: agg_init_def agg_loop_snoc step_totals)
  have 1: "r_orders_count (aggregate_sales_data L sales_list mp) = int (length sales_list)"
    by (simp add: aggregate_sales_data_def Let_def oc)
  have 2: "sum_list (map e_count (sales_by_product (aggregate_sales_data L sales_list mp)))
       = sum_list (map (\<lambda>x. sum_list (map (\<lambda>(a, c, r). c) (item_lines L mp x))) sales_list)"
    unfolding result_products sum_counts_flatten
    by (simp add: sum_sorted_reverse sum_counts_product)
  have wb: "sum_list (map (\<lambda>x. sum_list (map (\<lambda>(a, c, r). c) (item_lines L (u ''wb'') x))) xs)
      = int (length xs)" for xs
    by (induction xs) (simp_all add: item_lines_def)
  have 3: "mp = u ''wb'' \<longrightarrow>
        sum_list (map e_count (sales_by_product (aggregate_sales_data L sales_list mp)))
          = int (length sales_list)"
  proof
    assume "mp = u ''wb''"
    with 2 wb [of sales_list] show "sum_list (map e_count (sales_by_product (aggregate_sales_data L sales_list mp)))
          = int (length sales_list)"
      by simp
  qed
  have sW: "sum_list (map e_count ?W) = int (length sales_list)"
    by (simp add: sum_sorted_reverse sum_counts_warehouse)
  have sG: "sum_list (map e_count ?G) = int (length sales_list)"
    by (simp add: sum_sorted_reverse sum_counts_region)
  have nW: "\<forall>b\<in>set ?W. 0 \<le> e_count b"
    using counts_nonneg_warehouse [of L mp sales_list] by (simp add: set_sorted_reverse)
  have nG: "\<forall>b\<in>set ?G. 0 \<le> e_count b"
    using counts_nonneg_region [of L mp sales_list] by (simp add: set_sorted_reverse)
  have 4: "sum_list (map e_count (sales_by_warehouse (aggregate_sales_data L sales_list mp)))
       \<le> int (length sales_list)"
    unfolding result_warehouses sum_counts_flatten
    using sum_take_le [OF nW, of 15] sW by simp
  have 5: "card (set (map (item_wh_name mp) sales_list)) \<le> 15 \<longrightarrow>
        sum_list (map e_count (sales_by_warehouse (aggregate_sales_data L sales_list mp)))
          = int (length sales_list)"
  proof
    assume "card (set (map (item_wh_name mp) sales_list)) \<le> 15"
    then have "length ?W \<le> 15"
      by (simp add: length_sorted_reverse length_values_warehouse)
    then have "take 15 ?W = ?W" by simp
    then show "sum_list (map e_count (sales_by_warehouse (aggregate_sales_data L sales_list mp)))
          = int (length sales_list)"
      unfolding result_warehouses sum_counts_flatten using sW by simp
  qed
  have 6: "sum_list (map e_count (sales_by_region (aggregate_sales_data L sales_list mp)))
       \<le> int (length sales_list)"
    unfolding result_regions
    using sum_take_le [OF nG, of 15] sG by simp
  have 7: "card (set (map (item_region mp) sales_list)) \<le> 15 \<longrightarrow>
        sum_list (map e_count (sales_by_region (aggregate_sales_data L sales_list mp)))
          = int (length sales_list)"
  proof
    assume "card (set (map (item_region mp) sales_list)) \<le> 15"
    then have "length ?G \<le> 15"
      by (simp add: length_sorted_reverse length_values_region)
    then have "take 15 ?G = ?G" by simp
    then show "sum_list (map e_count (sales_by_region (aggregate_sales_data L sales_list mp)))
          = int (length sales_list)"
      unfolding result_regions using sG by simp
  qed
  from 1 2 3 4 5 6 7 show ?thesis by blast
qed

theorem partition_completeness_witness:
  "r_orders_count (aggregate_sales_data run1 wb_sample (u ''wb'')) = 3
   \<and> sum_list (map e_count (sales_by_product (aggregate_sales_data run1 wb_sample (u ''wb'')))) = 3
   \<and> sum_list (map e_count (sales_by_warehouse (aggregate_sales_data run1 wb_sample (u ''wb'')))) = 3
   \<and> sum_list (map e_count (sales_by_region (aggregate_sales_data run1 wb_sample (u ''wb'')))) = 3"
proof -
  note A = partition_completeness [of run1 wb_sample "u ''wb''"]
  have len: "length wb_sample = 3"
    by (simp add: wb_sample_def)
  have "card (set (map (item_wh_name (u ''wb'')) wb_sample)) \<le> length (map (item_wh_name (u ''wb'')) wb_sample)"
    by (rule card_length)
  then have w: "card (set (map (item_wh_name (u ''wb'')) wb_sample)) \<le> 15"
    by (simp add: len)
  have "card (set (map (item_region (u ''wb'')) wb_sample)) \<le> length (map (item_region (u ''wb'')) wb_sample)"
    by (rule card_length)
  then have g: "card (set (map (item_region (u ''wb'')) wb_sample)) \<le> 15"
    by (simp add: len)
  from A w g len show ?thesis by simp
qed

text \<open>
  C4 as stated fails in two ways: sixteen WB records from sixteen warehouses give
  warehouse buckets whose counts sum to 15, and one Ozon posting with a line of three
  units gives product buckets whose counts sum to 3.
\<close>

theorem partition_completeness_counterexample:
  "length wb_sixteen = 16
   \<and> sum_list (map e_count (sales_by_warehouse (aggregate_sales_data run1 wb_sixteen (u ''wb'')))) = 15
   \<and> length [ozon_order_qty3] = 1
   \<and> sum_list (map e_count (sales_by_product (aggregate_sales_data run1 [ozon_order_qty3] (u ''ozon'')))) = 3"
proof -
  have "map e_count (sales_by_warehouse (aggregate_sales_data run1 wb_sixteen (u ''wb'')))
      = map (\<lambda>t. fst (snd t))
          (map (\<lambda>b. (e_name b, e_count b, e_revenue b))
             (sales_by_warehouse (aggregate_sales_data run1 wb_sixteen (u ''wb''))))"
    by (simp add: comp_def)
  then have "sum_list (map e_count
      (sales_by_warehouse (aggregate_sales_data run1 wb_sixteen (u ''wb'')))) = 15"
    by (simp only: sixteen_eval) simp
  moreover have "length wb_sixteen = 16"
    by (simp add: wb_sixteen_def)
  ultimately show ?thesis
    by (simp add: ozon_eval)
qed

subsection \<open>The buckets of the result and their order\<close>

lemma dict_entries:
  assumes "\<forall>(k, b)\<in>set d. e_name b = k" and "distinct (map fst d)"
  shows "map bucket_entry (dict_values d)
     = map (\<lambda>k. \<lparr>e_name = k, e_count = count_of d k, e_revenue = revenue_of d k\<rparr>) (map fst d)"
proof -
  have "bucket_entry (snd x)
      = \<lparr>e_name = fst x, e_count = count_of d (fst x), e_revenue = revenue_of d (fst x)\<rparr>"
    if "x \<in> set d" for x
  proof -
    obtain k b where x: "x = (k, b)" by (cases x)
    with that assms(2) have "map_of d k = Some b"
      by simp
    moreover from that x assms(1) have "e_name b = k"
      by auto
    ultimately show ?thesis
      by (simp add: x bucket_entry_def count_of_def revenue_of_def)
  qed
  then show ?thesis
    by (simp add: dict_values_def)
qed

lemma warehouse_lines_snoc:
  "warehouse_lines L mp (xs @ [x])
     = warehouse_lines L mp xs @ [(item_wh_name mp x, 1, item_price L mp x)]"
  by (simp add: warehouse_lines_def)

lemma region_lines_snoc:
  "region_lines L mp (xs @ [x])
     = region_lines L mp xs @ [(item_region mp x, 1, item_price L mp x)]"
  by (simp add: region_lines_def)

lemma product_lines_snoc:
  "product_lines L mp (xs @ [x]) = product_lines L mp xs @ item_lines L mp x"
  by (simp add: product_lines_def)

lemma amount_of_append:
  "amount_of L k (ls @ ls')
     = foldl (py_add L) (amount_of L k ls) (map (\<lambda>(a, c, r). r) (filter (\<lambda>(a, c, r). a = k) ls'))"
  by (simp add: amount_of_def py_sum_def)

lemma count_of_warehouse:
  "count_of (by_warehouse (agg_loop L mp agg_init xs)) k = units_of k (warehouse_lines L mp xs)"
proof (induction xs rule: rev_induct)
  case Nil
  then show ?case by (simp add: agg_init_def count_of_def warehouse_lines_def)
next
  case (snoc x xs)
  have "count_of (by_warehouse (agg_loop L mp agg_init (xs @ [x]))) k
      = count_of (by_warehouse (agg_loop L mp agg_init xs)) k
        + (if k = item_wh_name mp x then 1 else 0)"
    unfolding agg_loop_snoc step_by_warehouse by (rule count_of_upd) simp_all
  with snoc show ?case
    by (auto simp: warehouse_lines_snoc)
qed

lemma revenue_of_warehouse:
  "revenue_of (by_warehouse (agg_loop L mp agg_init xs)) k = amount_of L k (warehouse_lines L mp xs)"
proof (induction xs rule: rev_induct)
  case Nil
  then show ?case by (simp add: agg_init_def revenue_of_def warehouse_lines_def)
next
  case (snoc x xs)
  have "revenue_of (by_warehouse (agg_loop L mp agg_init (xs @ [x]))) k
      = (if k = item_wh_name mp x
         then py_add L (revenue_of (by_warehouse (agg_loop L mp agg_init xs)) k) (item_price L mp x)
         else revenue_of (by_warehouse (agg_loop L mp agg_init xs)) k)"
    unfolding agg_loop_snoc step_by_warehouse by (rule revenue_of_upd) simp_all
  with snoc show ?case
    by (auto simp: warehouse_lines_snoc)
qed

lemma count_of_region:
  "count_of (by_region (agg_loop L mp agg_init xs)) k = units_of k (region_lines L mp xs)"
proof (induction xs rule: rev_induct)
  case Nil
  then show ?case by (simp add: agg_init_def count_of_def region_lines_def)
next
  case (snoc x xs)
  have "count_of (by_region (agg_loop L mp agg_init (xs @ [x]))) k
      = count_of (by_region (agg_loop L mp agg_init xs)) k
        + (if k = item_region mp x then 1 else 0)"
    unfolding agg_loop_snoc step_by_region by (rule count_of_upd) simp_all
  with snoc show ?case
    by (auto simp: region_lines_snoc)
qed

lemma revenue_of_region:
  "revenue_of (by_region (agg_loop L mp agg_init xs)) k = amount_of L k (region_lines L mp xs)"
proof (induction xs rule: rev_induct)
  case Nil
  then show ?case by (simp add: agg_init_def revenue_of_def region_lines_def)
next
  case (snoc x xs)
  have "revenue_of (by_region (agg_loop L mp agg_init (xs @ [x]))) k
      = (if k = item_region mp x
         then py_add L (revenue_of (by_region (agg_loop L mp agg_init xs)) k) (item_price L mp x)
         else revenue_of (by_region (agg_loop L mp agg_init xs)) k)"
    unfolding agg_loop_snoc step_by_region by (rule revenue_of_upd) simp_all
  with snoc show ?case
    by (auto simp: region_lines_snoc)
qed

lemma count_of_product:
  "count_of (by_product (agg_loop L mp agg_init xs)) k = units_of k (product_lines L mp xs)"
proof (induction xs rule: rev_induct)
  case Nil
  then show ?case by (simp add: agg_init_def count_of_def product_lines_def)
next
  case (snoc x xs)
  then show ?case
    by (simp add: agg_loop_snoc step_by_product count_of_lines_loop product_lines_snoc)
qed

lemma revenue_of_product:
  "revenue_of (by_product (agg_loop L mp agg_init xs)) k = amount_of L k (product_lines L mp xs)"
proof (induction xs rule: rev_induct)
  case Nil
  then show ?case by (simp add: agg_init_def revenue_of_def product_lines_def)
next
  case (snoc x xs)
  then show ?case
    by (simp add: agg_loop_snoc step_by_product revenue_of_lines_loop product_lines_snoc
        amount_of_append)
qed

lemma entries_warehouse:
  "map bucket_entry (dict_values (by_warehouse (agg_loop L mp agg_init xs)))
     = spec_buckets L (warehouse_lines L mp xs)"
proof -
  let ?d = "by_warehouse (agg_loop L mp agg_init xs)"
  have k: "map fst ?d = first_seen (map fst (warehouse_lines L mp xs))"
    by (simp add: keys_warehouse warehouse_lines_def comp_def)
  then have "distinct (map fst ?d)"
    by simp
  from dict_entries [OF names_warehouse this] show ?thesis
    unfolding k
    by (simp add: spec_buckets_def count_of_warehouse revenue_of_warehouse)
qed

lemma entries_region:
  "map bucket_entry (dict_values (by_region (agg_loop L mp agg_init xs)))
     = spec_buckets L (region_lines L mp xs)"
proof -
  let ?d = "by_region (agg_loop L mp agg_init xs)"
  have k: "map fst ?d = first_seen (map fst (region_lines L mp xs))"
    by (simp add: keys_region region_lines_def comp_def)
  then have "distinct (map fst ?d)"
    by simp
  from dict_entries [OF names_region this] show ?thesis
    unfolding k
    by (simp add: spec_buckets_def count_of_region revenue_of_region)
qed

lemma entries_product:
  "map bucket_entry (dict_values (by_product (agg_loop L mp agg_init xs)))
     = spec_buckets L (product_lines L mp xs)"
proof -
  let ?d = "by_product (agg_loop L mp agg_init xs)"
  have k: "map fst ?d = first_seen (map fst (product_lines L mp xs))"
    by (simp add: keys_product product_lines_def map_concat comp_def)
  then have "distinct (map fst ?d)"
    by simp
  from dict_entries [OF names_product this] show ?thesis
    unfolding k
    by (simp add: spec_buckets_def count_of_product revenue_of_product)
qed

lemma bucket_entry_entry [simp]: "bucket_entry (e :: entry) = e"
  by (simp add: bucket_entry_def)

lemma map_bucket_entry: "map bucket_entry (es :: entry list) = es"
  by (induction es) simp_all

lemma bucket_entry_flatten [simp]: "bucket_entry (flatten_by key b) = bucket_entry b"
  by (simp add: bucket_entry_def)

lemma revenue_key_bucket_entry [simp]: "revenue_key (bucket_entry b) = revenue_key b"
  by (simp add: bucket_entry_def revenue_key_def)

lemma sorted_reverse_entries:
  "map bucket_entry (sorted_reverse revenue_key bs)
     = sorted_reverse revenue_key (map bucket_entry bs)"
  by (rule sorted_reverse_map) simp

text \<open>
  The sort of the code is the stable descending sort of the specification, and
  there is no other.
\<close>

lemma stable_sorted_desc_sorted_reverse: "stable_sorted_desc key xs (sorted_reverse key xs)"
  by (simp add: stable_sorted_desc_def sorted_reverse_desc sorted_reverse_stable)

lemma stable_sorted_desc_unique:
  assumes "stable_sorted_desc key xs ys"
  shows "ys = sorted_reverse key xs"
proof -
  from assms have srt: "sorted_wrt (\<lambda>a b. key a \<ge> key b) ys"
    and flt: "\<And>k. filter (\<lambda>x. key x = k) ys = filter (\<lambda>x. key x = k) xs"
    by (simp_all add: stable_sorted_desc_def)
  have cnt: "count (mset ys) x = count (mset xs) x" for x
  proof -
    have "filter ((=) x) ys = filter ((=) x) (filter (\<lambda>z. key z = key x) ys)"
      by (auto intro: filter_cong)
    also have "\<dots> = filter ((=) x) (filter (\<lambda>z. key z = key x) xs)"
      by (simp only: flt)
    also have "\<dots> = filter ((=) x) xs"
      by (auto intro: filter_cong)
    finally show ?thesis
      by (simp add: count_mset count_list_eq_length_filter)
  qed
  have "sort_key key (rev xs) = rev ys"
  proof (rule properties_for_sort_key)
    show "mset (rev ys) = mset (rev xs)"
      using cnt by (simp add: multiset_eq_iff)
    show "filter (\<lambda>x. key k = key x) (rev ys) = filter (\<lambda>x. key k = key x) (rev xs)" for k
      using flt [of "key k"] by (simp add: rev_filter [symmetric] eq_commute)
    from srt have "sorted_wrt (\<lambda>a b. key a \<le> key b) (rev ys)"
      by (simp add: sorted_wrt_rev)
    then show "sorted (map key (rev ys))"
      by (simp add: sorted_map)
  qed
  then show ?thesis
    by (simp add: sorted_reverse_def)
qed

text \<open>
  C8. Along each dimension, take the buckets as the specification words them: one
  for each distinct key, in the order in which the keys are first encountered in the
  input, with the units and the amounts of its records summed. The bucket list of the
  result (its names, counts and revenues) is the list of these buckets sorted
  descending by revenue with ties kept in first-encounter order, cut to its first 15
  buckets for warehouses and for regions and not cut for products. There is exactly
  one such sorted list. So the lists are in descending order of revenue, the
  warehouse and region lists have 15 buckets or, when there are fewer distinct keys,
  one bucket for each, and the product list has one bucket for every distinct article.
\<close>

theorem output_ordering:
  "(\<forall>W. stable_sorted_desc revenue_key (spec_buckets L (warehouse_lines L mp sales_list)) W \<longrightarrow>
        map bucket_entry (sales_by_warehouse (aggregate_sales_data L sales_list mp)) = take 15 W)
   \<and> (\<forall>G. stable_sorted_desc revenue_key (spec_buckets L (region_lines L mp sales_list)) G \<longrightarrow>
        sales_by_region (aggregate_sales_data L sales_list mp) = take 15 G)
   \<and> (\<forall>P. stable_sorted_desc revenue_key (spec_buckets L (product_lines L mp sales_list)) P \<longrightarrow>
        map bucket_entry (sales_by_product (aggregate_sales_data L sales_list mp)) = P)
   \<and> (\<exists>W. stable_sorted_desc revenue_key (spec_buckets L (warehouse_lines L mp sales_list)) W)
   \<and> (\<exists>G. stable_sorted_desc revenue_key (spec_buckets L (region_lines L mp sales_list)) G)
   \<and> (\<exists>P. stable_sorted_desc revenue_key (spec_buckets L (product_lines L mp sales_list)) P)
   \<and> sorted_wrt (\<lambda>a b. revenue_key a \<ge> revenue_key b)
        (sales_by_warehouse (aggregate_sales_data L sales_list mp))
   \<and> sorted_wrt (\<lambda>a b. revenue_key a \<ge> revenue_key b)
        (sales_by_region (aggregate_sales_data L sales_list mp))
   \<and> sorted_wrt (\<lambda>a b. revenue_key a \<ge> revenue_key b)
        (sales_by_product (aggregate_sales_data L sales_list mp))
   \<and> length (sales_by_warehouse (aggregate_sales_data L sales_list mp))
        = min 15 (card (set (map (item_wh_name mp) sales_list)))
   \<and> length (sales_by_region (aggregate_sales_data L sales_list mp))
        = min 15 (card (set (map (item_region mp) sales_list)))
   \<and> length (sales_by_product (aggregate_sales_data L sales_list mp))
        = card (set (map fst (product_lines L mp sales_list)))"
proof -
  let ?R = "aggregate_sales_data L sales_list mp"
  let ?st = "agg_loop L mp agg_init sales_list"
  have w: "map bucket_entry (sales_by_warehouse ?R)
      = take 15 (sorted_reverse revenue_key (spec_buckets L (warehouse_lines L mp sales_list)))"
    unfolding result_warehouses
    by (simp add: comp_def take_map [symmetric] sorted_reverse_entries entries_warehouse
        del: take_map)
  have g: "sales_by_region ?R
      = take 15 (sorted_reverse revenue_key (spec_buckets L (region_lines L mp sales_list)))"
    unfolding result_regions
    using entries_region [of L mp sales_list] by (simp add: map_bucket_entry)
  have p: "map bucket_entry (sales_by_product ?R)
      = sorted_reverse revenue_key (spec_buckets L (product_lines L mp sales_list))"
    unfolding result_products
    by (simp add: comp_def sorted_reverse_entries entries_product)
  have 1: "\<forall>W. stable_sorted_desc revenue_key (spec_buckets L (warehouse_lines L mp sales_list)) W \<longrightarrow>
        map bucket_entry (sales_by_warehouse ?R) = take 15 W"
    using w by (auto dest: stable_sorted_desc_unique)
  have 2: "\<forall>G. stable_sorted_desc revenue_key (spec_buckets L (region_lines L mp sales_list)) G \<longrightarrow>
        sales_by_region ?R = take 15 G"
    using g by (auto dest: stable_sorted_desc_unique)
  have 3: "\<forall>P. stable_sorted_desc revenue_key (spec_buckets L (product_lines L mp sales_list)) P \<longrightarrow>
        map bucket_entry (sales_by_product ?R) = P"
    using p by (auto dest: stable_sorted_desc_unique)
  have 4: "\<exists>ys. stable_sorted_desc revenue_key xs ys" for xs :: "entry list"
    using stable_sorted_desc_sorted_reverse by blast
  have s1: "sorted_wrt (\<lambda>a b. revenue_key a \<ge> revenue_key b) (sales_by_warehouse ?R)"
    unfolding result_warehouses
    by (simp only: take_map [symmetric] sorted_reverse_flatten sorted_desc_take)
  have s2: "sorted_wrt (\<lambda>a b. revenue_key a \<ge> revenue_key b) (sales_by_region ?R)"
    unfolding result_regions by (rule sorted_desc_take)
  have s3: "sorted_wrt (\<lambda>a b. revenue_key a \<ge> revenue_key b) (sales_by_product ?R)"
    unfolding result_products
    by (simp only: sorted_reverse_flatten sorted_reverse_desc)
  have l1: "length (sales_by_warehouse ?R) = min 15 (card (set (map (item_wh_name mp) sales_list)))"
    unfolding result_warehouses
    by (simp add: length_sorted_reverse length_values_warehouse min.commute)
  have l2: "length (sales_by_region ?R) = min 15 (card (set (map (item_region mp) sales_list)))"
    unfolding result_regions
    by (simp add: length_sorted_reverse length_values_region min.commute)
  have l3: "length (sales_by_product ?R) = card (set (map fst (product_lines L mp sales_list)))"
    unfolding result_products
    by (simp add: length_sorted_reverse length_values_product product_lines_def map_concat
        comp_def)
  from 1 2 3 4 s1 s2 s3 l1 l2 l3 show ?thesis
    by blast
qed

lemma sixteen_spec_sorted:
  "sorted_reverse revenue_key (spec_buckets run1 (warehouse_lines run1 (u ''wb'') wb_sixteen))
     = [\<lparr>e_name = u ''P'', e_count = 1, e_revenue = PyInt 16\<rparr>,
        \<lparr>e_name = u ''O'', e_count = 1, e_revenue = PyInt 15\<rparr>,
        \<lparr>e_name = u ''N'', e_count = 1, e_revenue = PyInt 14\<rparr>,
        \<lparr>e_name = u ''M'', e_count = 1, e_revenue = PyInt 13\<rparr>,
        \<lparr>e_name = u ''L'', e_count = 1, e_revenue = PyInt 12\<rparr>,
        \<lparr>e_name = u ''K'', e_count = 1, e_revenue = PyInt 11\<rparr>,
        \<lparr>e_name = u ''J'', e_count = 1, e_revenue = PyInt 10\<rparr>,
        \<lparr>e_name = u ''I'', e_count = 1, e_revenue = PyInt 9\<rparr>,
        \<lparr>e_name = u ''H'', e_count = 1, e_revenue = PyInt 8\<rparr>,
        \<lparr>e_name = u ''G'', e_count = 1, e_revenue = PyInt 7\<rparr>,
        \<lparr>e_name = u ''F'', e_count = 1, e_revenue = PyInt 6\<rparr>,
        \<lparr>e_name = u ''E'', e_count = 1, e_revenue = PyInt 5\<rparr>,
        \<lparr>e_name = u ''D'', e_count = 1, e_revenue = PyInt 4\<rparr>,
        \<lparr>e_name = u ''C'', e_count = 1, e_revenue = PyInt 3\<rparr>,
        \<lparr>e_name = u ''B'', e_count = 1, e_revenue = PyInt 2\<rparr>,
        \<lparr>e_name = u ''A'', e_count = 1, e_revenue = PyInt 1\<rparr>]"
  by code_simp

lemma sixteen_products_spec_sorted:
  "sorted_reverse revenue_key (spec_buckets run1 (product_lines run1 (u ''wb'') wb_sixteen_articles))
     = [\<lparr>e_name = u ''P'', e_count = 1, e_revenue = PyInt 16\<rparr>,
        \<lparr>e_name = u ''O'', e_count = 1, e_revenue = PyInt 15\<rparr>,
        \<lparr>e_name = u ''N'', e_count = 1, e_revenue = PyInt 14\<rparr>,
        \<lparr>e_name = u ''M'', e_count = 1, e_revenue = PyInt 13\<rparr>,
        \<lparr>e_name = u ''L'', e_count = 1, e_revenue = PyInt 12\<rparr>,
        \<lparr>e_name = u ''K'', e_count = 1, e_revenue = PyInt 11\<rparr>,
        \<lparr>e_name = u ''J'', e_count = 1, e_revenue = PyInt 10\<rparr>,
        \<lparr>e_name = u ''I'', e_count = 1, e_revenue = PyInt 9\<rparr>,
        \<lparr>e_name = u ''H'', e_count = 1, e_revenue = PyInt 8\<rparr>,
        \<lparr>e_name = u ''G'', e_count = 1, e_revenue = PyInt 7\<rparr>,
        \<lparr>e_name = u ''F'', e_count = 1, e_revenue = PyInt 6\<rparr>,
        \<lparr>e_name = u ''E'', e_count = 1, e_revenue = PyInt 5\<rparr>,
        \<lparr>e_name = u ''D'', e_count = 1, e_revenue = PyInt 4\<rparr>,
        \<lparr>e_name = u ''C'', e_count = 1, e_revenue = PyInt 3\<rparr>,
        \<lparr>e_name = u ''B'', e_count = 1, e_revenue = PyInt 2\<rparr>,
        \<lparr>e_name = u ''A'', e_count = 1, e_revenue = PyInt 1\<rparr>]"
  by code_simp

lemma ties_spec_sorted:
  "sorted_reverse revenue_key (spec_buckets run1 (warehouse_lines run1 (u ''wb'') wb_ties))
     = [\<lparr>e_name = u ''C'', e_count = 1, e_revenue = PyInt 9\<rparr>,
        \<lparr>e_name = u ''B'', e_count = 1, e_revenue = PyInt 5\<rparr>,
        \<lparr>e_name = u ''A'', e_count = 1, e_revenue = PyInt 5\<rparr>]"
  by code_simp

lemma ties_region_spec_sorted:
  "sorted_reverse revenue_key (spec_buckets run1 (region_lines run1 (u ''wb'') wb_ties))
     = [\<lparr>e_name = u ''Unknown'', e_count = 3, e_revenue = PyInt 19\<rparr>]"
  by code_simp

theorem output_ordering_witness:
  "map bucket_entry (sales_by_warehouse (aggregate_sales_data run1 wb_sixteen (u ''wb'')))
     = [\<lparr>e_name = u ''P'', e_count = 1, e_revenue = PyInt 16\<rparr>,
        \<lparr>e_name = u ''O'', e_count = 1, e_revenue = PyInt 15\<rparr>,
        \<lparr>e_name = u ''N'', e_count = 1, e_revenue = PyInt 14\<rparr>,
        \<lparr>e_name = u ''M'', e_count = 1, e_revenue = PyInt 13\<rparr>,
        \<lparr>e_name = u ''L'', e_count = 1, e_revenue = PyInt 12\<rparr>,
        \<lparr>e_name = u ''K'', e_count = 1, e_revenue = PyInt 11\<rparr>,
        \<lparr>e_name = u ''J'', e_count = 1, e_revenue = PyInt 10\<rparr>,
        \<lparr>e_name = u ''I'', e_count = 1, e_revenue = PyInt 9\<rparr>,
        \<lparr>e_name = u ''H'', e_count = 1, e_revenue = PyInt 8\<rparr>,
        \<lparr>e_name = u ''G'', e_count = 1, e_revenue = PyInt 7\<rparr>,
        \<lparr>e_name = u ''F'', e_count = 1, e_revenue = PyInt 6\<rparr>,
        \<lparr>e_name = u ''E'', e_count = 1, e_revenue = PyInt 5\<rparr>,
        \<lparr>e_name = u ''D'', e_count = 1, e_revenue = PyInt 4\<rparr>,
        \<lparr>e_name = u ''C'', e_count = 1, e_revenue = PyInt 3\<rparr>,
        \<lparr>e_name = u ''B'', e_count = 1, e_revenue = PyInt 2\<rparr>]
   \<and> map bucket_entry (sales_by_product (aggregate_sales_data run1 wb_sixteen_articles (u ''wb'')))
     = [\<lparr>e_name = u ''P'', e_count = 1, e_revenue = PyInt 16\<rparr>,
        \<lparr>e_name = u ''O'', e_count = 1, e_revenue = PyInt 15\<rparr>,
        \<lparr>e_name = u ''N'', e_count = 1, e_revenue = PyInt 14\<rparr>,
        \<lparr>e_name = u ''M'', e_count = 1, e_revenue = PyInt 13\<rparr>,
        \<lparr>e_name = u ''L'', e_count = 1, e_revenue = PyInt 12\<rparr>,
        \<lparr>e_name = u ''K'', e_count = 1, e_revenue = PyInt 11\<rparr>,
        \<lparr>e_name = u ''J'', e_count = 1, e_revenue = PyInt 10\<rparr>,
        \<lparr>e_name = u ''I'', e_count = 1, e_revenue = PyInt 9\<rparr>,
        \<lparr>e_name = u ''H'', e_count = 1, e_revenue = PyInt 8\<rparr>,
        \<lparr>e_name = u ''G'', e_count = 1, e_revenue = PyInt 7\<rparr>,
        \<lparr>e_name = u ''F'', e_count = 1, e_revenue = PyInt 6\<rparr>,
        \<lparr>e_name = u ''E'', e_count = 1, e_revenue = PyInt 5\<rparr>,
        \<lparr>e_name = u ''D'', e_count = 1, e_revenue = PyInt 4\<rparr>,
        \<lparr>e_name = u ''C'', e_count = 1, e_revenue = PyInt 3\<rparr>,
        \<lparr>e_name = u ''B'', e_count = 1, e_revenue = PyInt 2\<rparr>,
        \<lparr>e_name = u ''A'', e_count = 1, e_revenue = PyInt 1\<rparr>]
   \<and> map bucket_entry (sales_by_warehouse (aggregate_sales_data run1 wb_ties (u ''wb'')))
     = [\<lparr>e_name = u ''C'', e_count = 1, e_revenue = PyInt 9\<rparr>,
        \<lparr>e_name = u ''B'', e_count = 1, e_revenue = PyInt 5\<rparr>,
        \<lparr>e_name = u ''A'', e_count = 1, e_revenue = PyInt 5\<rparr>]
   \<and> sales_by_region (aggregate_sales_data run1 wb_ties (u ''wb''))
     = [\<lparr>e_name = u ''Unknown'', e_count = 3, e_revenue = PyInt 19\<rparr>]"
proof -
  note A = output_ordering [of run1 "u ''wb''" wb_sixteen]
  note B = output_ordering [of run1 "u ''wb''" wb_sixteen_articles]
  note C = output_ordering [of run1 "u ''wb''" wb_ties]
  have a: "stable_sorted_desc revenue_key
      (spec_buckets run1 (warehouse_lines run1 (u ''wb'') wb_sixteen))
      [\<lparr>e_name = u ''P'', e_count = 1, e_revenue = PyInt 16\<rparr>,
        \<lparr>e_name = u ''O'', e_count = 1, e_revenue = PyInt 15\<rparr>,
        \<lparr>e_name = u ''N'', e_count = 1, e_revenue = PyInt 14\<rparr>,
        \<lparr>e_name = u ''M'', e_count = 1, e_revenue = PyInt 13\<rparr>,
        \<lparr>e_name = u ''L'', e_count = 1, e_revenue = PyInt 12\<rparr>,
        \<lparr>e_name = u ''K'', e_count = 1, e_revenue = PyInt 11\<rparr>,
        \<lparr>e_name = u ''J'', e_count = 1, e_revenue = PyInt 10\<rparr>,
        \<lparr>e_name = u ''I'', e_count = 1, e_revenue = PyInt 9\<rparr>,
        \<lparr>e_name = u ''H'', e_count = 1, e_revenue = PyInt 8\<rparr>,
        \<lparr>e_name = u ''G'', e_count = 1, e_revenue = PyInt 7\<rparr>,
        \<lparr>e_name = u ''F'', e_count = 1, e_revenue = PyInt 6\<rparr>,
        \<lparr>e_name = u ''E'', e_count = 1, e_revenue = PyInt 5\<rparr>,
        \<lparr>e_name = u ''D'', e_count = 1, e_revenue = PyInt 4\<rparr>,
        \<lparr>e_name = u ''C'', e_count = 1, e_revenue = PyInt 3\<rparr>,
        \<lparr>e_name = u ''B'', e_count = 1, e_revenue = PyInt 2\<rparr>,
        \<lparr>e_name = u ''A'', e_count = 1, e_revenue = PyInt 1\<rparr>]"
    using stable_sorted_desc_sorted_reverse
      [of revenue_key "spec_buckets run1 (warehouse_lines run1 (u ''wb'') wb_sixteen)"]
    by (simp only: sixteen_spec_sorted)
  have b: "stable_sorted_desc revenue_key
      (spec_buckets run1 (product_lines run1 (u ''wb'') wb_sixteen_articles))
      [\<lparr>e_name = u ''P'', e_count = 1, e_revenue = PyInt 16\<rparr>,
        \<lparr>e_name = u ''O'', e_count = 1, e_revenue = PyInt 15\<rparr>,
        \<lparr>e_name = u ''N'', e_count = 1, e_revenue = PyInt 14\<rparr>,
        \<lparr>e_name = u ''M'', e_count = 1, e_revenue = PyInt 13\<rparr>,
        \<lparr>e_name = u ''L'', e_count = 1, e_revenue = PyInt 12\<rparr>,
        \<lparr>e_name = u ''K'', e_count = 1, e_revenue = PyInt 11\<rparr>,
        \<lparr>e_name = u ''J'', e_count = 1, e_revenue = PyInt 10\<rparr>,
        \<lparr>e_name = u ''I'', e_count = 1, e_revenue = PyInt 9\<rparr>,
        \<lparr>e_name = u ''H'', e_count = 1, e_revenue = PyInt 8\<rparr>,
        \<lparr>e_name = u ''G'', e_count = 1, e_revenue = PyInt 7\<rparr>,
        \<lparr>e_name = u ''F'', e_count = 1, e_revenue = PyInt 6\<rparr>,
        \<lparr>e_name = u ''E'', e_count = 1, e_revenue = PyInt 5\<rparr>,
        \<lparr>e_name = u ''D'', e_count = 1, e_revenue = PyInt 4\<rparr>,
        \<lparr>e_name = u ''C'', e_count = 1, e_revenue = PyInt 3\<rparr>,
        \<lparr>e_name = u ''B'', e_count = 1, e_revenue = PyInt 2\<rparr>,
        \<lparr>e_name = u ''A'', e_count = 1, e_revenue = PyInt 1\<rparr>]"
    using stable_sorted_desc_sorted_reverse
      [of revenue_key "spec_buckets run1 (product_lines run1 (u ''wb'') wb_sixteen_articles)"]
    by (simp only: sixteen_products_spec_sorted)
  have c: "stable_sorted_desc revenue_key
      (spec_buckets run1 (warehouse_lines run1 (u ''wb'') wb_ties))
      [\<lparr>e_name = u ''C'', e_count = 1, e_revenue = PyInt 9\<rparr>,
       \<lparr>e_name = u ''B'', e_count = 1, e_revenue = PyInt 5\<rparr>,
       \<lparr>e_name = u ''A'', e_count = 1, e_revenue = PyInt 5\<rparr>]"
    using stable_sorted_desc_sorted_reverse
      [of revenue_key "spec_buckets run1 (warehouse_lines run1 (u ''wb'') wb_ties)"]
    by (simp only: ties_spec_sorted)
  have d: "stable_sorted_desc revenue_key
      (spec_buckets run1 (region_lines run1 (u ''wb'') wb_ties))
      [\<lparr>e_name = u ''Unknown'', e_count = 3, e_revenue = PyInt 19\<rparr>]"
    using stable_sorted_desc_sorted_reverse
      [of revenue_key "spec_buckets run1 (region_lines run1 (u ''wb'') wb_ties)"]
    by (simp only: ties_region_spec_sorted)
  from A a have 1: "map bucket_entry (sales_by_warehouse (aggregate_sales_data run1 wb_sixteen (u ''wb'')))
      = take 15 [\<lparr>e_name = u ''P'', e_count = 1, e_revenue = PyInt 16\<rparr>,
        \<lparr>e_name = u ''O'', e_count = 1, e_revenue = PyInt 15\<rparr>,
        \<lparr>e_name = u ''N'', e_count = 1, e_revenue = PyInt 14\<rparr>,
        \<lparr>e_name = u ''M'', e_count = 1, e_revenue = PyInt 13\<rparr>,
        \<lparr>e_name = u ''L'', e_count = 1, e_revenue = PyInt 12\<rparr>,
        \<lparr>e_name = u ''K'', e_count = 1, e_revenue = PyInt 11\<rparr>,
        \<lparr>e_name = u ''J'', e_count = 1, e_revenue = PyInt 10\<rparr>,
        \<lparr>e_name = u ''I'', e_count = 1, e_revenue = PyInt 9\<rparr>,
        \<lparr>e_name = u ''H'', e_count = 1, e_revenue = PyInt 8\<rparr>,
        \<lparr>e_name = u ''G'', e_count = 1, e_revenue = PyInt 7\<rparr>,
        \<lparr>e_name = u ''F'', e_count = 1, e_revenue = PyInt 6\<rparr>,
        \<lparr>e_name = u ''E'', e_count = 1, e_revenue = PyInt 5\<rparr>,
        \<lparr>e_name = u ''D'', e_count = 1, e_revenue = PyInt 4\<rparr>,
        \<lparr>e_name = u ''C'', e_count = 1, e_revenue = PyInt 3\<rparr>,
        \<lparr>e_name = u ''B'', e_count = 1, e_revenue = PyInt 2\<rparr>,
        \<lparr>e_name = u ''A'', e_count = 1, e_revenue = PyInt 1\<rparr>]"
    by blast
  from B b have 2: "map bucket_entry (sales_by_product (aggregate_sales_data run1 wb_sixteen_articles (u ''wb'')))
      = [\<lparr>e_name = u ''P'', e_count = 1, e_revenue = PyInt 16\<rparr>,
        \<lparr>e_name = u ''O'', e_count = 1, e_revenue = PyInt 15\<rparr>,
        \<lparr>e_name = u ''N'', e_count = 1, e_revenue = PyInt 14\<rparr>,
        \<lparr>e_name = u ''M'', e_count = 1, e_revenue = PyInt 13\<rparr>,
        \<lparr>e_name = u ''L'', e_count = 1, e_revenue = PyInt 12\<rparr>,
        \<lparr>e_name = u ''K'', e_count = 1, e_revenue = PyInt 11\<rparr>,
        \<lparr>e_name = u ''J'', e_count = 1, e_revenue = PyInt 10\<rparr>,
        \<lparr>e_name = u ''I'', e_count = 1, e_revenue = PyInt 9\<rparr>,
        \<lparr>e_name = u ''H'', e_count = 1, e_revenue = PyInt 8\<rparr>,
        \<lparr>e_name = u ''G'', e_count = 1, e_revenue = PyInt 7\<rparr>,
        \<lparr>e_name = u ''F'', e_count = 1, e_revenue = PyInt 6\<rparr>,
        \<lparr>e_name = u ''E'', e_count = 1, e_revenue = PyInt 5\<rparr>,
        \<lparr>e_name = u ''D'', e_count = 1, e_revenue = PyInt 4\<rparr>,
        \<lparr>e_name = u ''C'', e_count = 1, e_revenue = PyInt 3\<rparr>,
        \<lparr>e_name = u ''B'', e_count = 1, e_revenue = PyInt 2\<rparr>,
        \<lparr>e_name = u ''A'', e_count = 1, e_revenue = PyInt 1\<rparr>]"
    by blast
  from C c have 3: "map bucket_entry (sales_by_warehouse (aggregate_sales_data run1 wb_ties (u ''wb'')))
      = take 15 [\<lparr>e_name = u ''C'', e_count = 1, e_revenue = PyInt 9\<rparr>,
       \<lparr>e_name = u ''B'', e_count = 1, e_revenue = PyInt 5\<rparr>,
       \<lparr>e_name = u ''A'', e_count = 1, e_revenue = PyInt 5\<rparr>]"
    by blast
  from C d have 4: "sales_by_region (aggregate_sales_data run1 wb_ties (u ''wb''))
      = take 15 [\<lparr>e_name = u ''Unknown'', e_count = 3, e_revenue = PyInt 19\<rparr>]"
    by blast
  from 1 2 3 4 show ?thesis
    by simp
qed

subsection \<open>The accumulation of one record\<close>

text \<open>
  C5, as the code has it. One pass of the loop body adds 1 to the order count. For a
  WB record, with the price \<^verbatim>\<open>priceWithDisc\<close> (0 when absent or zero) and the names
  \<^verbatim>\<open>warehouseName\<close>, \<^verbatim>\<open>regionName\<close> and \<^verbatim>\<open>supplierArticle\<close> (Unknown when
  absent), it adds the price to the total and, in the warehouse bucket, the region
  bucket and the product bucket of these names, 1 to the count and the price to the
  revenue; no other bucket changes. For an Ozon posting the amount is the sum of
  \<^verbatim>\<open>price * quantity\<close> over \<^verbatim>\<open>financial_data.products\<close> (absent price 0, absent
  quantity 1); it goes to the total and, with 1 added to the count, to the bucket of
  \<^verbatim>\<open>analytics_data.warehouse_name\<close> and to the region bucket
  (\<^verbatim>\<open>cluster_to\<close>, else \<^verbatim>\<open>city\<close>, else Unknown), whatever the quantities; and every entry of the posting's \<^verbatim>\<open>products\<close> adds
  \<^verbatim>\<open>int(quantity)\<close> to the count and \<^verbatim>\<open>float(price) * int(quantity)\<close> to the
  revenue of the bucket of its \<^verbatim>\<open>offer_id\<close>, in list order. In particular a
  posting whose one line has no price and the quantity 3 adds 3 to the count and the
  float 0 to the revenue of the line's product bucket.
\<close>

theorem accumulation_rule:
  "orders_count (agg_step L mp st item) = orders_count st + 1
   \<and> total_revenue (agg_step L (u ''wb'') st item) = py_add L (total_revenue st) (case o_priceWithDisc item of None \<Rightarrow> PyInt 0
          | Some v \<Rightarrow> if num_val v = 0 then PyInt 0 else v)
   \<and> count_of (by_warehouse (agg_step L (u ''wb'') st item)) k
       = count_of (by_warehouse st) k + (if k = (case o_warehouseName item of None \<Rightarrow> u ''Unknown'' | Some n \<Rightarrow> n) then 1 else 0)
   \<and> revenue_of (by_warehouse (agg_step L (u ''wb'') st item)) k
       = (if k = (case o_warehouseName item of None \<Rightarrow> u ''Unknown'' | Some n \<Rightarrow> n)
          then py_add L (revenue_of (by_warehouse st) k) (case o_priceWithDisc item of None \<Rightarrow> PyInt 0
          | Some v \<Rightarrow> if num_val v = 0 then PyInt 0 else v)
          else revenue_of (by_warehouse st) k)
   \<and> count_of (by_region (agg_step L (u ''wb'') st item)) k
       = count_of (by_region st) k + (if k = (case o_regionName item of None \<Rightarrow> u ''Unknown'' | Some n \<Rightarrow> n) then 1 else 0)
   \<and> revenue_of (by_region (agg_step L (u ''wb'') st item)) k
       = (if k = (case o_regionName item of None \<Rightarrow> u ''Unknown'' | Some n \<Rightarrow> n)
          then py_add L (revenue_of (by_region st) k) (case o_priceWithDisc item of None \<Rightarrow> PyInt 0
          | Some v \<Rightarrow> if num_val v = 0 then PyInt 0 else v)
          else revenue_of (by_region st) k)
   \<and> count_of (by_product (agg_step L (u ''wb'') st item)) k
       = count_of (by_product st) k + (if k = (case o_supplierArticle item of None \<Rightarrow> u ''Unknown'' | Some n \<Rightarrow> n) then 1 else 0)
   \<and> revenue_of (by_product (agg_step L (u ''wb'') st item)) k
       = (if k = (case o_supplierArticle item of None \<Rightarrow> u ''Unknown'' | Some n \<Rightarrow> n)
          then py_add L (revenue_of (by_product st) k) (case o_priceWithDisc item of None \<Rightarrow> PyInt 0
          | Some v \<Rightarrow> if num_val v = 0 then PyInt 0 else v)
          else revenue_of (by_product st) k)
   \<and> (mp \<noteq> u ''wb'' \<longrightarrow>
        total_revenue (agg_step L mp st item) = py_add L (total_revenue st) (foldl (\<lambda>price fp. py_add L price
                    (py_mul L (case fp_price fp of None \<Rightarrow> PyInt 0 | Some v \<Rightarrow> v)
                       (case fp_quantity fp of None \<Rightarrow> PyInt 1 | Some q \<Rightarrow> q)))
             (PyInt 0)
             (case o_financial_data item of None \<Rightarrow> []
              | Some fd \<Rightarrow> (case fd_products fd of None \<Rightarrow> [] | Some ps \<Rightarrow> ps)))
      \<and> count_of (by_warehouse (agg_step L mp st item)) k
          = count_of (by_warehouse st) k + (if k = (case o_analytics_data item of None \<Rightarrow> u ''Unknown''
           | Some ad \<Rightarrow> (case ad_warehouse_name ad of None \<Rightarrow> u ''Unknown'' | Some n \<Rightarrow> n)) then 1 else 0)
      \<and> revenue_of (by_warehouse (agg_step L mp st item)) k
          = (if k = (case o_analytics_data item of None \<Rightarrow> u ''Unknown''
           | Some ad \<Rightarrow> (case ad_warehouse_name ad of None \<Rightarrow> u ''Unknown'' | Some n \<Rightarrow> n))
             then py_add L (revenue_of (by_warehouse st) k) (foldl (\<lambda>price fp. py_add L price
                    (py_mul L (case fp_price fp of None \<Rightarrow> PyInt 0 | Some v \<Rightarrow> v)
                       (case fp_quantity fp of None \<Rightarrow> PyInt 1 | Some q \<Rightarrow> q)))
             (PyInt 0)
             (case o_financial_data item of None \<Rightarrow> []
              | Some fd \<Rightarrow> (case fd_products fd of None \<Rightarrow> [] | Some ps \<Rightarrow> ps)))
             else revenue_of (by_warehouse st) k)
      \<and> count_of (by_region (agg_step L mp st item)) k
          = count_of (by_region st) k + (if k = (let cluster_to = (case o_financial_data item of None \<Rightarrow> []
                               | Some fd \<Rightarrow> (case fd_cluster_to fd of None \<Rightarrow> [] | Some c \<Rightarrow> c));
                city = (case o_analytics_data item of None \<Rightarrow> []
                        | Some ad \<Rightarrow> (case ad_city ad of None \<Rightarrow> [] | Some c \<Rightarrow> c))
            in if cluster_to \<noteq> [] then cluster_to
               else if city \<noteq> [] then city else u ''Unknown'') then 1 else 0)
      \<and> revenue_of (by_region (agg_step L mp st item)) k
          = (if k = (let cluster_to = (case o_financial_data item of None \<Rightarrow> []
                               | Some fd \<Rightarrow> (case fd_cluster_to fd of None \<Rightarrow> [] | Some c \<Rightarrow> c));
                city = (case o_analytics_data item of None \<Rightarrow> []
                        | Some ad \<Rightarrow> (case ad_city ad of None \<Rightarrow> [] | Some c \<Rightarrow> c))
            in if cluster_to \<noteq> [] then cluster_to
               else if city \<noteq> [] then city else u ''Unknown'')
             then py_add L (revenue_of (by_region st) k) (foldl (\<lambda>price fp. py_add L price
                    (py_mul L (case fp_price fp of None \<Rightarrow> PyInt 0 | Some v \<Rightarrow> v)
                       (case fp_quantity fp of None \<Rightarrow> PyInt 1 | Some q \<Rightarrow> q)))
             (PyInt 0)
             (case o_financial_data item of None \<Rightarrow> []
              | Some fd \<Rightarrow> (case fd_products fd of None \<Rightarrow> [] | Some ps \<Rightarrow> ps)))
             else revenue_of (by_region st) k)
      \<and> count_of (by_product (agg_step L mp st item)) k
          = count_of (by_product st) k
            + sum_list (map (\<lambda>pr. py_int (case op_quantity pr of None \<Rightarrow> PyInt 1 | Some q \<Rightarrow> q)) (filter (\<lambda>pr. (case op_offer_id pr of None \<Rightarrow> u ''Unknown'' | Some a \<Rightarrow> a) = k)
                  (case o_products item of None \<Rightarrow> [] | Some ps \<Rightarrow> ps)))
      \<and> revenue_of (by_product (agg_step L mp st item)) k
          = foldl (py_add L) (revenue_of (by_product st) k)
              (map (\<lambda>pr. py_mul L
                           (py_float L (case op_price pr of None \<Rightarrow> PyInt 0 | Some v \<Rightarrow> v))
                           (PyInt (py_int (case op_quantity pr of None \<Rightarrow> PyInt 1 | Some q \<Rightarrow> q))))
                 (filter (\<lambda>pr. (case op_offer_id pr of None \<Rightarrow> u ''Unknown'' | Some a \<Rightarrow> a) = k)
                  (case o_products item of None \<Rightarrow> [] | Some ps \<Rightarrow> ps))))
   \<and> (mp \<noteq> u ''wb''
        \<and> o_products item
            = Some [\<lparr>op_offer_id = Some k, op_price = None, op_quantity = Some (PyInt 3)\<rparr>] \<longrightarrow>
        count_of (by_product (agg_step run1 mp st item)) k = count_of (by_product st) k + 3
      \<and> revenue_of (by_product (agg_step run1 mp st item)) k
          = py_add run1 (revenue_of (by_product st) k) (PyFloat 0))"
proof -
  have wbp: "item_price L (u ''wb'') item = (case o_priceWithDisc item of None \<Rightarrow> PyInt 0
          | Some v \<Rightarrow> if num_val v = 0 then PyInt 0 else v)"
    by (simp add: item_price_def wb_price_def get_or_def num_or_0_def split: option.splits)
  have wbw: "item_wh_name (u ''wb'') item = (case o_warehouseName item of None \<Rightarrow> u ''Unknown'' | Some n \<Rightarrow> n)"
    by (simp add: item_wh_name_def get_or_def Unknown_def)
  have wbg: "item_region (u ''wb'') item = (case o_regionName item of None \<Rightarrow> u ''Unknown'' | Some n \<Rightarrow> n)"
    by (simp add: item_region_def get_or_def Unknown_def)
  have wba: "item_article item = (case o_supplierArticle item of None \<Rightarrow> u ''Unknown'' | Some n \<Rightarrow> n)"
    by (simp add: item_article_def get_or_def Unknown_def)
  have wbl: "item_lines L (u ''wb'') item = [((case o_supplierArticle item of None \<Rightarrow> u ''Unknown'' | Some n \<Rightarrow> n), 1, (case o_priceWithDisc item of None \<Rightarrow> PyInt 0
          | Some v \<Rightarrow> if num_val v = 0 then PyInt 0 else v))]"
    using wbp wba by (simp add: item_lines_def item_price_def)
  have ozp: "item_price L mp item = (foldl (\<lambda>price fp. py_add L price
                    (py_mul L (case fp_price fp of None \<Rightarrow> PyInt 0 | Some v \<Rightarrow> v)
                       (case fp_quantity fp of None \<Rightarrow> PyInt 1 | Some q \<Rightarrow> q)))
             (PyInt 0)
             (case o_financial_data item of None \<Rightarrow> []
              | Some fd \<Rightarrow> (case fd_products fd of None \<Rightarrow> [] | Some ps \<Rightarrow> ps)))" if "mp \<noteq> u ''wb''"
    using that
    by (simp add: item_price_def ozon_price_def get_or_def Let_def split: option.splits)
  have ozw: "item_wh_name mp item = (case o_analytics_data item of None \<Rightarrow> u ''Unknown''
           | Some ad \<Rightarrow> (case ad_warehouse_name ad of None \<Rightarrow> u ''Unknown'' | Some n \<Rightarrow> n))" if "mp \<noteq> u ''wb''"
    using that
    by (simp add: item_wh_name_def ozon_wh_name_def get_or_def Unknown_def split: option.splits)
  have ozg: "item_region mp item = (let cluster_to = (case o_financial_data item of None \<Rightarrow> []
                               | Some fd \<Rightarrow> (case fd_cluster_to fd of None \<Rightarrow> [] | Some c \<Rightarrow> c));
                city = (case o_analytics_data item of None \<Rightarrow> []
                        | Some ad \<Rightarrow> (case ad_city ad of None \<Rightarrow> [] | Some c \<Rightarrow> c))
            in if cluster_to \<noteq> [] then cluster_to
               else if city \<noteq> [] then city else u ''Unknown'')" if "mp \<noteq> u ''wb''"
    using that
    by (simp add: item_region_def ozon_region_def get_or_def Unknown_def Let_def
        split: option.splits)
  have ozl: "item_lines L mp item
      = map (\<lambda>pr. (case op_offer_id pr of None \<Rightarrow> u ''Unknown'' | Some a \<Rightarrow> a, py_int (case op_quantity pr of None \<Rightarrow> PyInt 1 | Some q \<Rightarrow> q),
                    py_mul L (py_float L (case op_price pr of None \<Rightarrow> PyInt 0 | Some v \<Rightarrow> v))
                      (PyInt (py_int (case op_quantity pr of None \<Rightarrow> PyInt 1 | Some q \<Rightarrow> q)))))
          (case o_products item of None \<Rightarrow> [] | Some ps \<Rightarrow> ps)"
    if "mp \<noteq> u ''wb''"
    using that
    by (simp add: item_lines_def get_or_def Unknown_def product_qty_def product_revenue_def)
  have w1: "count_of (by_warehouse (agg_step L m st item)) k
       = count_of (by_warehouse st) k + (if k = item_wh_name m item then 1 else 0)" for m
    unfolding step_by_warehouse by (rule count_of_upd) simp_all
  have w2: "revenue_of (by_warehouse (agg_step L m st item)) k
       = (if k = item_wh_name m item
          then py_add L (revenue_of (by_warehouse st) k) (item_price L m item)
          else revenue_of (by_warehouse st) k)" for m
    unfolding step_by_warehouse by (rule revenue_of_upd) simp_all
  have g1: "count_of (by_region (agg_step L m st item)) k
       = count_of (by_region st) k + (if k = item_region m item then 1 else 0)" for m
    unfolding step_by_region by (rule count_of_upd) simp_all
  have g2: "revenue_of (by_region (agg_step L m st item)) k
       = (if k = item_region m item
          then py_add L (revenue_of (by_region st) k) (item_price L m item)
          else revenue_of (by_region st) k)" for m
    unfolding step_by_region by (rule revenue_of_upd) simp_all
  have p1: "count_of (by_product (agg_step L' m st item)) k
       = count_of (by_product st) k + units_of k (item_lines L' m item)" for m L'
    by (simp add: step_by_product count_of_lines_loop)
  have p2: "revenue_of (by_product (agg_step L' m st item)) k
       = foldl (py_add L') (revenue_of (by_product st) k)
           (map (\<lambda>(a, c, r). r) (filter (\<lambda>(a, c, r). a = k) (item_lines L' m item)))" for m L'
    by (simp add: step_by_product revenue_of_lines_loop)
  have A: "total_revenue (agg_step L (u ''wb'') st item) = py_add L (total_revenue st) (case o_priceWithDisc item of None \<Rightarrow> PyInt 0
          | Some v \<Rightarrow> if num_val v = 0 then PyInt 0 else v)"
    by (simp add: step_totals wbp)
  have B: "count_of (by_warehouse (agg_step L (u ''wb'') st item)) k
       = count_of (by_warehouse st) k + (if k = (case o_warehouseName item of None \<Rightarrow> u ''Unknown'' | Some n \<Rightarrow> n) then 1 else 0)"
    by (simp only: w1 wbw)
  have C: "revenue_of (by_warehouse (agg_step L (u ''wb'') st item)) k
       = (if k = (case o_warehouseName item of None \<Rightarrow> u ''Unknown'' | Some n \<Rightarrow> n)
          then py_add L (revenue_of (by_warehouse st) k) (case o_priceWithDisc item of None \<Rightarrow> PyInt 0
          | Some v \<Rightarrow> if num_val v = 0 then PyInt 0 else v)
          else revenue_of (by_warehouse st) k)"
    by (simp only: w2 wbw wbp)
  have D: "count_of (by_region (agg_step L (u ''wb'') st item)) k
       = count_of (by_region st) k + (if k = (case o_regionName item of None \<Rightarrow> u ''Unknown'' | Some n \<Rightarrow> n) then 1 else 0)"
    by (simp only: g1 wbg)
  have E: "revenue_of (by_region (agg_step L (u ''wb'') st item)) k
       = (if k = (case o_regionName item of None \<Rightarrow> u ''Unknown'' | Some n \<Rightarrow> n)
          then py_add L (revenue_of (by_region st) k) (case o_priceWithDisc item of None \<Rightarrow> PyInt 0
          | Some v \<Rightarrow> if num_val v = 0 then PyInt 0 else v)
          else revenue_of (by_region st) k)"
    by (simp only: g2 wbg wbp)
  have F: "count_of (by_product (agg_step L (u ''wb'') st item)) k
       = count_of (by_product st) k + (if k = (case o_supplierArticle item of None \<Rightarrow> u ''Unknown'' | Some n \<Rightarrow> n) then 1 else 0)"
    unfolding p1 wbl by simp
  have G: "revenue_of (by_product (agg_step L (u ''wb'') st item)) k
       = (if k = (case o_supplierArticle item of None \<Rightarrow> u ''Unknown'' | Some n \<Rightarrow> n)
          then py_add L (revenue_of (by_product st) k) (case o_priceWithDisc item of None \<Rightarrow> PyInt 0
          | Some v \<Rightarrow> if num_val v = 0 then PyInt 0 else v)
          else revenue_of (by_product st) k)"
    unfolding p2 wbl by simp
  have H: "total_revenue (agg_step L mp st item) = py_add L (total_revenue st) (foldl (\<lambda>price fp. py_add L price
                    (py_mul L (case fp_price fp of None \<Rightarrow> PyInt 0 | Some v \<Rightarrow> v)
                       (case fp_quantity fp of None \<Rightarrow> PyInt 1 | Some q \<Rightarrow> q)))
             (PyInt 0)
             (case o_financial_data item of None \<Rightarrow> []
              | Some fd \<Rightarrow> (case fd_products fd of None \<Rightarrow> [] | Some ps \<Rightarrow> ps)))
      \<and> count_of (by_warehouse (agg_step L mp st item)) k
          = count_of (by_warehouse st) k + (if k = (case o_analytics_data item of None \<Rightarrow> u ''Unknown''
           | Some ad \<Rightarrow> (case ad_warehouse_name ad of None \<Rightarrow> u ''Unknown'' | Some n \<Rightarrow> n)) then 1 else 0)
      \<and> revenue_of (by_warehouse (agg_step L mp st item)) k
          = (if k = (case o_analytics_data item of None \<Rightarrow> u ''Unknown''
           | Some ad \<Rightarrow> (case ad_warehouse_name ad of None \<Rightarrow> u ''Unknown'' | Some n \<Rightarrow> n))
             then py_add L (revenue_of (by_warehouse st) k) (foldl (\<lambda>price fp. py_add L price
                    (py_mul L (case fp_price fp of None \<Rightarrow> PyInt 0 | Some v \<Rightarrow> v)
                       (case fp_quantity fp of None \<Rightarrow> PyInt 1 | Some q \<Rightarrow> q)))
             (PyInt 0)
             (case o_financial_data item of None \<Rightarrow> []
              | Some fd \<Rightarrow> (case fd_products fd of None \<Rightarrow> [] | Some ps \<Rightarrow> ps)))
             else revenue_of (by_warehouse st) k)
      \<and> count_of (by_region (agg_step L mp st item)) k
          = count_of (by_region st) k + (if k = (let cluster_to = (case o_financial_data item of None \<Rightarrow> []
                               | Some fd \<Rightarrow> (case fd_cluster_to fd of None \<Rightarrow> [] | Some c \<Rightarrow> c));
                city = (case o_analytics_data item of None \<Rightarrow> []
                        | Some ad \<Rightarrow> (case ad_city ad of None \<Rightarrow> [] | Some c \<Rightarrow> c))
            in if cluster_to \<noteq> [] then cluster_to
               else if city \<noteq> [] then city else u ''Unknown'') then 1 else 0)
      \<and> revenue_of (by_region (agg_step L mp st item)) k
          = (if k = (let cluster_to = (case o_financial_data item of None \<Rightarrow> []
                               | Some fd \<Rightarrow> (case fd_cluster_to fd of None \<Rightarrow> [] | Some c \<Rightarrow> c));
                city = (case o_analytics_data item of None \<Rightarrow> []
                        | Some ad \<Rightarrow> (case ad_city ad of None \<Rightarrow> [] | Some c \<Rightarrow> c))
            in if cluster_to \<noteq> [] then cluster_to
               else if city \<noteq> [] then city else u ''Unknown'')
             then py_add L (revenue_of (by_region st) k) (foldl (\<lambda>price fp. py_add L price
                    (py_mul L (case fp_price fp of None \<Rightarrow> PyInt 0 | Some v \<Rightarrow> v)
                       (case fp_quantity fp of None \<Rightarrow> PyInt 1 | Some q \<Rightarrow> q)))
             (PyInt 0)
             (case o_financial_data item of None \<Rightarrow> []
              | Some fd \<Rightarrow> (case fd_products fd of None \<Rightarrow> [] | Some ps \<Rightarrow> ps)))
             else revenue_of (by_region st) k)
      \<and> count_of (by_product (agg_step L mp st item)) k
          = count_of (by_product st) k
            + sum_list (map (\<lambda>pr. py_int (case op_quantity pr of None \<Rightarrow> PyInt 1 | Some q \<Rightarrow> q)) (filter (\<lambda>pr. (case op_offer_id pr of None \<Rightarrow> u ''Unknown'' | Some a \<Rightarrow> a) = k)
                  (case o_products item of None \<Rightarrow> [] | Some ps \<Rightarrow> ps)))
      \<and> revenue_of (by_product (agg_step L mp st item)) k
          = foldl (py_add L) (revenue_of (by_product st) k)
              (map (\<lambda>pr. py_mul L
                           (py_float L (case op_price pr of None \<Rightarrow> PyInt 0 | Some v \<Rightarrow> v))
                           (PyInt (py_int (case op_quantity pr of None \<Rightarrow> PyInt 1 | Some q \<Rightarrow> q))))
                 (filter (\<lambda>pr. (case op_offer_id pr of None \<Rightarrow> u ''Unknown'' | Some a \<Rightarrow> a) = k)
                  (case o_products item of None \<Rightarrow> [] | Some ps \<Rightarrow> ps)))"
    if mp: "mp \<noteq> u ''wb''"
  proof -
    have h1: "total_revenue (agg_step L mp st item) = py_add L (total_revenue st) (foldl (\<lambda>price fp. py_add L price
                    (py_mul L (case fp_price fp of None \<Rightarrow> PyInt 0 | Some v \<Rightarrow> v)
                       (case fp_quantity fp of None \<Rightarrow> PyInt 1 | Some q \<Rightarrow> q)))
             (PyInt 0)
             (case o_financial_data item of None \<Rightarrow> []
              | Some fd \<Rightarrow> (case fd_products fd of None \<Rightarrow> [] | Some ps \<Rightarrow> ps)))"
      by (simp add: step_totals ozp [OF mp])
    have h2: "count_of (by_warehouse (agg_step L mp st item)) k
          = count_of (by_warehouse st) k + (if k = (case o_analytics_data item of None \<Rightarrow> u ''Unknown''
           | Some ad \<Rightarrow> (case ad_warehouse_name ad of None \<Rightarrow> u ''Unknown'' | Some n \<Rightarrow> n)) then 1 else 0)"
      by (simp only: w1 ozw [OF mp])
    have h3: "revenue_of (by_warehouse (agg_step L mp st item)) k
          = (if k = (case o_analytics_data item of None \<Rightarrow> u ''Unknown''
           | Some ad \<Rightarrow> (case ad_warehouse_name ad of None \<Rightarrow> u ''Unknown'' | Some n \<Rightarrow> n))
             then py_add L (revenue_of (by_warehouse st) k) (foldl (\<lambda>price fp. py_add L price
                    (py_mul L (case fp_price fp of None \<Rightarrow> PyInt 0 | Some v \<Rightarrow> v)
                       (case fp_quantity fp of None \<Rightarrow> PyInt 1 | Some q \<Rightarrow> q)))
             (PyInt 0)
             (case o_financial_data item of None \<Rightarrow> []
              | Some fd \<Rightarrow> (case fd_products fd of None \<Rightarrow> [] | Some ps \<Rightarrow> ps)))
             else revenue_of (by_warehouse st) k)"
      by (simp only: w2 ozw [OF mp] ozp [OF mp])
    have h4: "count_of (by_region (agg_step L mp st item)) k
          = count_of (by_region st) k + (if k = (let cluster_to = (case o_financial_data item of None \<Rightarrow> []
                               | Some fd \<Rightarrow> (case fd_cluster_to fd of None \<Rightarrow> [] | Some c \<Rightarrow> c));
                city = (case o_analytics_data item of None \<Rightarrow> []
                        | Some ad \<Rightarrow> (case ad_city ad of None \<Rightarrow> [] | Some c \<Rightarrow> c))
            in if cluster_to \<noteq> [] then cluster_to
               else if city \<noteq> [] then city else u ''Unknown'') then 1 else 0)"
      by (simp only: g1 ozg [OF mp])
    have h5: "revenue_of (by_region (agg_step L mp st item)) k
          = (if k = (let cluster_to = (case o_financial_data item of None \<Rightarrow> []
                               | Some fd \<Rightarrow> (case fd_cluster_to fd of None \<Rightarrow> [] | Some c \<Rightarrow> c));
                city = (case o_analytics_data item of None \<Rightarrow> []
                        | Some ad \<Rightarrow> (case ad_city ad of None \<Rightarrow> [] | Some c \<Rightarrow> c))
            in if cluster_to \<noteq> [] then cluster_to
               else if city \<noteq> [] then city else u ''Unknown'')
             then py_add L (revenue_of (by_region st) k) (foldl (\<lambda>price fp. py_add L price
                    (py_mul L (case fp_price fp of None \<Rightarrow> PyInt 0 | Some v \<Rightarrow> v)
                       (case fp_quantity fp of None \<Rightarrow> PyInt 1 | Some q \<Rightarrow> q)))
             (PyInt 0)
             (case o_financial_data item of None \<Rightarrow> []
              | Some fd \<Rightarrow> (case fd_products fd of None \<Rightarrow> [] | Some ps \<Rightarrow> ps)))
             else revenue_of (by_region st) k)"
      by (simp only: g2 ozg [OF mp] ozp [OF mp])
    have h6: "count_of (by_product (agg_step L mp st item)) k
          = count_of (by_product st) k
            + sum_list (map (\<lambda>pr. py_int (case op_quantity pr of None \<Rightarrow> PyInt 1 | Some q \<Rightarrow> q)) (filter (\<lambda>pr. (case op_offer_id pr of None \<Rightarrow> u ''Unknown'' | Some a \<Rightarrow> a) = k)
                  (case o_products item of None \<Rightarrow> [] | Some ps \<Rightarrow> ps)))"
      unfolding p1 ozl [OF mp]
      by (simp add: units_of_def filter_map comp_def)
    have h7: "revenue_of (by_product (agg_step L mp st item)) k
          = foldl (py_add L) (revenue_of (by_product st) k)
              (map (\<lambda>pr. py_mul L
                           (py_float L (case op_price pr of None \<Rightarrow> PyInt 0 | Some v \<Rightarrow> v))
                           (PyInt (py_int (case op_quantity pr of None \<Rightarrow> PyInt 1 | Some q \<Rightarrow> q))))
                 (filter (\<lambda>pr. (case op_offer_id pr of None \<Rightarrow> u ''Unknown'' | Some a \<Rightarrow> a) = k)
                  (case o_products item of None \<Rightarrow> [] | Some ps \<Rightarrow> ps)))"
      unfolding p2 ozl [OF mp]
      by (simp add: filter_map comp_def)
    from h1 h2 h3 h4 h5 h6 h7 show ?thesis by blast
  qed
  have I: "count_of (by_product (agg_step run1 mp st item)) k = count_of (by_product st) k + 3
      \<and> revenue_of (by_product (agg_step run1 mp st item)) k
          = py_add run1 (revenue_of (by_product st) k) (PyFloat 0)"
    if mp: "mp \<noteq> u ''wb''"
      and pr: "o_products item
            = Some [\<lparr>op_offer_id = Some k, op_price = None, op_quantity = Some (PyInt 3)\<rparr>]"
  proof -
    have z: "fround run1 0 = 0"
      by (simp add: run1_def round_double_def)
    have "item_lines run1 mp item = [(k, 3, PyFloat 0)]"
      using mp pr
      by (simp add: item_lines_def get_or_def product_qty_def product_revenue_def z)
    then show ?thesis
      unfolding p1 p2 by simp
  qed
  from A B C D E F G H I show ?thesis
    by (simp only: step_totals) blast
qed

lemma wb_sample_state_eval:
  "count_of (by_warehouse wb_sample_state) (u ''Tula'') = 2"
  "revenue_of (by_warehouse wb_sample_state) (u ''Tula'') = PyInt 100"
  "count_of (by_region wb_sample_state) (u ''Center'') = 2"
  "revenue_of (by_region wb_sample_state) (u ''Center'') = PyInt 100"
  "count_of (by_product wb_sample_state) (u ''SF0125'') = 2"
  "revenue_of (by_product wb_sample_state) (u ''SF0125'') = PyInt 350"
  "total_revenue wb_sample_state = PyInt 350"
  "orders_count wb_sample_state = 3"
  by code_simp+

lemma ozon_sample_state_eval:
  "count_of (by_warehouse ozon_sample_state) (u ''W1'') = 2"
  "revenue_of (by_warehouse ozon_sample_state) (u ''W1'') = PyInt 200"
  "count_of (by_product ozon_sample_state) (u ''SM0250'') = 2"
  "revenue_of (by_product ozon_sample_state) (u ''SM0250'') = PyFloat 200"
  "count_of (by_product ozon_sample_state) (u ''SF0125'') = 3"
  "revenue_of (by_product ozon_sample_state) (u ''SF0125'') = PyFloat 0"
  "total_revenue ozon_sample_state = PyInt 200"
  by code_simp+

lemma wb_sample_first:
  "wb_sample ! 0 =
     empty_order\<lparr>o_priceWithDisc := Some (PyInt 100), o_warehouseName := Some (u ''Tula''),
                 o_regionName := Some (u ''Center''), o_supplierArticle := Some (u ''SF0125''),
                 o_date := Some (u ''2024-06-10T09:00:00'')\<rparr>"
  by (simp add: wb_sample_def)

lemma paid_line_revenue:
  "fround run1 (200 + fround run1 (fround run1 100 * fround run1 2)) = 400"
  by code_simp

lemma float_zero_sum: "fround run1 0 = 0"
  by (simp add: run1_def round_double_def)

lemma ozon_not_wb: "u ''ozon'' \<noteq> u ''wb''"
  by (simp add: u_def)

theorem accumulation_rule_witness:
  "orders_count (agg_step run1 (u ''wb'') wb_sample_state (wb_sample ! 0)) = 4
   \<and> total_revenue (agg_step run1 (u ''wb'') wb_sample_state (wb_sample ! 0)) = PyInt 450
   \<and> count_of (by_warehouse (agg_step run1 (u ''wb'') wb_sample_state (wb_sample ! 0))) (u ''Tula'') = 3
   \<and> revenue_of (by_warehouse (agg_step run1 (u ''wb'') wb_sample_state (wb_sample ! 0))) (u ''Tula'')
       = PyInt 200
   \<and> count_of (by_region (agg_step run1 (u ''wb'') wb_sample_state (wb_sample ! 0))) (u ''Center'') = 3
   \<and> revenue_of (by_region (agg_step run1 (u ''wb'') wb_sample_state (wb_sample ! 0))) (u ''Center'')
       = PyInt 200
   \<and> count_of (by_product (agg_step run1 (u ''wb'') wb_sample_state (wb_sample ! 0))) (u ''SF0125'') = 3
   \<and> revenue_of (by_product (agg_step run1 (u ''wb'') wb_sample_state (wb_sample ! 0))) (u ''SF0125'')
       = PyInt 450
   \<and> total_revenue (agg_step run1 (u ''ozon'') ozon_sample_state ozon_order_paid) = PyInt 400
   \<and> count_of (by_warehouse (agg_step run1 (u ''ozon'') ozon_sample_state ozon_order_paid)) (u ''W1'') = 3
   \<and> revenue_of (by_warehouse (agg_step run1 (u ''ozon'') ozon_sample_state ozon_order_paid)) (u ''W1'')
       = PyInt 400
   \<and> count_of (by_product (agg_step run1 (u ''ozon'') ozon_sample_state ozon_order_paid)) (u ''SM0250'') = 4
   \<and> revenue_of (by_product (agg_step run1 (u ''ozon'') ozon_sample_state ozon_order_paid)) (u ''SM0250'')
       = PyFloat 400
   \<and> count_of (by_product (agg_step run1 (u ''ozon'') ozon_sample_state ozon_order_qty3)) (u ''SF0125'') = 6
   \<and> revenue_of (by_product (agg_step run1 (u ''ozon'') ozon_sample_state ozon_order_qty3)) (u ''SF0125'')
       = PyFloat 0"
proof -
  note A = accumulation_rule [of run1 "u ''wb''" wb_sample_state "wb_sample ! 0" "u ''Tula''"]
  note B = accumulation_rule [of run1 "u ''wb''" wb_sample_state "wb_sample ! 0" "u ''Center''"]
  note C = accumulation_rule [of run1 "u ''wb''" wb_sample_state "wb_sample ! 0" "u ''SF0125''"]
  note D = accumulation_rule [of run1 "u ''ozon''" ozon_sample_state ozon_order_paid "u ''W1''"]
  note E = accumulation_rule [of run1 "u ''ozon''" ozon_sample_state ozon_order_paid "u ''SM0250''"]
  note F = accumulation_rule [of run1 "u ''ozon''" ozon_sample_state ozon_order_qty3 "u ''SF0125''"]
  have pr: "o_products ozon_order_qty3
      = Some [\<lparr>op_offer_id = Some (u ''SF0125''), op_price = None, op_quantity = Some (PyInt 3)\<rparr>]"
    by (simp add: ozon_order_qty3_def)
  from A have a: "orders_count (agg_step run1 (u ''wb'') wb_sample_state (wb_sample ! 0)) = 4
     \<and> total_revenue (agg_step run1 (u ''wb'') wb_sample_state (wb_sample ! 0)) = PyInt 450
     \<and> count_of (by_warehouse (agg_step run1 (u ''wb'') wb_sample_state (wb_sample ! 0))) (u ''Tula'') = 3
     \<and> revenue_of (by_warehouse (agg_step run1 (u ''wb'') wb_sample_state (wb_sample ! 0))) (u ''Tula'')
         = PyInt 200"
    unfolding wb_sample_first by (simp add: wb_sample_state_eval empty_order_def)
  from B have b: "count_of (by_region (agg_step run1 (u ''wb'') wb_sample_state (wb_sample ! 0))) (u ''Center'') = 3
     \<and> revenue_of (by_region (agg_step run1 (u ''wb'') wb_sample_state (wb_sample ! 0))) (u ''Center'')
         = PyInt 200"
    unfolding wb_sample_first by (simp add: wb_sample_state_eval empty_order_def)
  from C have c: "count_of (by_product (agg_step run1 (u ''wb'') wb_sample_state (wb_sample ! 0))) (u ''SF0125'') = 3
     \<and> revenue_of (by_product (agg_step run1 (u ''wb'') wb_sample_state (wb_sample ! 0))) (u ''SF0125'')
         = PyInt 450"
    unfolding wb_sample_first by (simp add: wb_sample_state_eval empty_order_def)
  from D ozon_not_wb have d: "total_revenue (agg_step run1 (u ''ozon'') ozon_sample_state ozon_order_paid) = PyInt 400
     \<and> count_of (by_warehouse (agg_step run1 (u ''ozon'') ozon_sample_state ozon_order_paid)) (u ''W1'') = 3
     \<and> revenue_of (by_warehouse (agg_step run1 (u ''ozon'') ozon_sample_state ozon_order_paid)) (u ''W1'')
         = PyInt 400"
    by (simp add: ozon_sample_state_eval ozon_order_paid_def empty_order_def)
  from E ozon_not_wb have e: "count_of (by_product (agg_step run1 (u ''ozon'') ozon_sample_state ozon_order_paid)) (u ''SM0250'') = 4
     \<and> revenue_of (by_product (agg_step run1 (u ''ozon'') ozon_sample_state ozon_order_paid)) (u ''SM0250'')
         = PyFloat 400"
    by (simp add: ozon_sample_state_eval ozon_order_paid_def empty_order_def paid_line_revenue)
  from F ozon_not_wb pr have f: "count_of (by_product (agg_step run1 (u ''ozon'') ozon_sample_state ozon_order_qty3)) (u ''SF0125'') = 6
     \<and> revenue_of (by_product (agg_step run1 (u ''ozon'') ozon_sample_state ozon_order_qty3)) (u ''SF0125'')
         = PyFloat 0"
    by (simp add: ozon_sample_state_eval float_zero_sum)
  from a b c d e f show ?thesis by blast
qed

text \<open>
  C5 as stated fails for the warehouse bucket of an Ozon posting, whose count grows
  by 1 for a posting, not by its units: after the two sample postings the bucket of
  W1 has count 2 and revenue 200; the posting of two units at 100 takes the revenue
  to 400 and the count to 3, not to 4.
\<close>

theorem accumulation_rule_counterexample:
  "count_of (by_warehouse ozon_sample_state) (u ''W1'') = 2
   \<and> revenue_of (by_warehouse ozon_sample_state) (u ''W1'') = PyInt 200
   \<and> map fp_quantity (get_or (fd_products (the (o_financial_data ozon_order_paid))) [])
       = [Some (PyInt 2)]
   \<and> count_of (by_warehouse (agg_step run1 (u ''ozon'') ozon_sample_state ozon_order_paid)) (u ''W1'') = 3
   \<and> revenue_of (by_warehouse (agg_step run1 (u ''ozon'') ozon_sample_state ozon_order_paid)) (u ''W1'')
       = PyInt 400
   \<and> count_of (by_warehouse (agg_step run1 (u ''ozon'') ozon_sample_state ozon_order_paid)) (u ''W1'')
       \<noteq> count_of (by_warehouse ozon_sample_state) (u ''W1'') + 2"
proof -
  have 1: "count_of (by_warehouse (agg_step run1 (u ''ozon'') ozon_sample_state ozon_order_paid)) (u ''W1'') = 3"
    by code_simp
  have 2: "revenue_of (by_warehouse (agg_step run1 (u ''ozon'') ozon_sample_state ozon_order_paid)) (u ''W1'')
       = PyInt 400"
    by code_simp
  have 3: "map fp_quantity (get_or (fd_products (the (o_financial_data ozon_order_paid))) [])
       = [Some (PyInt 2)]"
    by (simp add: ozon_order_paid_def empty_order_def get_or_def)
  from 1 2 3 show ?thesis
    by (simp add: ozon_sample_state_eval)
qed

subsection \<open>Chart construction\<close>

lemma clusters_loop_labels:
  "fst (clusters_loop cw cs (lb, cl)) = lb @ concat (map (\<lambda>c. map ws_name (cluster_warehouses cw c)) cs)"
  by (induction cs arbitrary: lb cl) (simp_all add: Let_def)

lemma clusters_loop_span:
  "sum_list (map ci_span (snd (clusters_loop cw cs (lb, cl))))
     = sum_list (map ci_span cl) + sum_list (map (\<lambda>c. int (length (cluster_warehouses cw c))) cs)"
  by (induction cs arbitrary: lb cl) (simp_all add: Let_def ci_span_def)

lemma clusters_loop_total:
  "sum_list (map ci_total_stock (snd (clusters_loop cw cs (lb, cl))))
     = sum_list (map ci_total_stock cl)
       + sum_list (map (\<lambda>c. sum_list (map (\<lambda>wh. sum_list (dict_values (ws_products wh)))
                                         (cluster_warehouses cw c))) cs)"
  by (induction cs arbitrary: lb cl) (simp_all add: Let_def)

lemma length_concat_names:
  "int (length (concat (map (\<lambda>c. map ws_name (cluster_warehouses cw c)) cs)))
     = sum_list (map (\<lambda>c. int (length (cluster_warehouses cw c))) cs)"
  by (induction cs) simp_all

lemma series_data_flat:
  "series_data cw cs a
     = map (\<lambda>wh. get_or (map_of (ws_products wh) a) 0) (concat (map (cluster_warehouses cw) cs))"
  by (simp add: series_data_def map_concat comp_def)

lemma names_flat:
  "concat (map (\<lambda>c. map ws_name (cluster_warehouses cw c)) cs)
     = map ws_name (concat (map (cluster_warehouses cw) cs))"
  by (simp add: map_concat comp_def)

lemma totals_flat:
  "sum_list (map (\<lambda>c. sum_list (map f (cluster_warehouses cw c))) cs)
     = sum_list (map f (concat (map (cluster_warehouses cw) cs)))"
  by (induction cs) simp_all

lemma datasets_loop_eq:
  "datasets_loop L cw cs as =
     map (\<lambda>a. \<lparr>ds_label = a, ds_data = series_data cw cs a,
                ds_backgroundColor = get_article_color L a,
                ds_borderColor = u ''#1a1a1a'', ds_borderWidth = 1\<rparr>)
       (filter (\<lambda>a. list_ex (\<lambda>d. d > 0) (series_data cw cs a)) as)"
  by (induction as) (simp_all add: Let_def)

lemma group_members:
  "\<forall>l\<in>set (dict_values cw). set l \<subseteq> S \<Longrightarrow> set whs \<subseteq> S \<Longrightarrow>
   \<forall>l\<in>set (dict_values (group_by_cluster L mp whs cw)). set l \<subseteq> S"
proof (induction whs arbitrary: cw)
  case Nil
  then show ?case by simp
next
  case (Cons wh whs)
  let ?c = "get_warehouse_cluster L (ws_name wh) mp"
  have "\<forall>v\<in>set (dict_values (dict_modify ?c (\<lambda>l. l @ [wh]) (dict_setdefault ?c [] cw))). set v \<subseteq> S"
  proof (rule all_dict_upd)
    show "\<forall>v\<in>set (dict_values cw). set v \<subseteq> S"
      by (rule Cons.prems(1))
    show "set [] \<subseteq> S" by simp
    show "\<And>v. set v \<subseteq> S \<Longrightarrow> set (v @ [wh]) \<subseteq> S"
      using Cons.prems(2) by simp
  qed
  from Cons.IH [OF this] Cons.prems(2) show ?case by (simp add: Let_def)
qed

lemma cluster_warehouses_members:
  assumes "\<forall>l\<in>set (dict_values cw). set l \<subseteq> S"
  shows "set (concat (map (cluster_warehouses cw) cs)) \<subseteq> S"
proof -
  have "set (cluster_warehouses cw c) \<subseteq> S" for c
  proof (cases "map_of cw c")
    case None
    then show ?thesis by (simp add: cluster_warehouses_def get_or_def)
  next
    case (Some l)
    then have "(c, l) \<in> set cw" by (rule map_of_SomeD)
    then have "l \<in> set (dict_values cw)" by (force simp: dict_values_def)
    with assms Some show ?thesis by (auto simp: cluster_warehouses_def get_or_def)
  qed
  then show ?thesis by auto
qed

lemma sum_lookup_one:
  fixes f :: "'a \<Rightarrow> int"
  assumes "distinct as" and "k \<in> set as"
  shows "sum_list (map (\<lambda>a. if a = k then v else f a) as) = v + sum_list (map f as) - f k"
  using assms
proof (induction as)
  case Nil
  then show ?case by simp
next
  case (Cons a as)
  show ?case
  proof (cases "a = k")
    case True
    with Cons.prems have "k \<notin> set as" by simp
    then have "map (\<lambda>a. if a = k then v else f a) as = map f as"
      by (induction as) auto
    then have "sum_list (map (\<lambda>a. if a = k then v else f a) as) = sum_list (map f as)"
      by (rule arg_cong)
    with True show ?thesis by simp
  next
    case False
    with Cons show ?thesis by simp
  qed
qed

lemma sum_lookup_all:
  assumes "distinct as" and "distinct (map fst d)" and "set (map fst d) \<subseteq> set as"
  shows "sum_list (map (\<lambda>a. get_or (map_of d a) (0::int)) as) = sum_list (dict_values d)"
  using assms(2,3)
proof (induction d)
  case Nil
  then show ?case by (simp add: get_or_def dict_values_def)
next
  case (Cons kv d)
  obtain k v where kv: "kv = (k, v)" by (cases kv)
  from Cons.prems kv have k: "k \<in> set as" and nk: "k \<notin> fst ` set d" by auto
  then have z: "get_or (map_of d k) (0::int) = 0"
    by (simp add: get_or_def map_of_eq_None_iff [THEN iffD2])
  have "(\<lambda>a. get_or (map_of (kv # d) a) (0::int))
      = (\<lambda>a. if a = k then v else get_or (map_of d a) 0)"
    by (auto simp: kv get_or_def)
  then have "sum_list (map (\<lambda>a. get_or (map_of (kv # d) a) (0::int)) as)
      = v + sum_list (map (\<lambda>a. get_or (map_of d a) 0) as) - get_or (map_of d k) 0"
    using sum_lookup_one [OF assms(1) k] by simp
  also have "\<dots> = v + sum_list (dict_values d)"
    using Cons z by simp
  finally show ?case by (simp add: kv dict_values_def)
qed

lemma sum_swap:
  fixes q :: "'b \<Rightarrow> 'a \<Rightarrow> int"
  shows "sum_list (map (\<lambda>a. sum_list (map (\<lambda>w. q w a) ws)) as)
       = sum_list (map (\<lambda>w. sum_list (map (q w) as)) ws)"
  by (induction as) (simp_all add: sum_list_addf)

lemma nonpositive_series_zero:
  assumes "\<forall>x\<in>set xs. (0::int) \<le> x" and "\<not> list_ex (\<lambda>d. d > 0) xs"
  shows "sum_list xs = 0"
  using assms by (induction xs) (auto simp: list_ex_iff)

lemma sum_filter_nonzero:
  fixes S :: "'a \<Rightarrow> int"
  assumes "\<And>a. a \<in> set as \<Longrightarrow> \<not> P a \<Longrightarrow> S a = 0"
  shows "sum_list (map S (filter P as)) = sum_list (map S as)"
  using assms by (induction as) auto

lemma build_chart_Some:
  assumes "build_chart L mp pr stocks_wp all_articles = Some c"
  defines "cw \<equiv> group_by_cluster L mp stocks_wp []"
  defines "cs \<equiv> sort_clusters pr cw"
  shows "cd_labels c = fst (clusters_loop cw cs ([], []))"
    and "cd_clusters c = snd (clusters_loop cw cs ([], []))"
    and "cd_datasets c = datasets_loop L cw cs all_articles"
  using assms(1) unfolding cw_def cs_def
  by (auto simp: build_chart_def Let_def split: if_splits prod.splits)

lemmas chart_defs = wb_chart_def build_chart_def Let_def sort_clusters_def
  cluster_warehouses_def series_data_def get_or_def dict_values_def
  wb_priority_clusters_def

lemma sklad_cluster: "get_warehouse_cluster run1 (u ''Sklad'') (u ''wb'') = fallback_cluster"
  by (simp add: get_warehouse_cluster_def sklad_wb)

lemma color_SF0125_run1: "get_article_color run1 (u ''SF0125'') = u ''#614701''"
  by (rule article_color_SF0125) (simp add: run1_def u_def upper_cp_def)

lemma color_BOX1_run1: "get_article_color run1 (u ''BOX1'') = u ''#ef4444''"
  by (simp add: get_article_color_def run1_def color_map_def fallback_colors_def
      hash_seed1_def u_def upper_cp_def)

lemma group_chart_sample:
  "group_by_cluster run1 (u ''wb'') chart_sample [] =
     [([1062, 1077, 1085, 1090, 1088, 1072, 1083, 1100, 1085, 1099, 1081],
       [\<lparr>ws_name = [1050, 1086, 1083, 1077, 1076, 1080, 1085, 1086],
         ws_products = [(u ''SF0125'', 10)]\<rparr>]),
      ([1070, 1078, 1085, 1099, 1081, 32, 43, 32, 1057, 1077, 1074, 1077,
        1088, 1086, 45, 1050, 1072, 1074, 1082, 1072, 1079, 1089, 1082, 1080, 1081],
       [\<lparr>ws_name = [1053, 1077, 1074, 1080, 1085, 1085, 1086, 1084, 1099, 1089, 1089, 1082],
         ws_products = [(u ''SF0125'', 5)]\<rparr>])]"
  by (simp add: chart_sample_def koledino_wb nevinnomyssk_wb)

lemma chart_scenario: "wb_chart run1 chart_sample [u ''SF0125''] = Some chart_sample_out"
  unfolding wb_chart_def build_chart_def group_chart_sample chart_sample_out_def
  by (simp add: chart_defs color_SF0125_run1) (simp add: chart_sample_def)

lemma fallback_not_priority:
  "fallback_cluster \<notin> set wb_priority_clusters"
  "filter (\<lambda>pc. pc = fallback_cluster) wb_priority_clusters = []"
  by (simp_all add: fallback_cluster_def wb_priority_clusters_def)

lemma u_BOX1_SF0125: "u ''BOX1'' \<noteq> u ''SF0125''"
  by (simp add: u_def)

lemma chart_negative_eval: "wb_chart run1 chart_negative [u ''BOX1''] = Some chart_negative_out"
  using fallback_not_priority
  by (simp add: wb_chart_def build_chart_def chart_negative_def chart_negative_out_def
      sklad_cluster Let_def sort_clusters_def cluster_warehouses_def series_data_def
      get_or_def dict_values_def)

lemma chart_missing_eval: "wb_chart run1 chart_positive [u ''SF0125''] = Some chart_missing_out"
  using fallback_not_priority u_BOX1_SF0125
  by (simp add: wb_chart_def build_chart_def chart_positive_def chart_missing_out_def
      sklad_cluster Let_def sort_clusters_def cluster_warehouses_def series_data_def
      get_or_def dict_values_def)

lemma chart_duplicate_eval:
  "wb_chart run1 chart_positive [u ''BOX1'', u ''BOX1''] = Some chart_duplicate_out"
  using fallback_not_priority
  by (simp add: wb_chart_def build_chart_def chart_positive_def chart_duplicate_out_def
      sklad_cluster Let_def sort_clusters_def cluster_warehouses_def series_data_def
      get_or_def dict_values_def color_BOX1_run1)

text \<open>
  C6, as the code has it. For every chart that is built: the number of labels is the
  sum over the clusters of end_index - start_index + 1; every emitted series has as
  many values as there are labels, and its values are those of its article in label
  order; an article of \<^verbatim>\<open>all_articles\<close> has a series if and only if one of its
  values is positive. The cluster totals sum to the sum of all emitted values when
  the input keeps its contract: \<^verbatim>\<open>all_articles\<close> has no duplicates and contains
  every article of every warehouse, and no quantity is negative.
\<close>

theorem chart_alignment:
  "build_chart L mp pr stocks_wp all_articles = Some c \<Longrightarrow>
     int (length (cd_labels c)) = sum_list (map ci_span (cd_clusters c))
   \<and> (\<forall>ds\<in>set (cd_datasets c).
         length (ds_data ds) = length (cd_labels c)
       \<and> ds_data ds = series_data (group_by_cluster L mp stocks_wp [])
                        (sort_clusters pr (group_by_cluster L mp stocks_wp [])) (ds_label ds))
   \<and> (\<forall>a. a \<in> set (map ds_label (cd_datasets c)) \<longleftrightarrow>
         a \<in> set all_articles
       \<and> (\<exists>v\<in>set (series_data (group_by_cluster L mp stocks_wp [])
                     (sort_clusters pr (group_by_cluster L mp stocks_wp [])) a). 0 < v))
   \<and> (chart_input_ok stocks_wp all_articles \<longrightarrow>
         chart_sums_agree c)"
proof -
  assume b: "build_chart L mp pr stocks_wp all_articles = Some c"
  define cw where "cw = group_by_cluster L mp stocks_wp []"
  define cs where "cs = sort_clusters pr cw"
  define WL where "WL = concat (map (cluster_warehouses cw) cs)"
  define q where "q = (\<lambda>(wh::wh_stock) a. get_or (map_of (ws_products wh) a) (0::int))"
  define pos where "pos = (\<lambda>a. list_ex (\<lambda>d. d > 0) (series_data cw cs a))"
  note C = build_chart_Some [OF b, folded cw_def cs_def]
  have lab: "cd_labels c = map ws_name WL"
    by (simp add: C clusters_loop_labels names_flat WL_def)
  have ser: "series_data cw cs a = map (\<lambda>wh. q wh a) WL" for a
    by (simp add: series_data_flat WL_def q_def)
  have 1: "int (length (cd_labels c)) = sum_list (map ci_span (cd_clusters c))"
    by (simp add: C clusters_loop_labels clusters_loop_span length_concat_names)
  have 2: "\<forall>ds\<in>set (cd_datasets c).
         length (ds_data ds) = length (cd_labels c)
       \<and> ds_data ds = series_data cw cs (ds_label ds)"
    by (auto simp: C(3) datasets_loop_eq lab ser)
  have 3: "\<forall>a. a \<in> set (map ds_label (cd_datasets c)) \<longleftrightarrow>
         a \<in> set all_articles \<and> (\<exists>v\<in>set (series_data cw cs a). 0 < v)"
    by (auto simp: C(3) datasets_loop_eq list_ex_iff comp_def)
  have 4: "sum_list (map ci_total_stock (cd_clusters c))
           = sum_list (map (\<lambda>ds. sum_list (ds_data ds)) (cd_datasets c))"
    if ok: "chart_input_ok stocks_wp all_articles"
  proof -
    have mem: "set WL \<subseteq> set stocks_wp"
      unfolding WL_def cw_def
      by (rule cluster_warehouses_members, rule group_members) (simp_all add: dict_values_def)
    have tot: "sum_list (map ci_total_stock (cd_clusters c))
        = sum_list (map (\<lambda>wh. sum_list (dict_values (ws_products wh))) WL)"
      by (simp add: C clusters_loop_total totals_flat WL_def)
    have row: "sum_list (map (q wh) all_articles) = sum_list (dict_values (ws_products wh))"
      if "wh \<in> set WL" for wh
    proof -
      from that mem have "wh \<in> set stocks_wp" by blast
      with ok show ?thesis
        unfolding q_def chart_input_ok_def by (intro sum_lookup_all) auto
    qed
    have nonneg: "0 \<le> q wh a" if "wh \<in> set WL" for wh a
    proof (cases "map_of (ws_products wh) a")
      case None
      then show ?thesis by (simp add: q_def get_or_def)
    next
      case (Some v)
      then have "(a, v) \<in> set (ws_products wh)" by (rule map_of_SomeD)
      then have "v \<in> set (dict_values (ws_products wh))" by (force simp: dict_values_def)
      moreover from that mem have "wh \<in> set stocks_wp" by blast
      ultimately have "0 \<le> v" using ok by (auto simp: chart_input_ok_def)
      with Some show ?thesis by (simp add: q_def get_or_def)
    qed
    have zero: "sum_list (series_data cw cs a) = 0" if "\<not> pos a" for a
    proof (rule nonpositive_series_zero)
      show "\<forall>x\<in>set (series_data cw cs a). 0 \<le> x"
        using nonneg by (auto simp: ser)
      show "\<not> list_ex (\<lambda>d. d > 0) (series_data cw cs a)"
        using that by (simp add: pos_def)
    qed
    have "sum_list (map (\<lambda>ds. sum_list (ds_data ds)) (cd_datasets c))
        = sum_list (map (\<lambda>a. sum_list (series_data cw cs a)) (filter pos all_articles))"
      by (simp add: C(3) datasets_loop_eq comp_def pos_def)
    also have "\<dots> = sum_list (map (\<lambda>a. sum_list (series_data cw cs a)) all_articles)"
      by (rule sum_filter_nonzero) (rule zero)
    also have "\<dots> = sum_list (map (\<lambda>a. sum_list (map (\<lambda>wh. q wh a) WL)) all_articles)"
      by (simp add: ser)
    also have "\<dots> = sum_list (map (\<lambda>wh. sum_list (map (q wh) all_articles)) WL)"
      by (rule sum_swap)
    also have "\<dots> = sum_list (map (\<lambda>wh. sum_list (dict_values (ws_products wh))) WL)"
      using row by (simp cong: map_cong)
    finally show ?thesis using tot by simp
  qed
  from 1 2 3 4 show ?thesis
    unfolding cw_def cs_def chart_sums_agree_def by blast
qed

theorem chart_alignment_witness:
  "int (length (cd_labels chart_sample_out)) = sum_list (map ci_span (cd_clusters chart_sample_out))
   \<and> length (ds_data (hd (cd_datasets chart_sample_out))) = length (cd_labels chart_sample_out)
   \<and> (\<exists>v\<in>set (series_data (group_by_cluster run1 (u ''wb'') chart_sample [])
                   (sort_clusters wb_priority_clusters
                      (group_by_cluster run1 (u ''wb'') chart_sample [])) (u ''SF0125'')). 0 < v)
   \<and> chart_sums_agree chart_sample_out"
proof -
  note A = chart_alignment [OF chart_scenario [unfolded wb_chart_def]]
  have ok: "chart_input_ok chart_sample [u ''SF0125'']"
    by (simp add: chart_input_ok_def chart_sample_def dict_values_def)
  have m: "hd (cd_datasets chart_sample_out) \<in> set (cd_datasets chart_sample_out)"
    by (simp add: chart_sample_out_def)
  from A have 1: "int (length (cd_labels chart_sample_out))
      = sum_list (map ci_span (cd_clusters chart_sample_out))"
    by blast
  from A m have 2: "length (ds_data (hd (cd_datasets chart_sample_out)))
      = length (cd_labels chart_sample_out)"
    by blast
  have "u ''SF0125'' \<in> set (map ds_label (cd_datasets chart_sample_out))"
    by (simp add: chart_sample_out_def)
  with A have 3: "\<exists>v\<in>set (series_data (group_by_cluster run1 (u ''wb'') chart_sample [])
                   (sort_clusters wb_priority_clusters
                      (group_by_cluster run1 (u ''wb'') chart_sample [])) (u ''SF0125'')). 0 < v"
    by blast
  from A ok have 4: "chart_sums_agree chart_sample_out"
    by blast
  from 1 2 3 4 show ?thesis by blast
qed

text \<open>
  C6 as stated fails on the sum of the totals when the input is off its contract: a
  warehouse whose only quantity is negative has a cluster total of -2 and no series;
  a stocked article that is missing from the article list is in the total and in no
  series; an article listed twice gets two series.
\<close>

theorem chart_alignment_counterexample:
  "wb_chart run1 chart_negative [u ''BOX1''] = Some chart_negative_out
   \<and> \<not> chart_sums_agree chart_negative_out
   \<and> wb_chart run1 chart_positive [u ''SF0125''] = Some chart_missing_out
   \<and> \<not> chart_sums_agree chart_missing_out
   \<and> wb_chart run1 chart_positive [u ''BOX1'', u ''BOX1''] = Some chart_duplicate_out
   \<and> \<not> chart_sums_agree chart_duplicate_out"
  using chart_negative_eval chart_missing_eval chart_duplicate_eval
  by (simp add: chart_sums_agree_def chart_negative_out_def chart_missing_out_def
      chart_duplicate_out_def)

subsection \<open>Combiner\<close>

lemma prepare_Inr:
  "prepare L today wb_file ozon_file = Inr D \<longleftrightarrow>
     (\<exists>wl ol wd od. load_json wb_file = Inr wl \<and> load_json ozon_file = Inr ol
        \<and> usable wl = Inr wd \<and> usable ol = Inr od \<and> D = build_dashboard L today wd od)"
  by (auto simp: prepare_def split: sum.splits)

lemma usable_object: "has_keys d \<Longrightarrow> usable (Some (JObject d)) = Inr (Some d)"
  by simp

lemma in_period_spec:
  assumes "p \<in> set periods_config"
  shows "in_period p today d = spec_window (p_key p) today d"
proof -
  have k: "u ''yesterday'' \<noteq> u ''today''" "u ''days_3'' \<noteq> u ''today''"
    "u ''days_3'' \<noteq> u ''yesterday''" "u ''days_7'' \<noteq> u ''today''"
    "u ''days_7'' \<noteq> u ''yesterday''" "u ''days_7'' \<noteq> u ''days_3''"
    "u ''days_30'' \<noteq> u ''today''" "u ''days_30'' \<noteq> u ''yesterday''"
    "u ''days_30'' \<noteq> u ''days_3''" "u ''days_30'' \<noteq> u ''days_7''"
    by (simp_all add: u_def)
  from assms consider "p = periods_config ! 0" | "p = periods_config ! 1"
    | "p = periods_config ! 2" | "p = periods_config ! 3" | "p = periods_config ! 4"
    by (auto simp: periods_config_def)
  then show ?thesis
    by cases (simp_all add: periods_config_def in_period_def spec_window_def k)
qed

lemma filter_period_window:
  assumes "p \<in> set periods_config"
  shows "filter_period L g p today items = filter (in_window L g (p_key p) today) items"
  unfolding filter_period_eq in_window_def
  by (simp add: in_period_spec [OF assms] cong: option.case_cong)

lemma distinct_period_keys: "distinct (map p_key periods_config)"
  by (simp add: periods_config_keys u_def)

lemma map_of_map_key:
  assumes "distinct (map k ps)" and "p \<in> set ps"
  shows "map_of (map (\<lambda>p. (k p, f p)) ps) (k p) = Some (f p)"
  using assms by (induction ps) (auto simp: image_iff)

lemma period_data_lookup:
  assumes "p \<in> set periods_config"
  shows "map_of (d_period_data (build_dashboard L today wd od)) (p_key p)
     = Some (map_option (\<lambda>d. wb_period L today d p) wd,
             map_option (\<lambda>d. ozon_period L today d p) od)"
  using map_of_map_key [OF distinct_period_keys assms,
      of "\<lambda>p. (map_option (\<lambda>d. wb_period L today d p) wd,
                map_option (\<lambda>d. ozon_period L today d p) od)"]
  by (simp add: build_dashboard_def Let_def)

lemma wb_period_window:
  assumes "p \<in> set periods_config"
  shows "wb_period L today wd p =
     \<lparr>pe_agg = aggregate_sales_data L
         (filter (in_window L wb_item_date (p_key p) today) (get_or (rd_raw_orders wd) []))
         (u ''wb''),
      pe_redemptions_revenue =
        py_sum L (map (\<lambda>item. num_or_0 (get_or (o_forPay item) (PyInt 0)))
          (filter (in_window L wb_item_date (p_key p) today) (get_or (rd_raw_sales wd) []))),
      pe_redemptions_count =
        length (filter (in_window L wb_item_date (p_key p) today) (get_or (rd_raw_sales wd) []))\<rparr>"
  by (simp add: wb_period_def Let_def filter_period_window [OF assms])

lemma ozon_period_window:
  assumes "p \<in> set periods_config"
  shows "ozon_period L today od p =
     \<lparr>pe_agg = aggregate_sales_data L
         (filter (in_window L o_created_at (p_key p) today) (get_or (rd_raw_orders od) []))
         (u ''ozon''),
      pe_redemptions_revenue =
        py_sum L (map (\<lambda>txn. py_abs (get_or (tx_amount txn) (PyInt 0)))
          (filter (in_window L tx_operation_date (p_key p) today)
             (get_or (rd_finance_redemptions od) []))),
      pe_redemptions_count =
        length (filter (in_window L tx_operation_date (p_key p) today)
          (get_or (rd_finance_redemptions od) []))\<rparr>"
  by (simp add: ozon_period_def Let_def filter_period_window [OF assms])

lemma prepare_wb_object:
  assumes "prepare L today (Parsed (JObject wd)) ozon_file = Inr D" and "has_keys wd"
  shows "\<exists>od. D = build_dashboard L today (Some wd) od"
  using assms by (auto simp: prepare_Inr)

lemma prepare_ozon_object:
  assumes "prepare L today wb_file (Parsed (JObject od)) = Inr D" and "has_keys od"
  shows "\<exists>wd. D = build_dashboard L today wd (Some od)"
  using assms by (auto simp: prepare_Inr)

subsection \<open>Period windows\<close>

text \<open>
  C2. The table of windows is as the specification gives it: today, yesterday,
  3-day, 7-day and 30-day, with the offsets 0, 1, 2, 6 and 29, and yesterday alone
  an exact day. Each of the four filtering loops of \<^verbatim>\<open>prepare\<close> keeps, in input
  order, exactly the records whose date parses to a date of the window as the
  specification words it (on or after today minus the offset; for yesterday, the day
  before today). So in every document that \<^verbatim>\<open>prepare\<close> produces, the entry of a
  window for a marketplace whose raw document was processed is the aggregation of
  exactly these orders, with the count and the sum of exactly these redemptions.
  A record dated today is in every window but yesterday; with today = 2024-06-10, a
  record dated 2024-06-09 is not in the today window and is in the yesterday and
  7-day windows.
\<close>

theorem window_correctness:
  "map (\<lambda>p. (p_key p, p_days p, p_exact_day p = Some True)) periods_config
     = [(u ''today'', 0, False), (u ''yesterday'', 1, True), (u ''days_3'', 2, False),
        (u ''days_7'', 6, False), (u ''days_30'', 29, False)]
   \<and> (\<forall>p\<in>set periods_config.
        filter_period L g p today items = filter (in_window L g (p_key p) today) items
      \<and> (\<forall>wd D. prepare L today (Parsed (JObject wd)) ozon_file = Inr D \<and> has_keys wd \<longrightarrow>
            wb_entry D (p_key p) =
              Some \<lparr>pe_agg = aggregate_sales_data L
                       (filter (in_window L wb_item_date (p_key p) today)
                          (get_or (rd_raw_orders wd) []))
                       (u ''wb''),
                    pe_redemptions_revenue =
                      py_sum L (map (\<lambda>item. num_or_0 (get_or (o_forPay item) (PyInt 0)))
                        (filter (in_window L wb_item_date (p_key p) today)
                           (get_or (rd_raw_sales wd) []))),
                    pe_redemptions_count =
                      length (filter (in_window L wb_item_date (p_key p) today)
                        (get_or (rd_raw_sales wd) []))\<rparr>)
      \<and> (\<forall>od D. prepare L today wb_file (Parsed (JObject od)) = Inr D \<and> has_keys od \<longrightarrow>
            ozon_entry D (p_key p) =
              Some \<lparr>pe_agg = aggregate_sales_data L
                       (filter (in_window L o_created_at (p_key p) today)
                          (get_or (rd_raw_orders od) []))
                       (u ''ozon''),
                    pe_redemptions_revenue =
                      py_sum L (map (\<lambda>txn. py_abs (get_or (tx_amount txn) (PyInt 0)))
                        (filter (in_window L tx_operation_date (p_key p) today)
                           (get_or (rd_finance_redemptions od) []))),
                    pe_redemptions_count =
                      length (filter (in_window L tx_operation_date (p_key p) today)
                        (get_or (rd_finance_redemptions od) []))\<rparr>))
   \<and> (\<forall>dt. parse_date L (g item) = Some dt \<and> dt_date dt = today \<longrightarrow>
          in_window L g (u ''today'') today item
        \<and> \<not> in_window L g (u ''yesterday'') today item
        \<and> in_window L g (u ''days_3'') today item
        \<and> in_window L g (u ''days_7'') today item
        \<and> in_window L g (u ''days_30'') today item)
   \<and> (\<forall>dt. parse_date L (g item) = Some dt \<and> dt_date dt = ymd2ord 2024 6 9 \<longrightarrow>
          \<not> in_window L g (u ''today'') (ymd2ord 2024 6 10) item
        \<and> in_window L g (u ''yesterday'') (ymd2ord 2024 6 10) item
        \<and> in_window L g (u ''days_7'') (ymd2ord 2024 6 10) item)
   \<and> (parse_date L (g item) = None \<longrightarrow> (\<forall>key. \<not> in_window L g key today item))"
proof -
  have k: "u ''yesterday'' \<noteq> u ''today''" "u ''days_3'' \<noteq> u ''today''"
    "u ''days_3'' \<noteq> u ''yesterday''" "u ''days_7'' \<noteq> u ''today''"
    "u ''days_7'' \<noteq> u ''yesterday''" "u ''days_7'' \<noteq> u ''days_3''"
    "u ''days_30'' \<noteq> u ''today''" "u ''days_30'' \<noteq> u ''yesterday''"
    "u ''days_30'' \<noteq> u ''days_3''" "u ''days_30'' \<noteq> u ''days_7''"
    by (simp_all add: u_def)
  have 1: "map (\<lambda>p. (p_key p, p_days p, p_exact_day p = Some True)) periods_config
     = [(u ''today'', 0, False), (u ''yesterday'', 1, True), (u ''days_3'', 2, False),
        (u ''days_7'', 6, False), (u ''days_30'', 29, False)]"
    by (simp add: periods_config_def)
  have 2: "filter_period L g p today items = filter (in_window L g (p_key p) today) items"
    if "p \<in> set periods_config" for p
    by (rule filter_period_window [OF that])
  have 3: "wb_entry D (p_key p) =
              Some \<lparr>pe_agg = aggregate_sales_data L
                       (filter (in_window L wb_item_date (p_key p) today)
                          (get_or (rd_raw_orders wd) []))
                       (u ''wb''),
                    pe_redemptions_revenue =
                      py_sum L (map (\<lambda>item. num_or_0 (get_or (o_forPay item) (PyInt 0)))
                        (filter (in_window L wb_item_date (p_key p) today)
                           (get_or (rd_raw_sales wd) []))),
                    pe_redemptions_count =
                      length (filter (in_window L wb_item_date (p_key p) today)
                        (get_or (rd_raw_sales wd) []))\<rparr>"
    if p: "p \<in> set periods_config"
      and D: "prepare L today (Parsed (JObject wd)) ozon_file = Inr D" and h: "has_keys wd"
    for p wd D
  proof -
    from prepare_wb_object [OF D h] obtain od where "D = build_dashboard L today (Some wd) od"
      by blast
    then show ?thesis
      by (simp add: wb_entry_def period_data_lookup [OF p] wb_period_window [OF p])
  qed
  have 4: "ozon_entry D (p_key p) =
              Some \<lparr>pe_agg = aggregate_sales_data L
                       (filter (in_window L o_created_at (p_key p) today)
                          (get_or (rd_raw_orders od) []))
                       (u ''ozon''),
                    pe_redemptions_revenue =
                      py_sum L (map (\<lambda>txn. py_abs (get_or (tx_amount txn) (PyInt 0)))
                        (filter (in_window L tx_operation_date (p_key p) today)
                           (get_or (rd_finance_redemptions od) []))),
                    pe_redemptions_count =
                      length (filter (in_window L tx_operation_date (p_key p) today)
                        (get_or (rd_finance_redemptions od) []))\<rparr>"
    if p: "p \<in> set periods_config"
      and D: "prepare L today wb_file (Parsed (JObject od)) = Inr D" and h: "has_keys od"
    for p od D
  proof -
    from prepare_ozon_object [OF D h] obtain wd where "D = build_dashboard L today wd (Some od)"
      by blast
    then show ?thesis
      by (simp add: ozon_entry_def period_data_lookup [OF p] ozon_period_window [OF p])
  qed
  have 5: "in_window L g (u ''today'') today item
        \<and> \<not> in_window L g (u ''yesterday'') today item
        \<and> in_window L g (u ''days_3'') today item
        \<and> in_window L g (u ''days_7'') today item
        \<and> in_window L g (u ''days_30'') today item"
    if "parse_date L (g item) = Some dt" and "dt_date dt = today" for dt
    using that by (simp add: in_window_def spec_window_def k)
  have 6: "\<not> in_window L g (u ''today'') (ymd2ord 2024 6 10) item
        \<and> in_window L g (u ''yesterday'') (ymd2ord 2024 6 10) item
        \<and> in_window L g (u ''days_7'') (ymd2ord 2024 6 10) item"
    if "parse_date L (g item) = Some dt" and "dt_date dt = ymd2ord 2024 6 9" for dt
    using that by (simp add: in_window_def spec_window_def k ord_2024_06_10 ord_2024_06_09)
  have 7: "\<not> in_window L g key today item" if "parse_date L (g item) = None" for key
    using that by (simp add: in_window_def)
  from 1 2 3 4 5 6 7 show ?thesis
    by blast
qed

lemma has_keys_0609: "has_keys wb_doc_0609" "has_keys ozon_doc_0609"
  by (simp_all add: has_keys_def wb_doc_0609_def ozon_doc_0609_def empty_doc_def)

lemma prepare_0609:
  "prepare run1 (ymd2ord 2024 6 10) (Parsed (JObject wb_doc_0609)) (Parsed (JObject ozon_doc_0609))
     = Inr doc_0609"
  by (simp add: prepare_def has_keys_0609 doc_0609_def)

lemma period_keys_at:
  "periods_config ! 0 \<in> set periods_config" "p_key (periods_config ! 0) = u ''today''"
  "periods_config ! 1 \<in> set periods_config" "p_key (periods_config ! 1) = u ''yesterday''"
  "periods_config ! 3 \<in> set periods_config" "p_key (periods_config ! 3) = u ''days_7''"
  by (simp_all add: periods_config_def)

lemma wb_window_today:
  "map_option (\<lambda>e. (r_orders_count (pe_agg e), r_revenue (pe_agg e), pe_redemptions_count e,
                     pe_redemptions_revenue e))
     (Some \<lparr>pe_agg = aggregate_sales_data run1
                (filter (in_window run1 wb_item_date (u ''today'') (ymd2ord 2024 6 10))
                   (get_or (rd_raw_orders wb_doc_0609) []))
                (u ''wb''),
              pe_redemptions_revenue =
                py_sum run1 (map (\<lambda>item. num_or_0 (get_or (o_forPay item) (PyInt 0)))
                  (filter (in_window run1 wb_item_date (u ''today'') (ymd2ord 2024 6 10))
                     (get_or (rd_raw_sales wb_doc_0609) []))),
              pe_redemptions_count =
                length (filter (in_window run1 wb_item_date (u ''today'') (ymd2ord 2024 6 10))
                  (get_or (rd_raw_sales wb_doc_0609) []))\<rparr>)
     = Some (0, PyInt 0, 0, PyInt 0)"
  by code_simp

lemma ozon_window_today:
  "map_option (\<lambda>e. (r_orders_count (pe_agg e), r_revenue (pe_agg e), pe_redemptions_count e,
                     pe_redemptions_revenue e))
     (Some \<lparr>pe_agg = aggregate_sales_data run1
                (filter (in_window run1 o_created_at (u ''today'') (ymd2ord 2024 6 10))
                   (get_or (rd_raw_orders ozon_doc_0609) []))
                (u ''ozon''),
              pe_redemptions_revenue =
                py_sum run1 (map (\<lambda>txn. py_abs (get_or (tx_amount txn) (PyInt 0)))
                  (filter (in_window run1 tx_operation_date (u ''today'') (ymd2ord 2024 6 10))
                     (get_or (rd_finance_redemptions ozon_doc_0609) []))),
              pe_redemptions_count =
                length (filter (in_window run1 tx_operation_date (u ''today'') (ymd2ord 2024 6 10))
                  (get_or (rd_finance_redemptions ozon_doc_0609) []))\<rparr>)
     = Some (0, PyInt 0, 0, PyInt 0)"
  by code_simp

lemma wb_window_yesterday:
  "map_option (\<lambda>e. (r_orders_count (pe_agg e), r_revenue (pe_agg e), pe_redemptions_count e,
                     pe_redemptions_revenue e))
     (Some \<lparr>pe_agg = aggregate_sales_data run1
                (filter (in_window run1 wb_item_date (u ''yesterday'') (ymd2ord 2024 6 10))
                   (get_or (rd_raw_orders wb_doc_0609) []))
                (u ''wb''),
              pe_redemptions_revenue =
                py_sum run1 (map (\<lambda>item. num_or_0 (get_or (o_forPay item) (PyInt 0)))
                  (filter (in_window run1 wb_item_date (u ''yesterday'') (ymd2ord 2024 6 10))
                     (get_or (rd_raw_sales wb_doc_0609) []))),
              pe_redemptions_count =
                length (filter (in_window run1 wb_item_date (u ''yesterday'') (ymd2ord 2024 6 10))
                  (get_or (rd_raw_sales wb_doc_0609) []))\<rparr>)
     = Some (1, PyInt 40, 1, PyInt 30)"
  by code_simp

lemma ozon_window_yesterday:
  "map_option (\<lambda>e. (r_orders_count (pe_agg e), r_revenue (pe_agg e), pe_redemptions_count e,
                     pe_redemptions_revenue e))
     (Some \<lparr>pe_agg = aggregate_sales_data run1
                (filter (in_window run1 o_created_at (u ''yesterday'') (ymd2ord 2024 6 10))
                   (get_or (rd_raw_orders ozon_doc_0609) []))
                (u ''ozon''),
              pe_redemptions_revenue =
                py_sum run1 (map (\<lambda>txn. py_abs (get_or (tx_amount txn) (PyInt 0)))
                  (filter (in_window run1 tx_operation_date (u ''yesterday'') (ymd2ord 2024 6 10))
                     (get_or (rd_finance_redemptions ozon_doc_0609) []))),
              pe_redemptions_count =
                length (filter (in_window run1 tx_operation_date (u ''yesterday'') (ymd2ord 2024 6 10))
                  (get_or (rd_finance_redemptions ozon_doc_0609) []))\<rparr>)
     = Some (1, PyInt 0, 1, PyInt 25)"
  by code_simp

lemma wb_window_days_7:
  "map_option (\<lambda>e. (r_orders_count (pe_agg e), r_revenue (pe_agg e), pe_redemptions_count e,
                     pe_redemptions_revenue e))
     (Some \<lparr>pe_agg = aggregate_sales_data run1
                (filter (in_window run1 wb_item_date (u ''days_7'') (ymd2ord 2024 6 10))
                   (get_or (rd_raw_orders wb_doc_0609) []))
                (u ''wb''),
              pe_redemptions_revenue =
                py_sum run1 (map (\<lambda>item. num_or_0 (get_or (o_forPay item) (PyInt 0)))
                  (filter (in_window run1 wb_item_date (u ''days_7'') (ymd2ord 2024 6 10))
                     (get_or (rd_raw_sales wb_doc_0609) []))),
              pe_redemptions_count =
                length (filter (in_window run1 wb_item_date (u ''days_7'') (ymd2ord 2024 6 10))
                  (get_or (rd_raw_sales wb_doc_0609) []))\<rparr>)
     = Some (1, PyInt 40, 1, PyInt 30)"
  by code_simp

lemma ozon_window_days_7:
  "map_option (\<lambda>e. (r_orders_count (pe_agg e), r_revenue (pe_agg e), pe_redemptions_count e,
                     pe_redemptions_revenue e))
     (Some \<lparr>pe_agg = aggregate_sales_data run1
                (filter (in_window run1 o_created_at (u ''days_7'') (ymd2ord 2024 6 10))
                   (get_or (rd_raw_orders ozon_doc_0609) []))
                (u ''ozon''),
              pe_redemptions_revenue =
                py_sum run1 (map (\<lambda>txn. py_abs (get_or (tx_amount txn) (PyInt 0)))
                  (filter (in_window run1 tx_operation_date (u ''days_7'') (ymd2ord 2024 6 10))
                     (get_or (rd_finance_redemptions ozon_doc_0609) []))),
              pe_redemptions_count =
                length (filter (in_window run1 tx_operation_date (u ''days_7'') (ymd2ord 2024 6 10))
                  (get_or (rd_finance_redemptions ozon_doc_0609) []))\<rparr>)
     = Some (1, PyInt 0, 1, PyInt 25)"
  by code_simp

theorem window_correctness_witness:
  "prepare run1 (ymd2ord 2024 6 10) (Parsed (JObject wb_doc_0609)) (Parsed (JObject ozon_doc_0609))
     = Inr doc_0609
   \<and> map_option (\<lambda>e. (r_orders_count (pe_agg e), r_revenue (pe_agg e), pe_redemptions_count e,
                     pe_redemptions_revenue e))
        (wb_entry doc_0609 (u ''today'')) = Some (0, PyInt 0, 0, PyInt 0)
   \<and> map_option (\<lambda>e. (r_orders_count (pe_agg e), r_revenue (pe_agg e), pe_redemptions_count e,
                     pe_redemptions_revenue e))
        (ozon_entry doc_0609 (u ''today'')) = Some (0, PyInt 0, 0, PyInt 0)
   \<and> map_option (\<lambda>e. (r_orders_count (pe_agg e), r_revenue (pe_agg e), pe_redemptions_count e,
                     pe_redemptions_revenue e))
        (wb_entry doc_0609 (u ''yesterday'')) = Some (1, PyInt 40, 1, PyInt 30)
   \<and> map_option (\<lambda>e. (r_orders_count (pe_agg e), r_revenue (pe_agg e), pe_redemptions_count e,
                     pe_redemptions_revenue e))
        (ozon_entry doc_0609 (u ''yesterday'')) = Some (1, PyInt 0, 1, PyInt 25)
   \<and> map_option (\<lambda>e. (r_orders_count (pe_agg e), r_revenue (pe_agg e), pe_redemptions_count e,
                     pe_redemptions_revenue e))
        (wb_entry doc_0609 (u ''days_7'')) = Some (1, PyInt 40, 1, PyInt 30)
   \<and> map_option (\<lambda>e. (r_orders_count (pe_agg e), r_revenue (pe_agg e), pe_redemptions_count e,
                     pe_redemptions_revenue e))
        (ozon_entry doc_0609 (u ''days_7'')) = Some (1, PyInt 0, 1, PyInt 25)
   \<and> filter_period run1 o_created_at (periods_config ! 0) (ymd2ord 2024 6 10) [ozon_order_0609] = []
   \<and> filter_period run1 o_created_at (periods_config ! 1) (ymd2ord 2024 6 10) [ozon_order_0609] = [ozon_order_0609]
   \<and> filter_period run1 o_created_at (periods_config ! 3) (ymd2ord 2024 6 10) [ozon_order_0609] = [ozon_order_0609]"
proof -
  note W = window_correctness [of run1 o_created_at "ymd2ord 2024 6 10" "[ozon_order_0609]"
      "Parsed (JObject ozon_doc_0609)" "Parsed (JObject wb_doc_0609)" ozon_order_0609]
  note P = prepare_0609 has_keys_0609
  from W period_keys_at P have "wb_entry doc_0609 (p_key (periods_config ! 0)) =
      Some \<lparr>pe_agg = aggregate_sales_data run1
                (filter (in_window run1 wb_item_date (p_key (periods_config ! 0)) (ymd2ord 2024 6 10))
                   (get_or (rd_raw_orders wb_doc_0609) []))
                (u ''wb''),
              pe_redemptions_revenue =
                py_sum run1 (map (\<lambda>item. num_or_0 (get_or (o_forPay item) (PyInt 0)))
                  (filter (in_window run1 wb_item_date (p_key (periods_config ! 0)) (ymd2ord 2024 6 10))
                     (get_or (rd_raw_sales wb_doc_0609) []))),
              pe_redemptions_count =
                length (filter (in_window run1 wb_item_date (p_key (periods_config ! 0)) (ymd2ord 2024 6 10))
                  (get_or (rd_raw_sales wb_doc_0609) []))\<rparr>"
    by blast
  then have w0: "map_option (\<lambda>e. (r_orders_count (pe_agg e), r_revenue (pe_agg e), pe_redemptions_count e,
                     pe_redemptions_revenue e))
        (wb_entry doc_0609 (u ''today'')) = Some (0, PyInt 0, 0, PyInt 0)"
    unfolding period_keys_at by (simp only: wb_window_today)
  from W period_keys_at P have "ozon_entry doc_0609 (p_key (periods_config ! 0)) =
      Some \<lparr>pe_agg = aggregate_sales_data run1
                (filter (in_window run1 o_created_at (p_key (periods_config ! 0)) (ymd2ord 2024 6 10))
                   (get_or (rd_raw_orders ozon_doc_0609) []))
                (u ''ozon''),
              pe_redemptions_revenue =
                py_sum run1 (map (\<lambda>txn. py_abs (get_or (tx_amount txn) (PyInt 0)))
                  (filter (in_window run1 tx_operation_date (p_key (periods_config ! 0)) (ymd2ord 2024 6 10))
                     (get_or (rd_finance_redemptions ozon_doc_0609) []))),
              pe_redemptions_count =
                length (filter (in_window run1 tx_operation_date (p_key (periods_config ! 0)) (ymd2ord 2024 6 10))
                  (get_or (rd_finance_redemptions ozon_doc_0609) []))\<rparr>"
    by blast
  then have z0: "map_option (\<lambda>e. (r_orders_count (pe_agg e), r_revenue (pe_agg e), pe_redemptions_count e,
                     pe_redemptions_revenue e))
        (ozon_entry doc_0609 (u ''today'')) = Some (0, PyInt 0, 0, PyInt 0)"
    unfolding period_keys_at by (simp only: ozon_window_today)
  from W period_keys_at have "filter_period run1 o_created_at (periods_config ! 0) (ymd2ord 2024 6 10) [ozon_order_0609]
      = filter (in_window run1 o_created_at (p_key (periods_config ! 0)) (ymd2ord 2024 6 10)) [ozon_order_0609]"
    by blast
  also have "\<dots> = []"
    unfolding period_keys_at by code_simp
  finally have f0: "filter_period run1 o_created_at (periods_config ! 0) (ymd2ord 2024 6 10) [ozon_order_0609]
      = []" .
  from W period_keys_at P have "wb_entry doc_0609 (p_key (periods_config ! 1)) =
      Some \<lparr>pe_agg = aggregate_sales_data run1
                (filter (in_window run1 wb_item_date (p_key (periods_config ! 1)) (ymd2ord 2024 6 10))
                   (get_or (rd_raw_orders wb_doc_0609) []))
                (u ''wb''),
              pe_redemptions_revenue =
                py_sum run1 (map (\<lambda>item. num_or_0 (get_or (o_forPay item) (PyInt 0)))
                  (filter (in_window run1 wb_item_date (p_key (periods_config ! 1)) (ymd2ord 2024 6 10))
                     (get_or (rd_raw_sales wb_doc_0609) []))),
              pe_redemptions_count =
                length (filter (in_window run1 wb_item_date (p_key (periods_config ! 1)) (ymd2ord 2024 6 10))
                  (get_or (rd_raw_sales wb_doc_0609) []))\<rparr>"
    by blast
  then have w1: "map_option (\<lambda>e. (r_orders_count (pe_agg e), r_revenue (pe_agg e), pe_redemptions_count e,
                     pe_redemptions_revenue e))
        (wb_entry doc_0609 (u ''yesterday'')) = Some (1, PyInt 40, 1, PyInt 30)"
    unfolding period_keys_at by (simp only: wb_window_yesterday)
  from W period_keys_at P have "ozon_entry doc_0609 (p_key (periods_config ! 1)) =
      Some \<lparr>pe_agg = aggregate_sales_data run1
                (filter (in_window run1 o_created_at (p_key (periods_config ! 1)) (ymd2ord 2024 6 10))
                   (get_or (rd_raw_orders ozon_doc_0609) []))
                (u ''ozon''),
              pe_redemptions_revenue =
                py_sum run1 (map (\<lambda>txn. py_abs (get_or (tx_amount txn) (PyInt 0)))
                  (filter (in_window run1 tx_operation_date (p_key (periods_config ! 1)) (ymd2ord 2024 6 10))
                     (get_or (rd_finance_redemptions ozon_doc_0609) []))),
              pe_redemptions_count =
                length (filter (in_window run1 tx_operation_date (p_key (periods_config ! 1)) (ymd2ord 2024 6 10))
                  (get_or (rd_finance_redemptions ozon_doc_0609) []))\<rparr>"
    by blast
  then have z1: "map_option (\<lambda>e. (r_orders_count (pe_agg e), r_revenue (pe_agg e), pe_redemptions_count e,
                     pe_redemptions_revenue e))
        (ozon_entry doc_0609 (u ''yesterday'')) = Some (1, PyInt 0, 1, PyInt 25)"
    unfolding period_keys_at by (simp only: ozon_window_yesterday)
  from W period_keys_at have "filter_period run1 o_created_at (periods_config ! 1) (ymd2ord 2024 6 10) [ozon_order_0609]
      = filter (in_window run1 o_created_at (p_key (periods_config ! 1)) (ymd2ord 2024 6 10)) [ozon_order_0609]"
    by blast
  also have "\<dots> = [ozon_order_0609]"
    unfolding period_keys_at by code_simp
  finally have f1: "filter_period run1 o_created_at (periods_config ! 1) (ymd2ord 2024 6 10) [ozon_order_0609]
      = [ozon_order_0609]" .
  from W period_keys_at P have "wb_entry doc_0609 (p_key (periods_config ! 3)) =
      Some \<lparr>pe_agg = aggregate_sales_data run1
                (filter (in_window run1 wb_item_date (p_key (periods_config ! 3)) (ymd2ord 2024 6 10))
                   (get_or (rd_raw_orders wb_doc_0609) []))
                (u ''wb''),
              pe_redemptions_revenue =
                py_sum run1 (map (\<lambda>item. num_or_0 (get_or (o_forPay item) (PyInt 0)))
                  (filter (in_window run1 wb_item_date (p_key (periods_config ! 3)) (ymd2ord 2024 6 10))
                     (get_or (rd_raw_sales wb_doc_0609) []))),
              pe_redemptions_count =
                length (filter (in_window run1 wb_item_date (p_key (periods_config ! 3)) (ymd2ord 2024 6 10))
                  (get_or (rd_raw_sales wb_doc_0609) []))\<rparr>"
    by blast
  then have w3: "map_option (\<lambda>e. (r_orders_count (pe_agg e), r_revenue (pe_agg e), pe_redemptions_count e,
                     pe_redemptions_revenue e))
        (wb_entry doc_0609 (u ''days_7'')) = Some (1, PyInt 40, 1, PyInt 30)"
    unfolding period_keys_at by (simp only: wb_window_days_7)
  from W period_keys_at P have "ozon_entry doc_0609 (p_key (periods_config ! 3)) =
      Some \<lparr>pe_agg = aggregate_sales_data run1
                (filter (in_window run1 o_created_at (p_key (periods_config ! 3)) (ymd2ord 2024 6 10))
                   (get_or (rd_raw_orders ozon_doc_0609) []))
                (u ''ozon''),
              pe_redemptions_revenue =
                py_sum run1 (map (\<lambda>txn. py_abs (get_or (tx_amount txn) (PyInt 0)))
                  (filter (in_window run1 tx_operation_date (p_key (periods_config ! 3)) (ymd2ord 2024 6 10))
                     (get_or (rd_finance_redemptions ozon_doc_0609) []))),
              pe_redemptions_count =
                length (filter (in_window run1 tx_operation_date (p_key (periods_config ! 3)) (ymd2ord 2024 6 10))
                  (get_or (rd_finance_redemptions ozon_doc_0609) []))\<rparr>"
    by blast
  then have z3: "map_option (\<lambda>e. (r_orders_count (pe_agg e), r_revenue (pe_agg e), pe_redemptions_count e,
                     pe_redemptions_revenue e))
        (ozon_entry doc_0609 (u ''days_7'')) = Some (1, PyInt 0, 1, PyInt 25)"
    unfolding period_keys_at by (simp only: ozon_window_days_7)
  from W period_keys_at have "filter_period run1 o_created_at (periods_config ! 3) (ymd2ord 2024 6 10) [ozon_order_0609]
      = filter (in_window run1 o_created_at (p_key (periods_config ! 3)) (ymd2ord 2024 6 10)) [ozon_order_0609]"
    by blast
  also have "\<dots> = [ozon_order_0609]"
    unfolding period_keys_at by code_simp
  finally have f3: "filter_period run1 o_created_at (periods_config ! 3) (ymd2ord 2024 6 10) [ozon_order_0609]
      = [ozon_order_0609]" .
  from prepare_0609 w0 z0 f0 w1 z1 f1 w3 z3 f3 show ?thesis
    by blast
qed

subsection \<open>Missing and unparsable input\<close>

lemma mp_names_distinct: "Wildberries \<noteq> Ozon"
  by (simp add: Wildberries_def Ozon_def u_def)

lemma has_keys_samples: "has_keys ozon_doc" "has_keys wb_doc"
  by (simp_all add: has_keys_def ozon_doc_def wb_doc_def empty_doc_def)

lemma today_is_period: "periods_config ! 0 \<in> set periods_config" "p_key (periods_config ! 0) = u ''today''"
  by (simp_all add: periods_config_def)

text \<open>
  The summary of every document that \<^verbatim>\<open>prepare\<close> produces: the total stock is the
  sum of the two stock totals, and the sales of today are the sum of the revenues of
  the two today entries, an entry that is not there counting as the int 0.
\<close>

lemma summary_totals:
  assumes "prepare L today wb_file ozon_file = Inr D"
  shows "total_stocks (d_summary D) = wb_stocks (d_summary D) + ozon_stocks (d_summary D)"
    and "total_sales_today (d_summary D)
           = py_add L (today_revenue (wb_entry D (u ''today'')))
               (today_revenue (ozon_entry D (u ''today'')))"
proof -
  from assms obtain wd od where D: "D = build_dashboard L today wd od"
    by (auto simp: prepare_Inr)
  show "total_stocks (d_summary D) = wb_stocks (d_summary D) + ozon_stocks (d_summary D)"
    by (simp add: D build_dashboard_def Let_def)
  have "map_of (d_period_data D) (u ''today'')
      = Some (map_option (\<lambda>d. wb_period L today d (periods_config ! 0)) wd,
              map_option (\<lambda>d. ozon_period L today d (periods_config ! 0)) od)"
    using period_data_lookup [OF today_is_period(1), of L today wd od]
    by (simp add: D today_is_period(2))
  moreover have "map_of (map (\<lambda>p. (p_key p, map_option (\<lambda>d. wb_period L today d p) wd,
                     map_option (\<lambda>d. ozon_period L today d p) od)) periods_config) (u ''today'')
      = Some (map_option (\<lambda>d. wb_period L today d (periods_config ! 0)) wd,
              map_option (\<lambda>d. ozon_period L today d (periods_config ! 0)) od)"
    by (simp add: periods_config_def)
  ultimately show "total_sales_today (d_summary D)
           = py_add L (today_revenue (wb_entry D (u ''today'')))
               (today_revenue (ozon_entry D (u ''today'')))"
    by (simp add: D wb_entry_def ozon_entry_def build_dashboard_def Let_def)
qed

text \<open>
  A file that is missing, or whose text is not JSON, is handled: the run completes,
  the marketplace is marked No Data, its stock total is 0, it has no stocks section
  and no period entries, and the other marketplace, when its document is a non-empty
  object, is Online with its stocks section and its stock total.
\<close>

lemma absent_wb_handled:
  assumes "wb_file = Missing \<or> wb_file = Malformed" and "has_keys od"
  shows "\<exists>D. prepare L today wb_file (Parsed (JObject od)) = Inr D
       \<and> d_marketplaces D = [(Wildberries, No_Data), (Ozon, Online)]
       \<and> wb_stocks (d_summary D) = 0
       \<and> ozon_stocks (d_summary D) = get_or (rd_total_stock_value od) 0
       \<and> d_stocks_wb D = None
       \<and> d_stocks_ozon D = Some (ozon_stocks_of L od)
       \<and> (\<forall>key. wb_entry D key = None)
       \<and> today_revenue (wb_entry D (u ''today'')) = PyInt 0"
proof -
  have D: "prepare L today wb_file (Parsed (JObject od)) = Inr (build_dashboard L today None (Some od))"
    using assms by (auto simp: prepare_def)
  have "wb_entry (build_dashboard L today None (Some od)) key = None" for key
    by (auto simp: wb_entry_def build_dashboard_def Let_def map_of_map
        split: option.splits dest!: map_of_SomeD)
  then show ?thesis
    unfolding D by (simp add: build_dashboard_def Let_def today_revenue_def)
qed

lemma absent_ozon_handled:
  assumes "ozon_file = Missing \<or> ozon_file = Malformed" and "has_keys wd"
  shows "\<exists>D. prepare L today (Parsed (JObject wd)) ozon_file = Inr D
       \<and> d_marketplaces D = [(Wildberries, Online), (Ozon, No_Data)]
       \<and> ozon_stocks (d_summary D) = 0
       \<and> wb_stocks (d_summary D) = get_or (rd_total_stock_value wd) 0
       \<and> d_stocks_ozon D = None
       \<and> d_stocks_wb D = Some (wb_stocks_of L wd)
       \<and> (\<forall>key. ozon_entry D key = None)
       \<and> today_revenue (ozon_entry D (u ''today'')) = PyInt 0"
proof -
  have D: "prepare L today (Parsed (JObject wd)) ozon_file = Inr (build_dashboard L today (Some wd) None)"
    using assms by (auto simp: prepare_def)
  have "ozon_entry (build_dashboard L today (Some wd) None) key = None" for key
    by (auto simp: ozon_entry_def build_dashboard_def Let_def map_of_map
        split: option.splits dest!: map_of_SomeD)
  then show ?thesis
    unfolding D by (simp add: build_dashboard_def Let_def today_revenue_def)
qed

text \<open>
  A file that parses to a value that is true and not an object (a non-empty list, say)
  ends the run too, at the first \<^verbatim>\<open>.get\<close>.
\<close>

lemma non_object_input_aborts:
  "prepare L today (Parsed (JOther True)) Missing = Inl AttributeError"
  by (simp add: prepare_def)

text \<open>
  C9 fails for an unparsable file that \<^verbatim>\<open>load_json\<close> does not expect. A raw file
  whose bytes are not valid UTF-8 makes \<^verbatim>\<open>json.load\<close> raise
  \<^verbatim>\<open>UnicodeDecodeError\<close>, which \<^verbatim>\<open>except json.JSONDecodeError\<close> does not catch:
  the exception leaves \<^verbatim>\<open>load_json\<close> and \<^verbatim>\<open>prepare\<close>, and no document is
  produced, whatever the other file is, while a file whose text is not JSON is handled
  as the claim says.
\<close>

theorem undecodable_input_aborts:
  "prepare L today Undecodable ozon_file = Inl UnicodeDecodeError
   \<and> prepare L today Undecodable (Parsed (JObject ozon_doc)) = Inl UnicodeDecodeError
   \<and> prepare L today (Parsed (JObject wb_doc)) Undecodable = Inl UnicodeDecodeError
   \<and> prepare L today Missing Undecodable = Inl UnicodeDecodeError
   \<and> (\<exists>e. prepare L today wb_file Undecodable = Inl e)
   \<and> (\<exists>D. prepare L today Malformed (Parsed (JObject ozon_doc)) = Inr D
          \<and> d_marketplaces D = [(Wildberries, No_Data), (Ozon, Online)])"
proof -
  have 1: "prepare L today Undecodable f = Inl UnicodeDecodeError" for f
    by (simp add: prepare_def)
  have 2: "prepare L today (Parsed (JObject wb_doc)) Undecodable = Inl UnicodeDecodeError"
    "prepare L today Missing Undecodable = Inl UnicodeDecodeError"
    by (simp_all add: prepare_def)
  have 3: "\<exists>e. prepare L today wb_file Undecodable = Inl e"
    by (cases wb_file) (simp_all add: prepare_def)
  from absent_wb_handled [of Malformed ozon_doc L today] has_keys_samples(1)
  have 4: "\<exists>D. prepare L today Malformed (Parsed (JObject ozon_doc)) = Inr D
          \<and> d_marketplaces D = [(Wildberries, No_Data), (Ozon, Online)]"
    by blast
  from 1 2 3 4 show ?thesis by blast
qed

end
